(* ===== verification/Prelude.thy ===== *)
theory Prelude
  imports Complex_Main "HOL-Library.Sublist"
begin

text \<open>
  Shared vocabulary of the GISPointTools development: the planar point type that
  QGIS hands to the plugin (\<open>QgsPointXY\<close>, read through \<open>x()\<close> and \<open>y()\<close>), the
  Python exceptions the modelled code can raise, the named theorem collection
  that the geometric component proofs share, and generic lemmas on square roots,
  first-minimum scans and lists that several components use.
  Python floats are modelled as \<open>real\<close>: the spec asks for the geometry, not for
  bit-exact IEEE rounding.
\<close>

section \<open>Points and polylines\<close>

record pointXY =
  ptx :: real
  pty :: real

type_synonym polyline = "pointXY list"

text \<open>Python exceptions that the modelled code raises, as values.\<close>

datatype py_error =
    IndexError
  | TypeError
  | UnboundLocalError
  | InvalidAlignment
  | KeyError
  | AttributeError
  | RuntimeError

named_theorems geom_simps "unfolding rules of the planar geometry"

section \<open>First-minimum scans\<close>

text \<open>
  A running minimum over candidates \<open>cand 0, cand 1, \<dots>\<close> that replaces the best
  candidate only on a strictly smaller distance: the shape of every
  "closest so far" loop. \<open>None\<close> is the state before the first candidate.
\<close>

definition scan_step ::
  "(nat \<Rightarrow> real \<times> 'a) \<Rightarrow> (real \<times> 'a \<times> nat) option \<Rightarrow> nat \<Rightarrow> (real \<times> 'a \<times> nat) option" where
  "scan_step cand best i =
     (case cand i of (d, f) \<Rightarrow>
        (case best of
           None \<Rightarrow> Some (d, f, i)
         | Some (bd, bf, bi) \<Rightarrow> if d < bd then Some (d, f, i) else best))"

section \<open>Square roots\<close>

lemma sqrt_eq_by_square:
  assumes "0 \<le> b" and "b * b = a"
  shows "sqrt a = b"
  using assms by (metis real_sqrt_abs abs_of_nonneg power2_eq_square)

lemma sqrt_sum_squares_nonneg [simp]: "0 \<le> sqrt (a\<^sup>2 + b\<^sup>2)"
  by simp

lemma sqrt_scaled_sum_squares:
  "sqrt ((t * a)\<^sup>2 + (t * b)\<^sup>2) = \<bar>t\<bar> * sqrt (a\<^sup>2 + b\<^sup>2)"
proof -
  have "(t * a)\<^sup>2 + (t * b)\<^sup>2 = t\<^sup>2 * (a\<^sup>2 + b\<^sup>2)"
    by (simp add: power_mult_distrib algebra_simps)
  then show ?thesis by (simp add: real_sqrt_mult)
qed

text \<open>Comparisons of a numeral with a square root, for evaluating distances at concrete points.\<close>

lemma numeral_sqrt_cmp [simp]:
  "((numeral a :: real) < sqrt y) \<longleftrightarrow> (numeral a)\<^sup>2 < y"
  "((numeral a :: real) \<le> sqrt y) \<longleftrightarrow> (numeral a)\<^sup>2 \<le> y"
  "(sqrt y < (numeral a :: real)) \<longleftrightarrow> y < (numeral a)\<^sup>2"
  "(sqrt y \<le> (numeral a :: real)) \<longleftrightarrow> y \<le> (numeral a)\<^sup>2"
proof -
  have n: "numeral a = sqrt ((numeral a :: real)\<^sup>2)" by (simp only: real_sqrt_abs abs_numeral)
  show "((numeral a :: real) < sqrt y) \<longleftrightarrow> (numeral a)\<^sup>2 < y"
    by (subst n) (rule real_sqrt_less_iff)
  show "((numeral a :: real) \<le> sqrt y) \<longleftrightarrow> (numeral a)\<^sup>2 \<le> y"
    by (subst n) (rule real_sqrt_le_iff)
  show "(sqrt y < (numeral a :: real)) \<longleftrightarrow> y < (numeral a)\<^sup>2"
    by (subst n) (rule real_sqrt_less_iff)
  show "(sqrt y \<le> (numeral a :: real)) \<longleftrightarrow> y \<le> (numeral a)\<^sup>2"
    by (subst n) (rule real_sqrt_le_iff)
qed

section \<open>Facts about first-minimum scans\<close>

lemma scan_upt_first_min:
  assumes "0 < n"
  shows "\<exists>d f i. foldl (scan_step cand) None [0..<n] = Some (d, f, i) \<and> i < n \<and>
           cand i = (d, f) \<and> (\<forall>j<n. d \<le> fst (cand j)) \<and> (\<forall>j<i. d < fst (cand j))"
  using assms
proof (induction n)
  case 0
  then show ?case by simp
next
  case (Suc n)
  show ?case
  proof (cases n)
    case 0
    then show ?thesis by (simp add: scan_step_def split: prod.splits)
  next
    case (Suc m)
    then obtain d f i where
      IH: "foldl (scan_step cand) None [0..<n] = Some (d, f, i)" "i < n" "cand i = (d, f)"
          "\<forall>j<n. d \<le> fst (cand j)" "\<forall>j<i. d < fst (cand j)"
      using Suc.IH by auto
    obtain d' f' where c: "cand n = (d', f')" by fastforce
    have step: "foldl (scan_step cand) None [0..<Suc n] = scan_step cand (Some (d, f, i)) n"
      using IH(1) by simp
    show ?thesis
    proof (cases "d' < d")
      case True
      then have "scan_step cand (Some (d, f, i)) n = Some (d', f', n)"
        by (simp add: scan_step_def c)
      with step IH(4) c True show ?thesis
        by (auto simp: less_Suc_eq intro: less_imp_le)
    next
      case False
      then have "scan_step cand (Some (d, f, i)) n = Some (d, f, i)"
        by (simp add: scan_step_def c)
      with step IH(2-5) c False show ?thesis
        by (auto simp: less_Suc_eq)
    qed
  qed
qed

section \<open>Lists\<close>

text \<open>Consecutive pairs of a list, as a loop over \<open>range(1, n)\<close> visits them.\<close>

lemma zip_tl_snoc:
  "xs \<noteq> [] \<Longrightarrow> zip (xs @ [x]) (tl (xs @ [x])) = zip xs (tl xs) @ [(last xs, x)]"
  by (induction xs rule: induct_list012) auto

section \<open>Deterministic relations\<close>

text \<open>Two runs of a deterministic relation from one state that both stop end in the same state.\<close>

lemma rtranclp_det_final:
  assumes det: "\<And>x y z. r x y \<Longrightarrow> r x z \<Longrightarrow> y = z"
    and "r\<^sup>*\<^sup>* s a" "r\<^sup>*\<^sup>* s b" "\<And>y. \<not> r a y" "\<And>y. \<not> r b y"
  shows "a = b"
  using assms(2,3,5)
proof (induction arbitrary: b rule: converse_rtranclp_induct)
  case base
  then show ?case using assms(4) by (auto elim: converse_rtranclpE)
next
  case (step s s')
  note first = step.hyps(1) and IH = step.IH and stops = step.prems(2)
  from step.prems(1) show ?case
  proof (cases rule: converse_rtranclpE)
    case base
    with first stops show ?thesis by blast
  next
    case (step s'')
    with det [OF first] have "s'' = s'" by blast
    with step IH stops show ?thesis by blast
  qed
qed

lemma drop_eq_ConsD: "drop k xs = y # ys \<Longrightarrow> k < length xs \<and> xs ! k = y \<and> drop (Suc k) xs = ys"
  by (metis Cons_nth_drop_Suc drop_all list.distinct(1) list.inject not_le)

text \<open>An infinite run of a deterministic relation passes through every state its \<open>n\<close>-step paths reach.\<close>

lemma chain_relpowp:
  assumes det: "\<forall>x y z. r x y \<longrightarrow> r x z \<longrightarrow> y = z"
    and chain: "\<forall>i. r (f i) (f (Suc i))"
  shows "(r ^^ n) (f 0) t \<Longrightarrow> f n = t"
proof (induction n arbitrary: t)
  case 0
  then show ?case by (auto elim: relpowp_0_E)
next
  case (Suc n)
  from Suc.prems obtain u where u: "(r ^^ n) (f 0) u" "r u t" by (auto elim: relpowp_Suc_E)
  from Suc.IH [OF u(1)] chain u(2) show ?case using det by blast
qed

text \<open>On a deterministic relation, every state on the way to a final state leads to it.\<close>

lemma rtranclp_det_between:
  assumes det: "\<forall>x y z. r x y \<longrightarrow> r x z \<longrightarrow> y = z"
    and "r\<^sup>*\<^sup>* a s" "r\<^sup>*\<^sup>* a b" "\<And>y. \<not> r b y"
  shows "r\<^sup>*\<^sup>* s b"
  using assms(2,3)
proof (induction rule: converse_rtranclp_induct)
  case base
  then show ?case .
next
  case (step a a')
  note first = step.hyps(1) and IH = step.IH
  from step.prems show ?case
  proof (cases rule: converse_rtranclpE)
    case base
    with first assms(4) show ?thesis by blast
  next
    case (step a'')
    with det first have "a'' = a'" by blast
    with step IH show ?thesis by blast
  qed
qed

end
