(* ===== verification/Geometry.thy ===== *)
theory Geometry
  imports Prelude
begin

text \<open>
  Planar geometry of \<open>station_offset_calc\<close> (\<open>calcDistance\<close> and the closest point
  of a segment used by \<open>projectPoint\<close>). The module is imported by
  \<open>src/station_offset_algorithm.py\<close> but is not among the repository's sources, so
  these definitions follow the spec (sections 4.1 and 4.2): Euclidean distance, and
  the foot of the perpendicular with its parameter clamped to \<open>[0, 1]\<close>, a zero-length
  segment giving its start vertex. The lemmas show that the foot lies on the
  segment, that no point of the segment is closer, and that its distance from the
  segment's start never exceeds the segment's length.
\<close>

section \<open>Distance\<close>

definition calcDistance :: "pointXY \<Rightarrow> pointXY \<Rightarrow> real" where
  "calcDistance p q = sqrt ((ptx q - ptx p)\<^sup>2 + (pty q - pty p)\<^sup>2)"

definition sqdist :: "pointXY \<Rightarrow> pointXY \<Rightarrow> real" where
  "sqdist p q = (ptx q - ptx p)\<^sup>2 + (pty q - pty p)\<^sup>2"

section \<open>Closest point of a segment\<close>

definition lerp :: "pointXY \<Rightarrow> pointXY \<Rightarrow> real \<Rightarrow> pointXY" where
  "lerp v w t = \<lparr>ptx = ptx v + t * (ptx w - ptx v), pty = pty v + t * (pty w - pty v)\<rparr>"

definition clamp01 :: "real \<Rightarrow> real" where
  "clamp01 t = max 0 (min 1 t)"

definition seg_param :: "pointXY \<Rightarrow> pointXY \<Rightarrow> pointXY \<Rightarrow> real" where
  "seg_param v w p =
     ((ptx p - ptx v) * (ptx w - ptx v) + (pty p - pty v) * (pty w - pty v)) / sqdist v w"

definition closestPoint :: "pointXY \<Rightarrow> pointXY \<Rightarrow> pointXY \<Rightarrow> pointXY" where
  "closestPoint v w p = (if v = w then v else lerp v w (clamp01 (seg_param v w p)))"

declare calcDistance_def [geom_simps] sqdist_def [geom_simps] lerp_def [geom_simps]

definition seg_dot :: "pointXY \<Rightarrow> pointXY \<Rightarrow> pointXY \<Rightarrow> real" where
  "seg_dot v w p = (ptx p - ptx v) * (ptx w - ptx v) + (pty p - pty v) * (pty w - pty v)"

section \<open>Basic facts\<close>

lemma calcDistance_sqdist: "calcDistance p q = sqrt (sqdist p q)"
  by (simp add: calcDistance_def sqdist_def)

lemma calcDistance_nonneg [simp]: "0 \<le> calcDistance p q"
  by (simp add: calcDistance_def)

lemma sqdist_nonneg [simp]: "0 \<le> sqdist p q"
  by (simp add: sqdist_def)

lemma calcDistance_commute: "calcDistance p q = calcDistance q p"
  by (simp add: calcDistance_def power2_commute)

lemma calcDistance_self [simp]: "calcDistance p p = 0"
  by (simp add: calcDistance_def)

lemma pointXY_eq_iff: "((p::pointXY) = q) \<longleftrightarrow> ptx p = ptx q \<and> pty p = pty q"
  by (cases p; cases q) simp

lemma sqdist_pos: "v \<noteq> w \<Longrightarrow> 0 < sqdist v w"
  by (auto simp: sqdist_def pointXY_eq_iff sum_power2_gt_zero_iff)

lemma clamp01_bounds: "0 \<le> clamp01 t" "clamp01 t \<le> 1"
  by (simp_all add: clamp01_def)

lemma lerp_0 [simp]: "lerp v w 0 = v"
  by (simp add: lerp_def)

lemma lerp_1 [simp]: "lerp v w 1 = w"
  by (simp add: lerp_def)

lemma calcDistance_lerp_start:
  "calcDistance v (lerp v w t) = \<bar>t\<bar> * calcDistance v w"
  by (simp add: calcDistance_def lerp_def sqrt_scaled_sum_squares [symmetric])

section \<open>The foot of the perpendicular is the closest point of the segment\<close>

lemma seg_param_dot: "seg_param v w p = seg_dot v w p / sqdist v w"
  by (simp add: seg_param_def seg_dot_def)

text \<open>The squared distance to a point of the line through \<open>v\<close> and \<open>w\<close> is a quadratic in its parameter.\<close>

lemma sqdist_lerp:
  "sqdist p (lerp v w s) = sqdist v p - 2 * s * seg_dot v w p + s\<^sup>2 * sqdist v w"
  by (simp add: sqdist_def lerp_def seg_dot_def power2_eq_square algebra_simps)

text \<open>Clamping the minimiser of a convex quadratic to \<open>[0, 1]\<close> minimises it on \<open>[0, 1]\<close>.\<close>

lemma clamp01_minimises_gap:
  fixes A B D s :: real
  assumes D: "0 < D" and s: "0 \<le> s" "s \<le> 1"
  defines "t \<equiv> clamp01 (B / D)"
  shows "(A - 2 * t * B + t\<^sup>2 * D) + (s - t)\<^sup>2 * D \<le> A - 2 * s * B + s\<^sup>2 * D"
proof -
  have diff: "(A - 2 * s * B + s\<^sup>2 * D) - (A - 2 * t * B + t\<^sup>2 * D)
              = (s - t)\<^sup>2 * D + 2 * ((s - t) * (t * D - B))"
    by (simp add: power2_eq_square algebra_simps)
  have cross: "0 \<le> (s - t) * (t * D - B)"
  proof (cases "B / D < 0")
    case True
    then have "B < 0" using D by (simp add: divide_less_0_iff)
    moreover have "t = 0" using True by (simp add: t_def clamp01_def)
    ultimately show ?thesis using s by (simp add: mult_nonneg_nonpos)
  next
    case False
    show ?thesis
    proof (cases "1 < B / D")
      case True
      then have "D < B" using D by (simp add: less_divide_eq)
      moreover have "t = 1" using True by (simp add: t_def clamp01_def)
      ultimately show ?thesis using s by (simp add: mult_nonpos_nonpos)
    next
      case False
      with \<open>\<not> B / D < 0\<close> have "t = B / D" by (simp add: t_def clamp01_def)
      then have "t * D - B = 0" using D by simp
      then show ?thesis by simp
    qed
  qed
  from diff cross show ?thesis by linarith
qed

lemma clamp01_minimises:
  fixes A B D s :: real
  assumes D: "0 < D" and s: "0 \<le> s" "s \<le> 1"
  defines "t \<equiv> clamp01 (B / D)"
  shows "A - 2 * t * B + t\<^sup>2 * D \<le> A - 2 * s * B + s\<^sup>2 * D"
proof -
  have "0 \<le> (s - t)\<^sup>2 * D" using D by simp
  with clamp01_minimises_gap [OF assms(1-3), of A B] show ?thesis by (simp add: t_def)
qed

lemma closestPoint_on_segment:
  "\<exists>t. 0 \<le> t \<and> t \<le> 1 \<and> closestPoint v w p = lerp v w t"
proof (cases "v = w")
  case True
  then show ?thesis by (intro exI [of _ 0]) (simp add: closestPoint_def)
next
  case False
  then show ?thesis
    by (intro exI [of _ "clamp01 (seg_param v w p)"]) (simp add: closestPoint_def clamp01_bounds)
qed

lemma sqdist_closestPoint_le:
  assumes "0 \<le> s" "s \<le> 1"
  shows "sqdist p (closestPoint v w p) \<le> sqdist p (lerp v w s)"
proof (cases "v = w")
  case True
  then have "lerp v w s = v" by (simp add: lerp_def)
  with True show ?thesis by (simp add: closestPoint_def)
next
  case False
  then have "0 < sqdist v w" by (rule sqdist_pos)
  from clamp01_minimises [OF this assms, of "sqdist v p" "seg_dot v w p"] False
  show ?thesis by (simp add: closestPoint_def sqdist_lerp seg_param_dot)
qed

lemma calcDistance_mono_sqdist:
  "sqdist p q \<le> sqdist p r \<Longrightarrow> calcDistance p q \<le> calcDistance p r"
  by (simp add: calcDistance_sqdist)

text \<open>The clamped foot is the only closest point of the segment: a point of the segment no farther from \<open>p\<close> is the foot itself.\<close>

lemma closestPoint_unique:
  assumes s: "0 \<le> s" "s \<le> 1" and le: "sqdist p (lerp v w s) \<le> sqdist p (closestPoint v w p)"
  shows "lerp v w s = closestPoint v w p"
proof (cases "v = w")
  case True
  then show ?thesis by (simp add: closestPoint_def lerp_def)
next
  case False
  let ?D = "sqdist v w" and ?t = "clamp01 (seg_dot v w p / sqdist v w)"
  have D: "0 < ?D" using False by (rule sqdist_pos)
  have foot: "closestPoint v w p = lerp v w ?t" using False by (simp add: closestPoint_def seg_param_dot)
  from clamp01_minimises_gap [OF D s, of "sqdist v p" "seg_dot v w p"] le foot
  have "(s - ?t)\<^sup>2 * ?D \<le> 0" by (simp add: sqdist_lerp)
  with D have "s = ?t" by (simp add: mult_le_0_iff)
  with foot show ?thesis by simp
qed

section \<open>Properties of the closest point\<close>

text \<open>No point of the segment \<open>[v, w]\<close> is closer to \<open>p\<close> than the clamped foot of the perpendicular.\<close>

lemma closestPoint_optimal:
  assumes "0 \<le> s" "s \<le> 1"
  shows "calcDistance p (closestPoint v w p) \<le> calcDistance p (lerp v w s)"
  using sqdist_closestPoint_le [OF assms] by (rule calcDistance_mono_sqdist)

lemma calcDistance_closestPoint_start:
  "\<exists>t. 0 \<le> t \<and> t \<le> 1 \<and> calcDistance v (closestPoint v w p) = t * calcDistance v w"
proof -
  obtain t where t: "0 \<le> t" "t \<le> 1" "closestPoint v w p = lerp v w t"
    using closestPoint_on_segment by blast
  then show ?thesis by (intro exI [of _ t]) (simp add: calcDistance_lerp_start)
qed

text \<open>The foot is never farther from the segment's start than the segment is long, so the distance into the segment the station adds lies in \<open>[0, segment length]\<close>.\<close>

lemma closestPoint_station_bound:
  "0 \<le> calcDistance v (closestPoint v w p) \<and> calcDistance v (closestPoint v w p) \<le> calcDistance v w"
proof -
  obtain t where "0 \<le> t" "t \<le> 1" "calcDistance v (closestPoint v w p) = t * calcDistance v w"
    using calcDistance_closestPoint_start by blast
  moreover have "t * calcDistance v w \<le> calcDistance v w"
    using calcDistance_nonneg [of v w] \<open>0 \<le> t\<close> \<open>t \<le> 1\<close> by (rule mult_left_le_one_le)
  ultimately show ?thesis by simp
qed

end
