(* ===== verification/Alignment.thy ===== *)
theory Alignment
  imports Geometry
begin

text \<open>
  The alignment model of \<open>StationOffsetAlgorithm.processAlgorithm\<close>
  (\<open>src/station_offset_algorithm.py\<close>, lines 186--197): the cumulative distance
  table \<open>vertex_m\<close>, built by an index loop over the vertices, and the station
  of a point given its segment and its distance into the segment (line 212).
  The loop is proved equal to a closed description (entry \<open>i\<close> is the path
  length from vertex 0 to vertex \<open>i\<close>), from which its invariants follow:
  one entry per vertex, first entry 0, each entry the previous one plus the
  segment's length, non-decreasing, last entry the length of the polyline.
\<close>

section \<open>The loop of the source\<close>

text \<open>
  \<^verbatim>\<open>
  vertex_m = []
  n = len(verticies)
  vertex_m.append(0)
  if(n<2): continue
  for i in range(1,n):
      St = verticies[i-1]
      Ed = verticies[i]
      distance = math.sqrt((Ed.x()-St.x())**2+(Ed.y()-St.y())**2)
      vertex_m.append(vertex_m[i-1] + distance)
  \<close>
  The loop reads \<open>vertex_m[i-1]\<close> of a list of length \<open>i\<close> and the vertices
  \<open>i-1\<close> and \<open>i\<close> for \<open>1 \<le> i < n\<close>: every index is in range, which the
  invariant below records.
\<close>

function vertex_m_loop :: "polyline \<Rightarrow> nat \<Rightarrow> real list \<Rightarrow> real list" where
  "vertex_m_loop verticies i vertex_m =
     (if i < length verticies then
        (let St = verticies ! (i - 1);
             Ed = verticies ! i;
             distance = sqrt ((ptx Ed - ptx St)\<^sup>2 + (pty Ed - pty St)\<^sup>2)
         in vertex_m_loop verticies (Suc i) (vertex_m @ [vertex_m ! (i - 1) + distance]))
      else vertex_m)"
  by pat_completeness auto
termination
  by (relation "measure (\<lambda>(verticies, i, vertex_m). length verticies - i)") auto

declare vertex_m_loop.simps [simp del]

definition build_vertex_m :: "polyline \<Rightarrow> real list" where
  "build_vertex_m verticies = vertex_m_loop verticies 1 [0]"

definition station_at :: "real list \<Rightarrow> nat \<Rightarrow> real \<Rightarrow> real" where
  "station_at vertex_m segment d = vertex_m ! segment + d"

section \<open>Closed description of the table\<close>

definition seg_len :: "polyline \<Rightarrow> nat \<Rightarrow> real" where
  "seg_len vs k = calcDistance (vs ! k) (vs ! Suc k)"

definition path_len :: "polyline \<Rightarrow> nat \<Rightarrow> real" where
  "path_len vs i = sum_list (map (seg_len vs) [0..<i])"

definition station_table :: "polyline \<Rightarrow> real list" where
  "station_table vs = map (path_len vs) [0..<length vs]"

definition polyline_length :: "polyline \<Rightarrow> real" where
  "polyline_length vs = sum_list (map (\<lambda>(a, b). calcDistance a b) (zip vs (tl vs)))"

lemma path_len_0 [simp]: "path_len vs 0 = 0"
  by (simp add: path_len_def)

lemma path_len_Suc [simp]: "path_len vs (Suc i) = path_len vs i + seg_len vs i"
  by (simp add: path_len_def)

lemma seg_len_nonneg [simp]: "0 \<le> seg_len vs k"
  by (simp add: seg_len_def)

lemma path_len_mono: "i \<le> j \<Longrightarrow> path_len vs i \<le> path_len vs j"
proof (induction j)
  case 0
  then show ?case by simp
next
  case (Suc j)
  show ?case
  proof (cases "i = Suc j")
    case True
    then show ?thesis by simp
  next
    case False
    with Suc have "path_len vs i \<le> path_len vs j" by simp
    then show ?thesis using seg_len_nonneg [of vs j] by (simp del: seg_len_nonneg)
  qed
qed

text \<open>The loop invariant: after the iteration for \<open>i - 1\<close>, the table holds the first \<open>i\<close> path lengths.\<close>

lemma vertex_m_loop_table:
  assumes "0 < i" "i \<le> length vs" "m = map (path_len vs) [0..<i]"
  shows "vertex_m_loop vs i m = station_table vs"
  using assms
proof (induction vs i m rule: vertex_m_loop.induct)
  case (1 vs i m)
  show ?case
  proof (cases "i < length vs")
    case True
    let ?dist = "sqrt ((ptx (vs ! i) - ptx (vs ! (i - 1)))\<^sup>2 + (pty (vs ! i) - pty (vs ! (i - 1)))\<^sup>2)"
    have last: "m ! (i - 1) = path_len vs (i - 1)"
      using "1.prems" by simp
    have len: "?dist = seg_len vs (i - 1)"
      using "1.prems"(1) by (simp add: seg_len_def calcDistance_def)
    have next_m: "m @ [m ! (i - 1) + ?dist] = map (path_len vs) [0..<Suc i]"
      using "1.prems" last len by (cases i) simp_all
    have "vertex_m_loop vs (Suc i) (m @ [m ! (i - 1) + ?dist]) = station_table vs"
      by (rule "1.IH" [OF True refl refl refl zero_less_Suc Suc_leI [OF True] next_m])
    moreover have "vertex_m_loop vs i m = vertex_m_loop vs (Suc i) (m @ [m ! (i - 1) + ?dist])"
      using True by (simp only: vertex_m_loop.simps [of vs i m] Let_def if_True)
    ultimately show ?thesis by simp
  next
    case False
    with "1.prems" have "i = length vs" by simp
    moreover have "vertex_m_loop vs i m = m"
      using False by (simp add: vertex_m_loop.simps [of vs i m])
    ultimately show ?thesis
      using "1.prems"(3) by (simp add: station_table_def)
  qed
qed

lemma path_len_full: "path_len vs (length vs - 1) = polyline_length vs"
proof (induction vs rule: rev_induct)
  case Nil
  then show ?case by (simp add: polyline_length_def)
next
  case (snoc x xs)
  show ?case
  proof (cases xs rule: rev_cases)
    case Nil
    then show ?thesis by (simp add: polyline_length_def)
  next
    case (snoc ys y)
    have seg: "seg_len (xs @ [x]) k = seg_len xs k" if "Suc k < length xs" for k
      using that by (simp add: seg_len_def nth_append)
    have "path_len (xs @ [x]) (length xs - 1) = path_len xs (length xs - 1)"
      unfolding path_len_def by (rule arg_cong [where f = sum_list]) (auto simp: seg)
    moreover have "seg_len (xs @ [x]) (length xs - 1) = calcDistance y x"
      using snoc by (simp add: seg_len_def nth_append)
    moreover have "zip (xs @ [x]) (tl (xs @ [x])) = zip xs (tl xs) @ [(y, x)]"
      using zip_tl_snoc [of xs x] snoc by simp
    moreover have "length xs - 1 + 1 = length (xs @ [x]) - 1" using snoc by simp
    ultimately show ?thesis
      using snoc.IH path_len_Suc [of "xs @ [x]" "length xs - 1"]
      by (simp add: polyline_length_def)
  qed
qed

lemma build_vertex_m_table:
  "build_vertex_m vs = (if vs = [] then [0] else station_table vs)"
proof (cases vs)
  case Nil
  then show ?thesis by (simp add: build_vertex_m_def vertex_m_loop.simps)
next
  case (Cons v vs')
  then have "vertex_m_loop vs 1 [0] = station_table vs"
    by (intro vertex_m_loop_table) simp_all
  with Cons show ?thesis by (simp add: build_vertex_m_def)
qed

lemma build_vertex_m_nonempty: "vs \<noteq> [] \<Longrightarrow> build_vertex_m vs = station_table vs"
  by (simp add: build_vertex_m_table)

lemma length_build_vertex_m: "length (build_vertex_m vs) = max 1 (length vs)"
  by (cases vs) (simp_all add: build_vertex_m_table station_table_def)

lemma build_vertex_m_nth:
  "i < length vs \<Longrightarrow> build_vertex_m vs ! i = path_len vs i"
  by (auto simp: build_vertex_m_table station_table_def)

lemmas vertex_m_facts = build_vertex_m_nth length_build_vertex_m path_len_Suc seg_len_def

section \<open>Properties of the table\<close>

text \<open>C3: the loop of lines 189--197 computes the closed table: entry \<open>i\<close> is the path length from vertex 0 to vertex \<open>i\<close>; an empty polyline keeps the initial \<open>[0]\<close>.\<close>

theorem build_vertex_m_eq:
  "build_vertex_m vs = (if vs = [] then [0] else station_table vs)"
  by (rule build_vertex_m_table)

lemma build_vertex_m_last: "last (build_vertex_m vs) = polyline_length vs"
proof (cases "vs = []")
  case True
  then show ?thesis by (simp add: build_vertex_m_table station_table_def polyline_length_def)
next
  case False
  have len: "length (build_vertex_m vs) = length vs"
    using False by (cases vs) (simp_all add: length_build_vertex_m)
  then have ne: "build_vertex_m vs \<noteq> []" using False by auto
  have "last (build_vertex_m vs) = build_vertex_m vs ! (length vs - 1)"
    by (simp add: last_conv_nth [OF ne] len)
  also have "\<dots> = path_len vs (length vs - 1)"
    using False by (simp add: build_vertex_m_nth)
  finally show ?thesis using path_len_full [of vs] by simp
qed

text \<open>C4: the table is non-decreasing, starts at 0 (the station of the first vertex is 0) and ends at the length of the whole polyline ([0] for an empty one, of length 0).\<close>

theorem vertex_m_sorted_start:
  "sorted (build_vertex_m vs) \<and> station_at (build_vertex_m vs) 0 0 = 0 \<and>
   last (build_vertex_m vs) = polyline_length vs"
proof (intro conjI)
  show "sorted (build_vertex_m vs)"
    by (auto simp: build_vertex_m_table station_table_def sorted_iff_nth_mono path_len_mono)
  show "station_at (build_vertex_m vs) 0 0 = 0"
  proof (cases vs)
    case Nil
    then show ?thesis by (simp add: station_at_def build_vertex_m_table)
  next
    case (Cons v vs')
    then show ?thesis by (simp add: station_at_def build_vertex_m_nth)
  qed
  show "last (build_vertex_m vs) = polyline_length vs"
    by (rule build_vertex_m_last)
qed

end
