(* ===== verification/Projector.thy ===== *)
theory Projector
  imports Geometry
begin

text \<open>
  The point projector, \<open>projectPoint(verticies, point, maxOffset, feedback)\<close> of
  \<open>station_offset_calc\<close>, called at line 205 of \<open>src/station_offset_algorithm.py\<close>.
  Its module is not among the repository's sources, so the model follows the spec
  (section 4.2): for every segment \<open>[v[i], v[i+1]]\<close> in order, the clamped foot of
  the perpendicular and its distance; a running minimum that a later segment
  replaces only on a strictly smaller distance (so the lower index wins a tie);
  \<open>OutOfRange\<close> when the minimum exceeds \<open>maxOffset\<close>; a polyline of fewer than two
  vertices is the error \<open>InvalidAlignment\<close>. The caller reads the result as the
  triple \<open>offset, p, segment\<close>, \<open>offset\<close> being \<open>None\<close> out of range: here the
  spec's \<open>projection\<close> datatype. The cancellation polls the spec allows inside
  the projector are not modelled (the caller polls between alignments).

  The lemmas show that the scan computes the first minimum of the segment
  distances (a refinement of a specification written with \<open>Min\<close> and \<open>LEAST\<close>),
  that the reported offset is the distance from the point to the whole polyline,
  and that \<open>OutOfRange\<close> is reported exactly when no point of the polyline lies
  within \<open>maxOffset\<close>.
\<close>

section \<open>The projector\<close>

datatype projection =
    OutOfRange
  | InRange nat pointXY real

definition segment_candidate :: "polyline \<Rightarrow> pointXY \<Rightarrow> nat \<Rightarrow> real \<times> pointXY" where
  "segment_candidate verticies point i =
     (let foot = closestPoint (verticies ! i) (verticies ! Suc i) point
      in (calcDistance point foot, foot))"

definition projectPoint :: "polyline \<Rightarrow> pointXY \<Rightarrow> real \<Rightarrow> py_error + projection" where
  "projectPoint verticies point maxOffset =
     (if length verticies < 2 then Inl InvalidAlignment
      else
        (case foldl (scan_step (segment_candidate verticies point)) None [0..<length verticies - 1] of
           None \<Rightarrow> Inl InvalidAlignment
         | Some (offset, p, segment) \<Rightarrow>
             if maxOffset < offset then Inr OutOfRange else Inr (InRange segment p offset)))"

section \<open>Specification\<close>

definition seg_dist :: "polyline \<Rightarrow> pointXY \<Rightarrow> nat \<Rightarrow> real" where
  "seg_dist vs p i = fst (segment_candidate vs p i)"

definition seg_foot :: "polyline \<Rightarrow> pointXY \<Rightarrow> nat \<Rightarrow> pointXY" where
  "seg_foot vs p i = snd (segment_candidate vs p i)"

definition offset_min :: "polyline \<Rightarrow> pointXY \<Rightarrow> real" where
  "offset_min vs p = Min (seg_dist vs p ` {..<length vs - 1})"

definition nearest_segment :: "polyline \<Rightarrow> pointXY \<Rightarrow> nat" where
  "nearest_segment vs p = (LEAST i. seg_dist vs p i = offset_min vs p)"

definition project_spec :: "polyline \<Rightarrow> pointXY \<Rightarrow> real \<Rightarrow> projection" where
  "project_spec vs p m =
     (if m < offset_min vs p then OutOfRange
      else InRange (nearest_segment vs p) (seg_foot vs p (nearest_segment vs p)) (offset_min vs p))"

text \<open>The points of the polyline: every point of every segment.\<close>

definition polyline_points :: "polyline \<Rightarrow> pointXY set" where
  "polyline_points vs = {lerp (vs ! j) (vs ! Suc j) s | j s. j < length vs - 1 \<and> 0 \<le> s \<and> s \<le> 1}"

lemma seg_foot_dist: "seg_dist vs p i = calcDistance p (seg_foot vs p i)"
  by (simp add: seg_dist_def seg_foot_def segment_candidate_def Let_def)

lemma seg_foot_closestPoint: "seg_foot vs p i = closestPoint (vs ! i) (vs ! Suc i) p"
  by (simp add: seg_foot_def segment_candidate_def Let_def)

section \<open>The scan computes the first minimum\<close>

lemma projectPoint_first_min:
  assumes "2 \<le> length vs"
  shows "\<exists>i. i < length vs - 1 \<and> (\<forall>j<length vs - 1. seg_dist vs p i \<le> seg_dist vs p j) \<and>
           (\<forall>j<i. seg_dist vs p i < seg_dist vs p j) \<and>
           projectPoint vs p m =
             (if m < seg_dist vs p i then Inr OutOfRange
              else Inr (InRange i (seg_foot vs p i) (seg_dist vs p i)))"
proof -
  from assms have "0 < length vs - 1" by simp
  from scan_upt_first_min [OF this, of "segment_candidate vs p"]
  obtain d f i where
    scan: "foldl (scan_step (segment_candidate vs p)) None [0..<length vs - 1] = Some (d, f, i)"
      and i: "i < length vs - 1" and c: "segment_candidate vs p i = (d, f)"
      and le: "\<forall>j<length vs - 1. d \<le> fst (segment_candidate vs p j)"
      and lt: "\<forall>j<i. d < fst (segment_candidate vs p j)"
    by blast
  have d: "seg_dist vs p i = d" and f: "seg_foot vs p i = f"
    using c by (simp_all add: seg_dist_def seg_foot_def)
  show ?thesis
    using assms scan i le lt d f
    by (intro exI [of _ i]) (auto simp: projectPoint_def seg_dist_def)
qed

lemma offset_min_eq:
  assumes "i < length vs - 1" "\<forall>j<length vs - 1. seg_dist vs p i \<le> seg_dist vs p j"
  shows "offset_min vs p = seg_dist vs p i"
  unfolding offset_min_def using assms by (intro Min_eqI) auto

lemma nearest_segment_eq:
  assumes "i < length vs - 1" "\<forall>j<length vs - 1. seg_dist vs p i \<le> seg_dist vs p j"
    and "\<forall>j<i. seg_dist vs p i < seg_dist vs p j"
  shows "nearest_segment vs p = i"
  unfolding nearest_segment_def offset_min_eq [OF assms(1,2)]
proof (rule Least_equality)
  show "seg_dist vs p i = seg_dist vs p i" ..
  fix y assume "seg_dist vs p y = seg_dist vs p i"
  with assms(3) show "i \<le> y" by (metis less_irrefl not_le_imp_less)
qed

lemma projectPoint_minimal_point:
  assumes "j < length vs - 1" "0 \<le> s" "s \<le> 1"
  shows "seg_dist vs p j \<le> calcDistance p (lerp (vs ! j) (vs ! Suc j) s)"
  using sqdist_closestPoint_le [OF assms(2,3)]
  by (simp add: seg_foot_dist seg_foot_closestPoint calcDistance_mono_sqdist)

lemma seg_foot_in_polyline:
  "j < length vs - 1 \<Longrightarrow> seg_foot vs p j \<in> polyline_points vs"
  using closestPoint_on_segment [of "vs ! j" "vs ! Suc j" p]
  by (auto simp: polyline_points_def seg_foot_closestPoint)

text \<open>The unfolding rules that evaluate the projector at a concrete polyline and point.\<close>

lemmas projector_eval = projectPoint_def segment_candidate_def scan_step_def closestPoint_def
  lerp_def clamp01_def seg_param_def sqdist_def calcDistance_def upt_rec

lemma projectPoint_example:
  "projectPoint [\<lparr>ptx = 0, pty = 0\<rparr>, \<lparr>ptx = 10, pty = 0\<rparr>] \<lparr>ptx = 5, pty = 3\<rparr> 99999 =
   Inr (InRange 0 \<lparr>ptx = 5, pty = 0\<rparr> 3)"
  by (simp add: projector_eval)

section \<open>Properties of the projector\<close>

text \<open>On a polyline of at least two vertices, \<open>projectPoint\<close> returns the specified projection: the least-index segment among those at minimal distance, its foot and that distance, or \<open>OutOfRange\<close> when the minimal distance exceeds \<open>maxOffset\<close>.\<close>

lemma projectPoint_refines_spec:
  assumes "2 \<le> length vs"
  shows "projectPoint vs p m = Inr (project_spec vs p m)"
proof -
  obtain i where i: "i < length vs - 1"
    and le: "\<forall>j<length vs - 1. seg_dist vs p i \<le> seg_dist vs p j"
    and lt: "\<forall>j<i. seg_dist vs p i < seg_dist vs p j"
    and eq: "projectPoint vs p m =
               (if m < seg_dist vs p i then Inr OutOfRange
                else Inr (InRange i (seg_foot vs p i) (seg_dist vs p i)))"
    using projectPoint_first_min [OF assms] by blast
  show ?thesis
    using eq offset_min_eq [OF i le] nearest_segment_eq [OF i le lt]
    by (simp add: project_spec_def)
qed

text \<open>Every answer of the projector is true of the whole polyline: an \<open>InRange\<close> answer names a segment, its clamped foot (a point of the polyline) and the distance to it, which is at most \<open>maxOffset\<close> and no larger than the distance to any point of the polyline; an \<open>OutOfRange\<close> answer means that every point of the polyline is farther than \<open>maxOffset\<close>.\<close>

lemma projectPoint_sound:
  assumes "projectPoint vs p m = Inr r"
  shows "case r of
           OutOfRange \<Rightarrow> (\<forall>q \<in> polyline_points vs. m < calcDistance p q)
         | InRange i f d \<Rightarrow>
             i < length vs - 1 \<and> f = closestPoint (vs ! i) (vs ! Suc i) p \<and> f \<in> polyline_points vs \<and>
             d = calcDistance p f \<and> d \<le> m \<and> (\<forall>q \<in> polyline_points vs. d \<le> calcDistance p q)"
proof -
  have len: "2 \<le> length vs"
    using assms by (auto simp: projectPoint_def split: if_splits)
  obtain i where i: "i < length vs - 1"
    and le: "\<forall>j<length vs - 1. seg_dist vs p i \<le> seg_dist vs p j"
    and eq: "projectPoint vs p m =
               (if m < seg_dist vs p i then Inr OutOfRange
                else Inr (InRange i (seg_foot vs p i) (seg_dist vs p i)))"
    using projectPoint_first_min [OF len] by blast
  have below: "seg_dist vs p i \<le> calcDistance p q" if "q \<in> polyline_points vs" for q
  proof -
    from that obtain j s where "j < length vs - 1" "0 \<le> s" "s \<le> 1"
      and q: "q = lerp (vs ! j) (vs ! Suc j) s"
      by (auto simp: polyline_points_def)
    then have "seg_dist vs p j \<le> calcDistance p q"
      using projectPoint_minimal_point by blast
    with le \<open>j < length vs - 1\<close> show ?thesis by fastforce
  qed
  show ?thesis
  proof (cases "m < seg_dist vs p i")
    case True
    with assms eq have "r = OutOfRange" by simp
    with True below show ?thesis by fastforce
  next
    case False
    with assms eq have "r = InRange i (seg_foot vs p i) (seg_dist vs p i)" by simp
    with False below i seg_foot_in_polyline [OF i, of p] seg_foot_dist [of vs p i] show ?thesis
      by (simp add: seg_foot_closestPoint)
  qed
qed

text \<open>The projector fails, with \<open>InvalidAlignment\<close>, exactly on polylines of fewer than two vertices; on every other polyline it returns a projection.\<close>

lemma projectPoint_error_iff:
  "projectPoint vs p m = Inl e \<longleftrightarrow> length vs < 2 \<and> e = InvalidAlignment"
proof (cases "length vs < 2")
  case True
  then show ?thesis by (auto simp: projectPoint_def)
next
  case False
  then obtain i where
    "projectPoint vs p m =
       (if m < seg_dist vs p i then Inr OutOfRange
        else Inr (InRange i (seg_foot vs p i) (seg_dist vs p i)))"
    using projectPoint_first_min [of vs p m] by auto
  with False show ?thesis by simp
qed

end
