(* ===== verification/BatchRunner.thy ===== *)
theory BatchRunner
  imports Alignment Projector
begin

text \<open>
  The batch runner, \<open>StationOffsetAlgorithm.processAlgorithm\<close>
  (\<open>src/station_offset_algorithm.py\<close>, lines 145--219). For each line feature, in
  order, it polls \<open>feedback.isCanceled()\<close>, takes the vertices of the geometry
  (the first part of a multi-part one), skips polylines of fewer than two
  vertices, builds \<open>vertex_m\<close> (theory \<open>Alignment\<close>), and for every point feature,
  in order, calls \<open>projectPoint\<close> (theory \<open>Projector\<close>) and writes one CSV line:
  the marker \<open>Out of Range\<close> twice, or the station \<open>vertex_m[segment] + dist\<close>
  and the offset. This theory first models the per-point step (lines 204--213)
  and proves it against the specification of the projector.
\<close>

section \<open>The per-point step\<close>

text \<open>The station and offset columns of a row: a number, or the literal marker.\<close>

datatype cell =
    Num real
  | OutOfRangeMark

definition station_offset :: "polyline \<Rightarrow> real list \<Rightarrow> real \<Rightarrow> pointXY \<Rightarrow> py_error + cell \<times> cell" where
  "station_offset verticies vertex_m maxOffset pointGeometry =
     (case projectPoint verticies pointGeometry maxOffset of
        Inl e \<Rightarrow> Inl e
      | Inr OutOfRange \<Rightarrow> Inr (OutOfRangeMark, OutOfRangeMark)
      | Inr (InRange segment p offset) \<Rightarrow>
          (let dist = calcDistance (verticies ! segment) p;
               station = vertex_m ! segment + dist
           in Inr (Num station, Num offset)))"

text \<open>What the spec asks of the two columns, from the specification of the projector.\<close>

definition spec_fields :: "polyline \<Rightarrow> real \<Rightarrow> pointXY \<Rightarrow> cell \<times> cell" where
  "spec_fields vs m q =
     (case project_spec vs q m of
        OutOfRange \<Rightarrow> (OutOfRangeMark, OutOfRangeMark)
      | InRange i f d \<Rightarrow> (Num (path_len vs i + calcDistance (vs ! i) f), Num d))"

section \<open>Features, rows and the two loops\<close>

text \<open>
  A line feature's geometry as \<open>QgsGeometry\<close> gives it: one polyline, or the parts of a
  multi-part geometry (\<open>isMultipart()\<close>, \<open>asMultiPolyline()\<close>). Attribute values are
  \<open>None\<close> for a NULL attribute. Python's \<open>str\<close> on floats is a parameter \<open>py_str\<close>
  of the model: the spec leaves the decimal rendering to the output collaborator.
\<close>

datatype geometry =
    LineString polyline
  | MultiLineString "polyline list"

record lineFeature =
  line_geometry :: geometry
  line_name :: "string option"

record pointFeature =
  point_description :: "string option"
  point_pn :: "real option"
  point_elevation :: "real option"
  point_geometry :: pointXY

datatype outcome =
    Completed
  | Raised py_error

definition newline :: string where
  "newline = [CHR 0x0A]"

definition header_line :: string where
  "header_line = ''Alignment, Point Number, Station, Offset, Elevation, Description '' @ newline"

primrec render_cell :: "(real \<Rightarrow> string) \<Rightarrow> cell \<Rightarrow> string" where
  "render_cell py_str (Num x) = py_str x"
| "render_cell py_str OutOfRangeMark = ''Out of Range''"

definition render_attr :: "(real \<Rightarrow> string) \<Rightarrow> real option \<Rightarrow> string" where
  "render_attr py_str a = (case a of None \<Rightarrow> ''NULL'' | Some x \<Rightarrow> py_str x)"

text \<open>
  Lines 209 and 213: \<open>lineName + ", " + str(pn) + \<dots> + pointDescription + "\n"\<close>.
  Concatenating a NULL name or description raises \<open>TypeError\<close>.
\<close>

definition row_line ::
  "(real \<Rightarrow> string) \<Rightarrow> string option \<Rightarrow> pointFeature \<Rightarrow> cell \<times> cell \<Rightarrow> py_error + string" where
  "row_line py_str lineName pf sto =
     (case lineName of
        None \<Rightarrow> Inl TypeError
      | Some nm \<Rightarrow>
          (case point_description pf of
             None \<Rightarrow> Inl TypeError
           | Some pointDescription \<Rightarrow>
               Inr (nm @ '', '' @ render_attr py_str (point_pn pf) @ '', '' @
                    render_cell py_str (fst sto) @ '', '' @ render_cell py_str (snd sto) @ '', '' @
                    render_attr py_str (point_elevation pf) @ '', '' @ pointDescription @ newline)))"

definition point_line ::
  "(real \<Rightarrow> string) \<Rightarrow> string option \<Rightarrow> polyline \<Rightarrow> real list \<Rightarrow> real \<Rightarrow> pointFeature \<Rightarrow> py_error + string" where
  "point_line py_str lineName verticies vertex_m maxOffset pf =
     (case station_offset verticies vertex_m maxOffset (point_geometry pf) of
        Inl e \<Rightarrow> Inl e
      | Inr sto \<Rightarrow> row_line py_str lineName pf sto)"

text \<open>The loop over the point features (lines 198--213): one line appended per point, in order.\<close>

fun run_points ::
  "(real \<Rightarrow> string) \<Rightarrow> string option \<Rightarrow> polyline \<Rightarrow> real list \<Rightarrow> real \<Rightarrow> pointFeature list \<Rightarrow>
   string list \<Rightarrow> outcome \<times> string list" where
  "run_points py_str lineName verticies vertex_m maxOffset [] outfile = (Completed, outfile)"
| "run_points py_str lineName verticies vertex_m maxOffset (pf # pfs) outfile =
     (case point_line py_str lineName verticies vertex_m maxOffset pf of
        Inl e \<Rightarrow> (Raised e, outfile)
      | Inr l \<Rightarrow> run_points py_str lineName verticies vertex_m maxOffset pfs (outfile @ [l]))"

text \<open>Lines 179--185: the vertices of a line feature; \<open>asMultiPolyline()[0]\<close> raises on an empty multi-part geometry.\<close>

definition verticies_of :: "geometry \<Rightarrow> py_error + polyline" where
  "verticies_of g =
     (case g of
        LineString vs \<Rightarrow> Inr vs
      | MultiLineString parts \<Rightarrow> (case parts of [] \<Rightarrow> Inl IndexError | p # _ \<Rightarrow> Inr p))"

text \<open>
  The loop over the line features (lines 175--216). \<open>isCanceled k\<close> is the answer of
  the poll made at the start of iteration \<open>k\<close>; a positive answer leaves the loop
  (\<open>break\<close>) and the run ends normally with what it has written.
\<close>

fun run_lines ::
  "(real \<Rightarrow> string) \<Rightarrow> (nat \<Rightarrow> bool) \<Rightarrow> real \<Rightarrow> pointFeature list \<Rightarrow> nat \<Rightarrow> lineFeature list \<Rightarrow>
   string list \<Rightarrow> outcome \<times> string list" where
  "run_lines py_str isCanceled maxOffset pointFeatures k [] outfile = (Completed, outfile)"
| "run_lines py_str isCanceled maxOffset pointFeatures k (lf # lfs) outfile =
     (if isCanceled k then (Completed, outfile)
      else
        (case verticies_of (line_geometry lf) of
           Inl e \<Rightarrow> (Raised e, outfile)
         | Inr verticies \<Rightarrow>
             if length verticies < 2
             then run_lines py_str isCanceled maxOffset pointFeatures (Suc k) lfs outfile
             else
               (case run_points py_str (line_name lf) verticies (build_vertex_m verticies)
                       maxOffset pointFeatures outfile of
                  (Completed, outfile') \<Rightarrow>
                    run_lines py_str isCanceled maxOffset pointFeatures (Suc k) lfs outfile'
                | (Raised e, outfile') \<Rightarrow> (Raised e, outfile'))))"

text \<open>
  Lines 169--174 and 218--219. When \<open>open\<close> fails, the handler's
  \<open>print("Could not open outfile", outfile)\<close> reads \<open>outfile\<close>, which was never
  assigned: Python raises \<open>UnboundLocalError\<close> instead of returning \<open>{}\<close>.
\<close>

definition processAlgorithm ::
  "(real \<Rightarrow> string) \<Rightarrow> bool \<Rightarrow> (nat \<Rightarrow> bool) \<Rightarrow> real \<Rightarrow> lineFeature list \<Rightarrow> pointFeature list \<Rightarrow>
   outcome \<times> string list" where
  "processAlgorithm py_str outfile_opens isCanceled maxOffset lineFeatures pointFeatures =
     (if \<not> outfile_opens then (Raised UnboundLocalError, [])
      else run_lines py_str isCanceled maxOffset pointFeatures 0 lineFeatures [header_line])"

section \<open>Specification of the output\<close>

text \<open>The spec's textual contract: six fields separated by a comma and a space.\<close>

fun join_fields :: "string list \<Rightarrow> string" where
  "join_fields [] = []"
| "join_fields [f] = f"
| "join_fields (f # fs) = f @ '', '' @ join_fields fs"

definition spec_line :: "(real \<Rightarrow> string) \<Rightarrow> string \<Rightarrow> polyline \<Rightarrow> real \<Rightarrow> pointFeature \<Rightarrow> string" where
  "spec_line py_str nm vs m pf =
     join_fields [nm, render_attr py_str (point_pn pf),
                  render_cell py_str (fst (spec_fields vs m (point_geometry pf))),
                  render_cell py_str (snd (spec_fields vs m (point_geometry pf))),
                  render_attr py_str (point_elevation pf), the (point_description pf)] @ newline"

text \<open>The alignments that carry stations: those with at least two vertices, with their names.\<close>

definition alignments :: "lineFeature list \<Rightarrow> (string \<times> polyline) list" where
  "alignments lfs =
     concat (map (\<lambda>lf. case verticies_of (line_geometry lf) of
                         Inl e \<Rightarrow> []
                       | Inr vs \<Rightarrow> if 2 \<le> length vs then [(the (line_name lf), vs)] else []) lfs)"

definition spec_output :: "(real \<Rightarrow> string) \<Rightarrow> real \<Rightarrow> lineFeature list \<Rightarrow> pointFeature list \<Rightarrow> string list" where
  "spec_output py_str m lfs pfs =
     header_line # concat (map (\<lambda>(nm, vs). map (spec_line py_str nm vs m) pfs) (alignments lfs))"

definition line_ok :: "lineFeature \<Rightarrow> bool" where
  "line_ok lf =
     (case verticies_of (line_geometry lf) of
        Inl e \<Rightarrow> False
      | Inr vs \<Rightarrow> length vs < 2 \<or> (\<exists>nm. line_name lf = Some nm))"

definition point_ok :: "pointFeature \<Rightarrow> bool" where
  "point_ok pf = (point_description pf \<noteq> None)"

section \<open>Facts about the per-point step\<close>

lemma projectPoint_InRange_facts:
  assumes "projectPoint vs q m = Inr (InRange i f d)"
  shows "i < length vs - 1 \<and> f = closestPoint (vs ! i) (vs ! Suc i) q \<and> d = calcDistance q f \<and>
         d \<le> m \<and> f \<in> polyline_points vs \<and> (\<forall>q' \<in> polyline_points vs. d \<le> calcDistance q q')"
  using projectPoint_sound [OF assms] by auto

lemma projectPoint_Inr_len: "projectPoint vs q m = Inr r \<Longrightarrow> 2 \<le> length vs"
  by (auto simp: projectPoint_def split: if_splits)

lemma station_offset_InRange:
  assumes "projectPoint vs q m = Inr (InRange i f d)"
  shows "station_offset vs (build_vertex_m vs) m q =
           Inr (Num (path_len vs i + calcDistance (vs ! i) f), Num d)"
proof -
  have "i < length vs - 1" using projectPoint_InRange_facts [OF assms] by blast
  then have "i < length vs" by simp
  with assms show ?thesis by (simp add: station_offset_def build_vertex_m_nth)
qed

lemma station_offset_cases:
  assumes "station_offset vs (build_vertex_m vs) m q = Inr (st, off)"
  obtains (out) "projectPoint vs q m = Inr OutOfRange" "st = OutOfRangeMark" "off = OutOfRangeMark"
    | (inr) i f d where "projectPoint vs q m = Inr (InRange i f d)"
        "st = Num (path_len vs i + calcDistance (vs ! i) f)" "off = Num d"
proof (cases "projectPoint vs q m")
  case (Inl e)
  with assms show ?thesis by (simp add: station_offset_def)
next
  case (Inr r)
  show ?thesis
  proof (cases r)
    case OutOfRange
    with Inr assms show ?thesis by (intro out) (simp_all add: station_offset_def)
  next
    case (InRange i f d)
    with Inr assms show ?thesis by (intro inr) (auto simp: station_offset_InRange)
  qed
qed

text \<open>Unfolding rules that evaluate the per-point step at concrete inputs.\<close>

lemmas station_offset_eval = station_offset_def projector_eval build_vertex_m_def vertex_m_loop.simps

lemma station_offset_example:
  "station_offset [\<lparr>ptx = 0, pty = 0\<rparr>, \<lparr>ptx = 10, pty = 0\<rparr>]
     (build_vertex_m [\<lparr>ptx = 0, pty = 0\<rparr>, \<lparr>ptx = 10, pty = 0\<rparr>]) 99999 \<lparr>ptx = 5, pty = 3\<rparr> =
   Inr (Num 5, Num 3)"
  by (simp add: station_offset_eval)

section \<open>Properties of the per-point step\<close>

lemma station_offset_spec_fields:
  assumes "2 \<le> length vs"
  shows "station_offset vs (build_vertex_m vs) m q = Inr (spec_fields vs m q)"
proof -
  have pp: "projectPoint vs q m = Inr (project_spec vs q m)"
    using assms by (rule projectPoint_refines_spec)
  show ?thesis
  proof (cases "project_spec vs q m")
    case OutOfRange
    with pp show ?thesis by (simp add: station_offset_def spec_fields_def)
  next
    case (InRange i f d)
    with pp show ?thesis by (simp add: station_offset_InRange spec_fields_def)
  qed
qed

text \<open>C1: on an alignment of at least two vertices, the station and offset written for a point are those of the specification: out of range exactly when the least distance from the point to a segment exceeds \<open>maxOffset\<close>, and otherwise the offset is that least distance and the station is the path length to the least-index nearest segment plus the distance from that segment's start to the foot.\<close>

theorem station_offset_refines_spec:
  assumes "2 \<le> length vs"
  shows "station_offset vs (build_vertex_m vs) m q = Inr (spec_fields vs m q)"
  using assms by (rule station_offset_spec_fields)

theorem station_offset_refines_spec_witness:
  "2 \<le> length [\<lparr>ptx = 0, pty = 0\<rparr>, \<lparr>ptx = 10, pty = 0\<rparr>, \<lparr>ptx = 10, pty = 10\<rparr>] \<and>
   station_offset [\<lparr>ptx = 0, pty = 0\<rparr>, \<lparr>ptx = 10, pty = 0\<rparr>, \<lparr>ptx = 10, pty = 10\<rparr>]
     (build_vertex_m [\<lparr>ptx = 0, pty = 0\<rparr>, \<lparr>ptx = 10, pty = 0\<rparr>, \<lparr>ptx = 10, pty = 10\<rparr>]) 99999
     \<lparr>ptx = 20, pty = 5\<rparr> =
   Inr (spec_fields [\<lparr>ptx = 0, pty = 0\<rparr>, \<lparr>ptx = 10, pty = 0\<rparr>, \<lparr>ptx = 10, pty = 10\<rparr>] 99999 \<lparr>ptx = 20, pty = 5\<rparr>)"
proof -
  have h: "2 \<le> length [\<lparr>ptx = 0, pty = 0\<rparr>, \<lparr>ptx = 10, pty = 0\<rparr>, \<lparr>ptx = 10, pty = 10\<rparr>]" by simp
  show ?thesis by (rule conjI [OF h station_offset_refines_spec [OF h]])
qed

text \<open>C2: the columns written are true of the whole alignment: a numeric offset is the distance from the point to a point of the polyline, at most \<open>maxOffset\<close> and no larger than the distance to any point of the polyline; the \<open>Out of Range\<close> marker is written, in both columns, only when every point of the polyline is farther than \<open>maxOffset\<close>.\<close>

theorem station_offset_sound:
  assumes "station_offset vs (build_vertex_m vs) m q = Inr (st, off)"
  shows "case off of
           OutOfRangeMark \<Rightarrow> st = OutOfRangeMark \<and> (\<forall>q' \<in> polyline_points vs. m < calcDistance q q')
         | Num d \<Rightarrow> d \<le> m \<and> (\<exists>f \<in> polyline_points vs. d = calcDistance q f) \<and>
                   (\<forall>q' \<in> polyline_points vs. d \<le> calcDistance q q')"
  using assms
proof (cases rule: station_offset_cases)
  case out
  with projectPoint_sound [OF out(1)] show ?thesis by simp
next
  case (inr i f d)
  with projectPoint_InRange_facts [OF inr(1)] show ?thesis by auto
qed

theorem station_offset_sound_witness:
  "case Num 3 of
     OutOfRangeMark \<Rightarrow> Num 5 = OutOfRangeMark \<and>
       (\<forall>q' \<in> polyline_points [\<lparr>ptx = 0, pty = 0\<rparr>, \<lparr>ptx = 10, pty = 0\<rparr>].
          99999 < calcDistance \<lparr>ptx = 5, pty = 3\<rparr> q')
   | Num d \<Rightarrow> d \<le> 99999 \<and>
       (\<exists>f \<in> polyline_points [\<lparr>ptx = 0, pty = 0\<rparr>, \<lparr>ptx = 10, pty = 0\<rparr>]. d = calcDistance \<lparr>ptx = 5, pty = 3\<rparr> f) \<and>
       (\<forall>q' \<in> polyline_points [\<lparr>ptx = 0, pty = 0\<rparr>, \<lparr>ptx = 10, pty = 0\<rparr>]. d \<le> calcDistance \<lparr>ptx = 5, pty = 3\<rparr> q')"
  by (rule station_offset_sound [OF station_offset_example])

text \<open>C6: a numeric station lies between the table entries of the two ends of the segment it was measured on, so it is at least 0 and at most the length of the alignment.\<close>

theorem station_bounds:
  assumes "station_offset vs (build_vertex_m vs) m q = Inr (Num st, off)"
  shows "\<exists>i. Suc i < length vs \<and> build_vertex_m vs ! i \<le> st \<and> st \<le> build_vertex_m vs ! Suc i \<and>
             0 \<le> st \<and> st \<le> polyline_length vs"
  using assms
proof (cases rule: station_offset_cases)
  case out
  then show ?thesis by simp
next
  case (inr i f d)
  have i: "Suc i < length vs" and f: "f = closestPoint (vs ! i) (vs ! Suc i) q"
    using projectPoint_InRange_facts [OF inr(1)] by auto
  have st: "st = path_len vs i + calcDistance (vs ! i) f" using inr by simp
  have seg: "0 \<le> calcDistance (vs ! i) f \<and> calcDistance (vs ! i) f \<le> seg_len vs i"
    using closestPoint_station_bound [of "vs ! i" "vs ! Suc i" q] f by (simp add: seg_len_def)
  have lo: "build_vertex_m vs ! i \<le> st" and hi: "st \<le> build_vertex_m vs ! Suc i"
    using i seg st by (simp_all add: build_vertex_m_nth)
  have "0 \<le> path_len vs i" using path_len_mono [of 0 i vs] by simp
  moreover have "path_len vs (Suc i) \<le> path_len vs (length vs - 1)"
    using i by (intro path_len_mono) simp
  ultimately show ?thesis
    using i lo hi seg st path_len_full [of vs] by (intro exI [of _ i]) (simp add: build_vertex_m_nth)
qed

theorem station_bounds_witness:
  "\<exists>i. Suc i < length [\<lparr>ptx = 0, pty = 0\<rparr>, \<lparr>ptx = 10, pty = 0\<rparr>] \<and>
       build_vertex_m [\<lparr>ptx = 0, pty = 0\<rparr>, \<lparr>ptx = 10, pty = 0\<rparr>] ! i \<le> 5 \<and>
       5 \<le> build_vertex_m [\<lparr>ptx = 0, pty = 0\<rparr>, \<lparr>ptx = 10, pty = 0\<rparr>] ! Suc i \<and>
       0 \<le> (5::real) \<and> 5 \<le> polyline_length [\<lparr>ptx = 0, pty = 0\<rparr>, \<lparr>ptx = 10, pty = 0\<rparr>]"
  by (rule station_bounds [OF station_offset_example])

section \<open>Facts about the loops\<close>

lemma row_line_join:
  assumes "point_description pf = Some ds"
  shows "row_line py_str (Some nm) pf sto =
           Inr (join_fields [nm, render_attr py_str (point_pn pf), render_cell py_str (fst sto),
                             render_cell py_str (snd sto), render_attr py_str (point_elevation pf), ds] @ newline)"
  using assms by (simp add: row_line_def)

lemma point_line_spec:
  assumes "2 \<le> length vs" "point_ok pf"
  shows "point_line py_str (Some nm) vs (build_vertex_m vs) m pf = Inr (spec_line py_str nm vs m pf)"
  using assms
  by (auto simp: point_line_def station_offset_spec_fields spec_line_def point_ok_def row_line_join)

lemma run_points_spec:
  assumes "2 \<le> length vs" "\<forall>pf \<in> set pfs. point_ok pf"
  shows "run_points py_str (Some nm) vs (build_vertex_m vs) m pfs out =
           (Completed, out @ map (spec_line py_str nm vs m) pfs)"
  using assms(2)
  by (induction pfs arbitrary: out) (simp_all add: point_line_spec [OF assms(1)])

lemma run_lines_no_cancel_index:
  "run_lines py_str (\<lambda>_. False) m pfs k lfs out = run_lines py_str (\<lambda>_. False) m pfs 0 lfs out"
proof (induction lfs arbitrary: k out)
  case Nil
  then show ?case by simp
next
  case (Cons lf lfs)
  then show ?case
    by (simp split: sum.splits prod.splits outcome.splits) (metis Cons.IH)
qed

lemma run_lines_spec:
  assumes "\<forall>lf \<in> set lfs. line_ok lf" "\<forall>pf \<in> set pfs. point_ok pf"
  shows "run_lines py_str (\<lambda>_. False) m pfs k lfs out =
           (Completed, out @ concat (map (\<lambda>(nm, vs). map (spec_line py_str nm vs m) pfs) (alignments lfs)))"
  using assms(1)
proof (induction lfs arbitrary: k out)
  case Nil
  then show ?case by (simp add: alignments_def)
next
  case (Cons lf lfs)
  then obtain vs where vs: "verticies_of (line_geometry lf) = Inr vs"
    by (auto simp: line_ok_def split: sum.splits)
  show ?case
  proof (cases "length vs < 2")
    case True
    with Cons vs show ?thesis by (simp add: alignments_def)
  next
    case False
    with Cons.prems vs obtain nm where nm: "line_name lf = Some nm"
      by (auto simp: line_ok_def)
    from False have "2 \<le> length vs" by simp
    with Cons vs nm assms(2) show ?thesis
      by (simp add: run_points_spec alignments_def)
  qed
qed

text \<open>Cancellation at the poll of iteration \<open>k + n\<close> cuts the run to the first \<open>n\<close> line features.\<close>

lemma run_lines_cancel:
  assumes "c (k + n)" "\<forall>j<n. \<not> c (k + j)"
  shows "run_lines py_str c m pfs k lfs out = run_lines py_str (\<lambda>_. False) m pfs k (take n lfs) out"
  using assms
proof (induction lfs arbitrary: k n out)
  case Nil
  then show ?case by simp
next
  case (Cons lf lfs)
  show ?case
  proof (cases n)
    case 0
    with Cons.prems show ?thesis by simp
  next
    case (Suc n')
    with Cons.prems have nc: "\<not> c k" by auto
    have IH: "run_lines py_str c m pfs (Suc k) lfs out' =
                run_lines py_str (\<lambda>_. False) m pfs (Suc k) (take n' lfs) out'" for out'
      using Cons.prems Suc by (intro Cons.IH) auto
    from nc Suc show ?thesis
      by (simp add: IH split: sum.splits prod.splits outcome.splits)
  qed
qed

lemma run_points_prefix: "prefix out (snd (run_points py_str nm vs vm m pfs out))"
proof (induction pfs arbitrary: out)
  case Nil
  then show ?case by simp
next
  case (Cons pf pfs)
  show ?case
  proof (cases "point_line py_str nm vs vm m pf")
    case (Inl e)
    then show ?thesis by simp
  next
    case (Inr l)
    have "prefix (out @ [l]) (snd (run_points py_str nm vs vm m pfs (out @ [l])))"
      by (rule Cons.IH)
    then have "prefix out (snd (run_points py_str nm vs vm m pfs (out @ [l])))"
      by (rule prefix_order.trans [rotated]) simp
    with Inr show ?thesis by simp
  qed
qed

lemma run_lines_extends: "prefix out (snd (run_lines py_str c m pfs k lfs out))"
proof (induction lfs arbitrary: k out)
  case Nil
  then show ?case by simp
next
  case (Cons lf lfs)
  show ?case
  proof (cases "\<not> c k \<and> (\<exists>vs. verticies_of (line_geometry lf) = Inr vs \<and> 2 \<le> length vs)")
    case True
    then obtain vs where nc: "\<not> c k" and vs: "verticies_of (line_geometry lf) = Inr vs" "2 \<le> length vs"
      by blast
    obtain r out' where rp: "run_points py_str (line_name lf) vs (build_vertex_m vs) m pfs out = (r, out')"
      by fastforce
    have pre: "prefix out out'"
      using run_points_prefix [of out py_str "line_name lf" vs "build_vertex_m vs" m pfs] rp by simp
    show ?thesis
    proof (cases r)
      case Completed
      have "prefix out' (snd (run_lines py_str c m pfs (Suc k) lfs out'))" by (rule Cons.IH)
      with pre nc vs rp Completed show ?thesis by (auto intro: prefix_order.trans)
    next
      case (Raised e)
      with pre nc vs rp show ?thesis by simp
    qed
  next
    case False
    then show ?thesis
      using Cons.IH [of out "Suc k"] by (auto split: sum.splits)
  qed
qed

lemma run_lines_cancel_prefix:
  "prefix (snd (run_lines py_str c m pfs k lfs out)) (snd (run_lines py_str (\<lambda>_. False) m pfs k lfs out))"
proof (induction lfs arbitrary: k out)
  case Nil
  then show ?case by simp
next
  case (Cons lf lfs)
  show ?case
  proof (cases "c k")
    case True
    then show ?thesis using run_lines_extends [of out py_str "\<lambda>_. False" m pfs k "lf # lfs"] by simp
  next
    case False
    then show ?thesis
      using Cons.IH by (simp split: sum.splits prod.splits outcome.splits)
  qed
qed

lemma run_lines_skip:
  assumes "verticies_of (line_geometry lf) = Inr vs" "length vs < 2"
  shows "run_lines py_str (\<lambda>_. False) m pfs k (lfs1 @ lf # lfs2) out =
           run_lines py_str (\<lambda>_. False) m pfs k (lfs1 @ lfs2) out"
proof (induction lfs1 arbitrary: k out)
  case Nil
  from assms have "run_lines py_str (\<lambda>_. False) m pfs k (lf # lfs2) out =
                     run_lines py_str (\<lambda>_. False) m pfs (Suc k) lfs2 out" by simp
  then show ?case by (simp add: run_lines_no_cancel_index [of _ _ _ "Suc k"] run_lines_no_cancel_index [of _ _ _ k])
next
  case (Cons lf' lfs1)
  then show ?case by (simp split: sum.splits prod.splits outcome.splits)
qed



lemma run_points_null_description:
  assumes "2 \<le> length vs" "\<forall>pf \<in> set pfs1. point_ok pf" "point_description pf = None"
  shows "run_points py_str (Some nm) vs (build_vertex_m vs) m (pfs1 @ pf # pfs2) out =
           (Raised TypeError, out @ map (spec_line py_str nm vs m) pfs1)"
  using assms(2)
proof (induction pfs1 arbitrary: out)
  case Nil
  then show ?case
    using assms(3) station_offset_spec_fields [OF assms(1)]
    by (simp add: point_line_def row_line_def)
next
  case (Cons pf' pfs1)
  then show ?case by (simp add: point_line_spec [OF assms(1)])
qed

section \<open>Properties of the batch run\<close>

text \<open>C7: without cancellation, on line features whose vertices can be read and whose named alignments have a name, and on points with a description, the run completes and the file holds the header and then one line per (alignment, point) pair, alignments of at least two vertices in input order and points in input order within each, each line the six specified fields joined by a comma and a space.\<close>

theorem processAlgorithm_refines_spec:
  assumes "\<forall>lf \<in> set lfs. line_ok lf" "\<forall>pf \<in> set pfs. point_ok pf"
  shows "processAlgorithm py_str True (\<lambda>_. False) m lfs pfs = (Completed, spec_output py_str m lfs pfs)"
  using run_lines_spec [OF assms, of py_str m 0 "[header_line]"]
  by (simp add: processAlgorithm_def spec_output_def)

theorem processAlgorithm_refines_spec_witness:
  "line_ok \<lparr>line_geometry = LineString [\<lparr>ptx = 0, pty = 0\<rparr>, \<lparr>ptx = 10, pty = 0\<rparr>], line_name = Some ''A''\<rparr> \<and>
   point_ok \<lparr>point_description = Some ''X'', point_pn = Some 1, point_elevation = Some 100,
             point_geometry = \<lparr>ptx = 5, pty = 3\<rparr>\<rparr> \<and>
   processAlgorithm (\<lambda>_. ''0'') True (\<lambda>_. False) 99999
     [\<lparr>line_geometry = LineString [\<lparr>ptx = 0, pty = 0\<rparr>, \<lparr>ptx = 10, pty = 0\<rparr>], line_name = Some ''A''\<rparr>]
     [\<lparr>point_description = Some ''X'', point_pn = Some 1, point_elevation = Some 100,
       point_geometry = \<lparr>ptx = 5, pty = 3\<rparr>\<rparr>] =
   (Completed, spec_output (\<lambda>_. ''0'') 99999
     [\<lparr>line_geometry = LineString [\<lparr>ptx = 0, pty = 0\<rparr>, \<lparr>ptx = 10, pty = 0\<rparr>], line_name = Some ''A''\<rparr>]
     [\<lparr>point_description = Some ''X'', point_pn = Some 1, point_elevation = Some 100,
       point_geometry = \<lparr>ptx = 5, pty = 3\<rparr>\<rparr>])"
proof -
  have l: "line_ok \<lparr>line_geometry = LineString [\<lparr>ptx = 0, pty = 0\<rparr>, \<lparr>ptx = 10, pty = 0\<rparr>],
                    line_name = Some ''A''\<rparr>"
    by (simp add: line_ok_def verticies_of_def)
  have p: "point_ok \<lparr>point_description = Some ''X'', point_pn = Some 1, point_elevation = Some 100,
                     point_geometry = \<lparr>ptx = 5, pty = 3\<rparr>\<rparr>"
    by (simp add: point_ok_def)
  from l have h1: "\<forall>lf \<in> set [\<lparr>line_geometry = LineString [\<lparr>ptx = 0, pty = 0\<rparr>, \<lparr>ptx = 10, pty = 0\<rparr>],
                             line_name = Some ''A''\<rparr>]. line_ok lf"
    by simp
  from p have h2: "\<forall>pf \<in> set [\<lparr>point_description = Some ''X'', point_pn = Some 1, point_elevation = Some 100,
                          point_geometry = \<lparr>ptx = 5, pty = 3\<rparr>\<rparr>]. point_ok pf"
    by simp
  show ?thesis by (rule conjI [OF l conjI [OF p processAlgorithm_refines_spec [OF h1 h2]]])
qed

text \<open>C8: a cancellation first observed at the poll before line feature \<open>k\<close> yields exactly the run over the first \<open>k\<close> line features without cancellation: the rows of the alignments already processed and none of the others.\<close>

theorem processAlgorithm_cancel:
  assumes "isCanceled k" "\<forall>j<k. \<not> isCanceled j"
  shows "processAlgorithm py_str True isCanceled m lfs pfs =
           processAlgorithm py_str True (\<lambda>_. False) m (take k lfs) pfs"
  using run_lines_cancel [of isCanceled 0 k] assms by (simp add: processAlgorithm_def)

theorem processAlgorithm_cancel_witness:
  "(\<lambda>j::nat. 1 \<le> j) 1 \<and> \<not> (\<lambda>j::nat. 1 \<le> j) 0 \<and>
   processAlgorithm (\<lambda>_. ''0'') True (\<lambda>j. 1 \<le> j) 99999
     [\<lparr>line_geometry = LineString [\<lparr>ptx = 0, pty = 0\<rparr>, \<lparr>ptx = 10, pty = 0\<rparr>], line_name = Some ''A''\<rparr>,
      \<lparr>line_geometry = LineString [\<lparr>ptx = 0, pty = 0\<rparr>, \<lparr>ptx = 0, pty = 10\<rparr>], line_name = Some ''B''\<rparr>] [] =
   processAlgorithm (\<lambda>_. ''0'') True (\<lambda>_. False) 99999
     (take 1 [\<lparr>line_geometry = LineString [\<lparr>ptx = 0, pty = 0\<rparr>, \<lparr>ptx = 10, pty = 0\<rparr>], line_name = Some ''A''\<rparr>,
              \<lparr>line_geometry = LineString [\<lparr>ptx = 0, pty = 0\<rparr>, \<lparr>ptx = 0, pty = 10\<rparr>], line_name = Some ''B''\<rparr>]) []"
proof -
  have h1: "(\<lambda>j::nat. 1 \<le> j) 1" by simp
  have h2: "\<forall>j<1. \<not> (\<lambda>j::nat. 1 \<le> j) j" by simp
  have h0: "\<not> (\<lambda>j::nat. 1 \<le> j) 0" by simp
  show ?thesis by (rule conjI [OF h1 conjI [OF h0 processAlgorithm_cancel [OF h1 h2]]])
qed

text \<open>C9: rows are append-only: whatever the cancellation polls answer, the lines written are a prefix of the lines the uncancelled run writes.\<close>

theorem processAlgorithm_prefix:
  "prefix (snd (processAlgorithm py_str ok isCanceled m lfs pfs))
          (snd (processAlgorithm py_str ok (\<lambda>_. False) m lfs pfs))"
  by (simp add: processAlgorithm_def run_lines_cancel_prefix)

text \<open>C10: a line feature of fewer than two vertices is skipped: it adds no line, raises nothing, and the run continues with the next feature.\<close>

theorem processAlgorithm_skip:
  assumes "verticies_of (line_geometry lf) = Inr vs" "length vs < 2"
  shows "processAlgorithm py_str ok (\<lambda>_. False) m (lfs1 @ lf # lfs2) pfs =
           processAlgorithm py_str ok (\<lambda>_. False) m (lfs1 @ lfs2) pfs"
  using run_lines_skip [OF assms] by (simp add: processAlgorithm_def)

theorem processAlgorithm_skip_witness:
  "verticies_of (line_geometry \<lparr>line_geometry = LineString [\<lparr>ptx = 0, pty = 0\<rparr>], line_name = None\<rparr>) =
     Inr [\<lparr>ptx = 0, pty = 0\<rparr>] \<and>
   length [\<lparr>ptx = 0, pty = 0\<rparr>] < 2 \<and>
   processAlgorithm (\<lambda>_. ''0'') True (\<lambda>_. False) 99999
     ([] @ \<lparr>line_geometry = LineString [\<lparr>ptx = 0, pty = 0\<rparr>], line_name = None\<rparr> # []) [] =
   processAlgorithm (\<lambda>_. ''0'') True (\<lambda>_. False) 99999 ([] @ []) []"
proof -
  have h1: "verticies_of (line_geometry \<lparr>line_geometry = LineString [\<lparr>ptx = 0, pty = 0\<rparr>], line_name = None\<rparr>) =
              Inr [\<lparr>ptx = 0, pty = 0\<rparr>]" by (simp add: verticies_of_def)
  have h2: "length [\<lparr>ptx = 0, pty = 0\<rparr>] < 2" by simp
  show ?thesis by (rule conjI [OF h1 conjI [OF h2 processAlgorithm_skip [OF h1 h2]]])
qed



text \<open>C12: a point with a NULL description aborts the run with \<open>TypeError\<close> at that point, leaving the header and the lines of the points before it.\<close>

theorem processAlgorithm_null_description:
  assumes "\<not> isCanceled 0" "verticies_of (line_geometry lf) = Inr vs" "2 \<le> length vs"
    and "line_name lf = Some nm" "\<forall>pf \<in> set pfs1. point_ok pf" "point_description pf = None"
  shows "processAlgorithm py_str True isCanceled m (lf # lfs) (pfs1 @ pf # pfs2) =
           (Raised TypeError, header_line # map (spec_line py_str nm vs m) pfs1)"
  using assms run_points_null_description [OF assms(3,5,6), of py_str nm m pfs2 "[header_line]"]
  by (simp add: processAlgorithm_def)

theorem processAlgorithm_null_description_witness:
  "\<not> (\<lambda>_::nat. False) 0 \<and>
   verticies_of (line_geometry \<lparr>line_geometry = LineString [\<lparr>ptx = 0, pty = 0\<rparr>, \<lparr>ptx = 10, pty = 0\<rparr>],
                                  line_name = Some ''A''\<rparr>) = Inr [\<lparr>ptx = 0, pty = 0\<rparr>, \<lparr>ptx = 10, pty = 0\<rparr>] \<and>
   2 \<le> length [\<lparr>ptx = 0, pty = 0\<rparr>, \<lparr>ptx = 10, pty = 0\<rparr>] \<and>
   line_name \<lparr>line_geometry = LineString [\<lparr>ptx = 0, pty = 0\<rparr>, \<lparr>ptx = 10, pty = 0\<rparr>], line_name = Some ''A''\<rparr> = Some ''A'' \<and>
   point_description \<lparr>point_description = None, point_pn = Some 1, point_elevation = Some 100,
                      point_geometry = \<lparr>ptx = 5, pty = 3\<rparr>\<rparr> = None \<and>
   processAlgorithm (\<lambda>_. ''0'') True (\<lambda>_. False) 99999
     [\<lparr>line_geometry = LineString [\<lparr>ptx = 0, pty = 0\<rparr>, \<lparr>ptx = 10, pty = 0\<rparr>], line_name = Some ''A''\<rparr>]
     ([] @ \<lparr>point_description = None, point_pn = Some 1, point_elevation = Some 100,
            point_geometry = \<lparr>ptx = 5, pty = 3\<rparr>\<rparr> # []) =
   (Raised TypeError, header_line # map (spec_line (\<lambda>_. ''0'') ''A'' [\<lparr>ptx = 0, pty = 0\<rparr>, \<lparr>ptx = 10, pty = 0\<rparr>] 99999) [])"
proof -
  have h1: "\<not> (\<lambda>_::nat. False) 0" by simp
  have h2: "verticies_of (line_geometry \<lparr>line_geometry = LineString [\<lparr>ptx = 0, pty = 0\<rparr>, \<lparr>ptx = 10, pty = 0\<rparr>],
              line_name = Some ''A''\<rparr>) = Inr [\<lparr>ptx = 0, pty = 0\<rparr>, \<lparr>ptx = 10, pty = 0\<rparr>]"
    by (simp add: verticies_of_def)
  have h3: "2 \<le> length [\<lparr>ptx = 0, pty = 0\<rparr>, \<lparr>ptx = 10, pty = 0\<rparr>]" by simp
  have h4: "line_name \<lparr>line_geometry = LineString [\<lparr>ptx = 0, pty = 0\<rparr>, \<lparr>ptx = 10, pty = 0\<rparr>],
              line_name = Some ''A''\<rparr> = Some ''A''" by simp
  have h5: "\<forall>pf \<in> set ([] :: pointFeature list). point_ok pf" by simp
  have h6: "point_description \<lparr>point_description = None, point_pn = Some 1, point_elevation = Some 100,
              point_geometry = \<lparr>ptx = 5, pty = 3\<rparr>\<rparr> = None" by simp
  show ?thesis
    using h1 h2 h3 h4 h5 h6 processAlgorithm_null_description [OF h1 h2 h3 h4 h5 h6,
      of "\<lambda>_. ''0''" 99999 "[]" "[]"]
    by blast
qed

end
