(* ===== verification/Stations.thy ===== *)
theory Stations
  imports BatchRunner
begin

text \<open>
  What the stations and offsets written by the per-point step
  (\<open>src/station_offset_algorithm.py\<close>, lines 204--213) mean along the alignment.
  A station is the arc length from the first vertex to the foot of the
  perpendicular, so stations grow as the feet move along the alignment (segment
  index first, then distance into the segment); a point lying on the alignment is
  written with offset 0 and with the station of its arc-length position; and \<open>maxOffset\<close> only filters: every threshold writes the same numbers
  or the marker, according to whether it lies below the offset.
\<close>

section \<open>Facts about the per-point step along the alignment\<close>

lemma calcDistance_eq_0_iff: "calcDistance p q = 0 \<longleftrightarrow> p = q"
  by (auto simp: calcDistance_def pointXY_eq_iff)

lemma station_in_segment:
  assumes "projectPoint vs q m = Inr (InRange i f d)"
  shows "0 \<le> calcDistance (vs ! i) f \<and> calcDistance (vs ! i) f \<le> seg_len vs i"
  using projectPoint_InRange_facts [OF assms] closestPoint_station_bound [of "vs ! i" "vs ! Suc i" q]
  by (simp add: seg_len_def)

lemma on_polyline_station_offset:
  assumes "0 \<le> m" "q \<in> polyline_points vs" "2 \<le> length vs"
  shows "\<exists>i. projectPoint vs q m = Inr (InRange i q 0)"
proof -
  obtain r where r: "projectPoint vs q m = Inr r"
    using projectPoint_error_iff [of vs q m] assms(3) by (cases "projectPoint vs q m") auto
  show ?thesis
  proof (cases r)
    case OutOfRange
    with projectPoint_sound [OF r] assms(1,2) show ?thesis by fastforce
  next
    case (InRange i f d)
    with r have "d \<le> calcDistance q q" "d = calcDistance q f"
      using projectPoint_InRange_facts [of vs q m i f d] assms(2) by auto
    then have "d = 0" using calcDistance_nonneg [of q f] calcDistance_self [of q] by linarith
    moreover from this \<open>d = calcDistance q f\<close> have "f = q" by (simp add: calcDistance_eq_0_iff)
    ultimately show ?thesis using r InRange by blast
  qed
qed

lemma lerp_in_polyline:
  "j < length vs - 1 \<Longrightarrow> 0 \<le> t \<Longrightarrow> t \<le> 1 \<Longrightarrow> lerp (vs ! j) (vs ! Suc j) t \<in> polyline_points vs"
  by (auto simp: polyline_points_def)

lemma projectPoint_threshold:
  assumes "projectPoint vs q m = Inr (InRange i f d)"
  shows "projectPoint vs q m' = (if m' < d then Inr OutOfRange else Inr (InRange i f d))"
proof -
  have len: "2 \<le> length vs" by (rule projectPoint_Inr_len [OF assms])
  from assms projectPoint_refines_spec [OF len, of q m]
  have "i = nearest_segment vs q" "f = seg_foot vs q (nearest_segment vs q)" "d = offset_min vs q"
    by (auto simp: project_spec_def split: if_splits)
  then show ?thesis using projectPoint_refines_spec [OF len, of q m'] by (simp add: project_spec_def)
qed

lemma on_segment_first:
  assumes "i < length vs - 1" "0 \<le> t" "t \<le> 1" "0 \<le> m"
  shows "\<exists>j. j \<le> i \<and> projectPoint vs (lerp (vs ! i) (vs ! Suc i) t) m =
               Inr (InRange j (lerp (vs ! i) (vs ! Suc i) t) 0)"
proof -
  let ?q = "lerp (vs ! i) (vs ! Suc i) t"
  have len: "2 \<le> length vs" using assms(1) by simp
  obtain j where j: "projectPoint vs ?q m = Inr (InRange j ?q 0)"
    using on_polyline_station_offset [OF assms(4) lerp_in_polyline [OF assms(1-3)] len] by blast
  obtain k where k: "\<forall>l<k. seg_dist vs ?q k < seg_dist vs ?q l"
    and pk: "projectPoint vs ?q m =
               (if m < seg_dist vs ?q k then Inr OutOfRange else Inr (InRange k (seg_foot vs ?q k) (seg_dist vs ?q k)))"
    using projectPoint_first_min [OF len, of ?q m] by blast
  from pk j have jk: "j = k" "seg_dist vs ?q k = 0" by (simp_all split: if_splits)
  have "seg_dist vs ?q i \<le> 0"
    using projectPoint_minimal_point [OF assms(1-3), of ?q] by simp
  with k jk have "\<not> i < j" by force
  with j show ?thesis by (intro exI [of _ j]) simp
qed

section \<open>Properties\<close>

text \<open>C24: stations grow along the alignment (spec section 8): of two points projected in range, the one whose foot lies on a later segment has a station at least as large, and on the same segment the one whose foot is farther from the segment's start has a strictly larger station.\<close>

theorem station_monotone:
  assumes "projectPoint vs q1 m = Inr (InRange i1 f1 d1)" "projectPoint vs q2 m = Inr (InRange i2 f2 d2)"
    and "i1 < i2 \<or> (i1 = i2 \<and> calcDistance (vs ! i1) f1 < calcDistance (vs ! i2) f2)"
  shows "\<exists>s1 s2. station_offset vs (build_vertex_m vs) m q1 = Inr (Num s1, Num d1) \<and>
                station_offset vs (build_vertex_m vs) m q2 = Inr (Num s2, Num d2) \<and>
                s1 \<le> s2 \<and> (i1 = i2 \<longrightarrow> s1 < s2)"
proof -
  let ?s1 = "path_len vs i1 + calcDistance (vs ! i1) f1" and ?s2 = "path_len vs i2 + calcDistance (vs ! i2) f2"
  have b1: "calcDistance (vs ! i1) f1 \<le> seg_len vs i1" and b2: "0 \<le> calcDistance (vs ! i2) f2"
    using station_in_segment [OF assms(1)] station_in_segment [OF assms(2)] by simp_all
  have "?s1 \<le> ?s2 \<and> (i1 = i2 \<longrightarrow> ?s1 < ?s2)"
  proof (cases "i1 < i2")
    case True
    then have "path_len vs (Suc i1) \<le> path_len vs i2" by (intro path_len_mono) simp
    with b1 b2 path_len_Suc [of vs i1] have "?s1 \<le> ?s2" by linarith
    with True show ?thesis by simp
  next
    case False
    with assms(3) have "i1 = i2" "calcDistance (vs ! i1) f1 < calcDistance (vs ! i2) f2" by blast+
    then show ?thesis by simp
  qed
  then show ?thesis using station_offset_InRange [OF assms(1)] station_offset_InRange [OF assms(2)] by blast
qed

theorem station_monotone_witness:
  "projectPoint [\<lparr>ptx = 0, pty = 0\<rparr>, \<lparr>ptx = 10, pty = 0\<rparr>, \<lparr>ptx = 10, pty = 10\<rparr>] \<lparr>ptx = 5, pty = 3\<rparr> 99999 =
     Inr (InRange 0 \<lparr>ptx = 5, pty = 0\<rparr> 3) \<and>
   projectPoint [\<lparr>ptx = 0, pty = 0\<rparr>, \<lparr>ptx = 10, pty = 0\<rparr>, \<lparr>ptx = 10, pty = 10\<rparr>] \<lparr>ptx = 20, pty = 5\<rparr> 99999 =
     Inr (InRange 1 \<lparr>ptx = 10, pty = 5\<rparr> 10) \<and>
   (0::nat) < 1 \<and>
   (\<exists>s1 s2.
      station_offset [\<lparr>ptx = 0, pty = 0\<rparr>, \<lparr>ptx = 10, pty = 0\<rparr>, \<lparr>ptx = 10, pty = 10\<rparr>]
        (build_vertex_m [\<lparr>ptx = 0, pty = 0\<rparr>, \<lparr>ptx = 10, pty = 0\<rparr>, \<lparr>ptx = 10, pty = 10\<rparr>]) 99999
        \<lparr>ptx = 5, pty = 3\<rparr> = Inr (Num s1, Num 3) \<and>
      station_offset [\<lparr>ptx = 0, pty = 0\<rparr>, \<lparr>ptx = 10, pty = 0\<rparr>, \<lparr>ptx = 10, pty = 10\<rparr>]
        (build_vertex_m [\<lparr>ptx = 0, pty = 0\<rparr>, \<lparr>ptx = 10, pty = 0\<rparr>, \<lparr>ptx = 10, pty = 10\<rparr>]) 99999
        \<lparr>ptx = 20, pty = 5\<rparr> = Inr (Num s2, Num 10) \<and>
      s1 \<le> s2 \<and> ((0::nat) = 1 \<longrightarrow> s1 < s2))"
proof -
  let ?vs = "[\<lparr>ptx = 0, pty = 0\<rparr>, \<lparr>ptx = 10, pty = 0\<rparr>, \<lparr>ptx = 10, pty = 10\<rparr>]"
  have h1: "projectPoint ?vs \<lparr>ptx = 5, pty = 3\<rparr> 99999 = Inr (InRange 0 \<lparr>ptx = 5, pty = 0\<rparr> 3)"
    by (simp add: projector_eval)
  have h2: "projectPoint ?vs \<lparr>ptx = 20, pty = 5\<rparr> 99999 = Inr (InRange 1 \<lparr>ptx = 10, pty = 5\<rparr> 10)"
    by (simp add: projector_eval)
  have h3: "(0::nat) < 1 \<or> ((0::nat) = 1 \<and> calcDistance (?vs ! 0) \<lparr>ptx = 5, pty = 0\<rparr> < calcDistance (?vs ! 1) \<lparr>ptx = 10, pty = 5\<rparr>)"
    by simp
  show ?thesis using h1 h2 station_monotone [OF h1 h2 h3] by simp
qed

text \<open>C25: \<open>maxOffset\<close> only filters: once a point is written with station \<open>s\<close> and offset \<open>d\<close> for some threshold, every other threshold writes the same two numbers when it is at least \<open>d\<close>, and the two markers when it is below \<open>d\<close>.\<close>

theorem maxOffset_filters:
  assumes "station_offset vs vm m q = Inr (Num s, Num d)"
  shows "station_offset vs vm m' q =
           (if m' < d then Inr (OutOfRangeMark, OutOfRangeMark) else Inr (Num s, Num d))"
proof -
  obtain i f where pp: "projectPoint vs q m = Inr (InRange i f d)"
    and s: "s = vm ! i + calcDistance (vs ! i) f"
    using assms by (auto simp: station_offset_def Let_def split: sum.splits projection.splits)
  show ?thesis using s by (simp add: station_offset_def projectPoint_threshold [OF pp])
qed

theorem maxOffset_filters_witness:
  "station_offset [\<lparr>ptx = 0, pty = 0\<rparr>, \<lparr>ptx = 10, pty = 0\<rparr>, \<lparr>ptx = 10, pty = 10\<rparr>]
     (build_vertex_m [\<lparr>ptx = 0, pty = 0\<rparr>, \<lparr>ptx = 10, pty = 0\<rparr>, \<lparr>ptx = 10, pty = 10\<rparr>]) 99999
     \<lparr>ptx = 5, pty = 3\<rparr> = Inr (Num 5, Num 3) \<and>
   station_offset [\<lparr>ptx = 0, pty = 0\<rparr>, \<lparr>ptx = 10, pty = 0\<rparr>, \<lparr>ptx = 10, pty = 10\<rparr>]
     (build_vertex_m [\<lparr>ptx = 0, pty = 0\<rparr>, \<lparr>ptx = 10, pty = 0\<rparr>, \<lparr>ptx = 10, pty = 10\<rparr>]) 2
     \<lparr>ptx = 5, pty = 3\<rparr> = Inr (OutOfRangeMark, OutOfRangeMark)"
proof -
  have h: "station_offset [\<lparr>ptx = 0, pty = 0\<rparr>, \<lparr>ptx = 10, pty = 0\<rparr>, \<lparr>ptx = 10, pty = 10\<rparr>]
     (build_vertex_m [\<lparr>ptx = 0, pty = 0\<rparr>, \<lparr>ptx = 10, pty = 0\<rparr>, \<lparr>ptx = 10, pty = 10\<rparr>]) 99999
     \<lparr>ptx = 5, pty = 3\<rparr> = Inr (Num 5, Num 3)"
    by (simp add: station_offset_eval)
  show ?thesis using h maxOffset_filters [OF h, of 2] by simp
qed

text \<open>C26: a survey point lying on segment \<open>i\<close> of any alignment, with a non-negative \<open>maxOffset\<close>, is written with offset 0 and with the station of its arc-length position: the path length to the start of a segment \<open>j \<le> i\<close> through the point (the first one, where the alignment passes the point more than once) plus the fraction \<open>s\<close> of that segment's length at which the point lies.\<close>

theorem on_alignment_station:
  assumes "i < length vs - 1" "0 \<le> t" "t \<le> 1" "0 \<le> m"
  shows "\<exists>j s. j \<le> i \<and> 0 \<le> s \<and> s \<le> 1 \<and> lerp (vs ! j) (vs ! Suc j) s = lerp (vs ! i) (vs ! Suc i) t \<and>
           station_offset vs (build_vertex_m vs) m (lerp (vs ! i) (vs ! Suc i) t) =
             Inr (Num (path_len vs j + s * seg_len vs j), Num 0)"
proof -
  let ?q = "lerp (vs ! i) (vs ! Suc i) t"
  obtain j where j: "j \<le> i" and pp: "projectPoint vs ?q m = Inr (InRange j ?q 0)"
    using on_segment_first [OF assms] by blast
  have "?q = closestPoint (vs ! j) (vs ! Suc j) ?q" using projectPoint_InRange_facts [OF pp] by simp
  then obtain s where s: "0 \<le> s" "s \<le> 1" "lerp (vs ! j) (vs ! Suc j) s = ?q"
    using closestPoint_on_segment [of "vs ! j" "vs ! Suc j" ?q] by auto
  have "calcDistance (vs ! j) ?q = s * seg_len vs j"
    using s calcDistance_lerp_start [of "vs ! j" "vs ! Suc j" s] by (simp add: seg_len_def)
  with j s station_offset_InRange [OF pp] show ?thesis by auto
qed

theorem on_alignment_station_witness:
  "Suc 0 < length [\<lparr>ptx = 0, pty = 0\<rparr>, \<lparr>ptx = 10, pty = 0\<rparr>, \<lparr>ptx = 10, pty = 10\<rparr>] - 1 \<and>
   0 \<le> (1 / 2 :: real) \<and> (1 / 2 :: real) \<le> 1 \<and> 0 \<le> (0 :: real) \<and>
   (\<exists>j s. j \<le> Suc 0 \<and> 0 \<le> s \<and> s \<le> 1 \<and>
      lerp ([\<lparr>ptx = 0, pty = 0\<rparr>, \<lparr>ptx = 10, pty = 0\<rparr>, \<lparr>ptx = 10, pty = 10\<rparr>] ! j)
           ([\<lparr>ptx = 0, pty = 0\<rparr>, \<lparr>ptx = 10, pty = 0\<rparr>, \<lparr>ptx = 10, pty = 10\<rparr>] ! Suc j) s =
        lerp \<lparr>ptx = 10, pty = 0\<rparr> \<lparr>ptx = 10, pty = 10\<rparr> (1 / 2) \<and>
      station_offset [\<lparr>ptx = 0, pty = 0\<rparr>, \<lparr>ptx = 10, pty = 0\<rparr>, \<lparr>ptx = 10, pty = 10\<rparr>]
        (build_vertex_m [\<lparr>ptx = 0, pty = 0\<rparr>, \<lparr>ptx = 10, pty = 0\<rparr>, \<lparr>ptx = 10, pty = 10\<rparr>]) 0
        (lerp \<lparr>ptx = 10, pty = 0\<rparr> \<lparr>ptx = 10, pty = 10\<rparr> (1 / 2)) =
      Inr (Num (path_len [\<lparr>ptx = 0, pty = 0\<rparr>, \<lparr>ptx = 10, pty = 0\<rparr>, \<lparr>ptx = 10, pty = 10\<rparr>] j +
                s * seg_len [\<lparr>ptx = 0, pty = 0\<rparr>, \<lparr>ptx = 10, pty = 0\<rparr>, \<lparr>ptx = 10, pty = 10\<rparr>] j), Num 0))"
proof -
  let ?vs = "[\<lparr>ptx = 0, pty = 0\<rparr>, \<lparr>ptx = 10, pty = 0\<rparr>, \<lparr>ptx = 10, pty = 10\<rparr>]"
  have h1: "Suc 0 < length ?vs - 1" and h2: "0 \<le> (1 / 2 :: real)" and h3: "(1 / 2 :: real) \<le> 1"
    and h4: "0 \<le> (0 :: real)" by simp_all
  show ?thesis using h1 h2 h3 h4 on_alignment_station [OF h1 h2 h3 h4] by simp
qed

end
