(* ===== verification/Parameters.thy ===== *)
theory Parameters
  imports Prelude
begin

text \<open>
  The interface between the plugin's algorithms and the QGIS processing framework:
  the parameter declarations an algorithm makes in \<open>initAlgorithm\<close>
  (\<open>addParameter(QgsProcessingParameter\<dots>(\<dots>))\<close>), the reads it makes in
  \<open>processAlgorithm\<close> (\<open>parameterAsVectorLayer\<close>, \<open>parameterAsString\<close>,
  \<open>parameterAsDouble\<close>, \<open>parameterAsCrs\<close>), and what the framework checks of a
  value before the algorithm runs (a numeric parameter's \<open>minValue\<close>). The
  framework itself is not part of the repository: its behaviour here is the
  documented one. Both algorithms' declarations (theories \<open>AlgorithmConfig\<close> and
  \<open>PNEZD\<close>) are checked against the same well-formedness predicate: names
  declared once, every field parameter attached to a layer parameter declared
  before it, every numeric default accepted by its own minimum, and every read
  of \<open>processAlgorithm\<close> naming a declared parameter of a matching kind. The
  registration calls \<open>addParameter\<close> and \<open>addOutput\<close> are state changes on the
  algorithm's declarations; well-formed declarations are all accepted, in order.
\<close>

datatype layer_type =
    TypeVectorLine
  | TypeVectorPoint
  | TypeVectorAnyGeometry

datatype field_type =
    StringField
  | NumericField

datatype file_behavior =
    FileBehavior
  | FolderBehavior

datatype param_def =
    FeatureSourceParam string string "layer_type list"
  | FieldParam string string string field_type bool
  | NumberParam string string real real
  | FileDestinationParam string string string
  | FileParam string string file_behavior string
  | CrsParam string string string

primrec param_name :: "param_def \<Rightarrow> string" where
  "param_name (FeatureSourceParam n d ts) = n"
| "param_name (FieldParam n d parent t multi) = n"
| "param_name (NumberParam n d dflt mn) = n"
| "param_name (FileDestinationParam n d flt) = n"
| "param_name (FileParam n d b flt) = n"
| "param_name (CrsParam n d dflt) = n"

datatype param_read =
    AsVectorLayer string
  | AsString string
  | AsDouble string
  | AsCrs string

primrec read_key :: "param_read \<Rightarrow> string" where
  "read_key (AsVectorLayer k) = k"
| "read_key (AsString k) = k"
| "read_key (AsDouble k) = k"
| "read_key (AsCrs k) = k"

definition lookup_param :: "param_def list \<Rightarrow> string \<Rightarrow> param_def option" where
  "lookup_param ps k = find (\<lambda>p. param_name p = k) ps"

text \<open>Which declared kinds each read accepts.\<close>

fun read_matches :: "param_read \<Rightarrow> param_def \<Rightarrow> bool" where
  "read_matches (AsVectorLayer k) (FeatureSourceParam n d ts) = True"
| "read_matches (AsString k) (FieldParam n d parent t multi) = True"
| "read_matches (AsString k) (FileDestinationParam n d flt) = True"
| "read_matches (AsString k) (FileParam n d b flt) = True"
| "read_matches (AsDouble k) (NumberParam n d dflt mn) = True"
| "read_matches (AsCrs k) (CrsParam n d dflt) = True"
| "read_matches r p = False"

text \<open>The framework's check of a numeric value against its declaration.\<close>

fun accepts_double :: "param_def \<Rightarrow> real \<Rightarrow> bool" where
  "accepts_double (NumberParam n d dflt mn) x = (mn \<le> x)"
| "accepts_double p x = False"

fun is_layer_param :: "param_def \<Rightarrow> bool" where
  "is_layer_param (FeatureSourceParam n d ts) = True"
| "is_layer_param p = False"

text \<open>One declaration, given those made before it.\<close>

fun decl_ok :: "param_def list \<Rightarrow> param_def \<Rightarrow> bool" where
  "decl_ok before (FieldParam n d parent t multi) =
     (case lookup_param before parent of None \<Rightarrow> False | Some p \<Rightarrow> is_layer_param p)"
| "decl_ok before (NumberParam n d dflt mn) = (mn \<le> dflt)"
| "decl_ok before p = True"

fun decls_ok :: "param_def list \<Rightarrow> param_def list \<Rightarrow> bool" where
  "decls_ok before [] = True"
| "decls_ok before (p # ps) =
     (decl_ok before p \<and> list_all (\<lambda>q. param_name q \<noteq> param_name p) before \<and> decls_ok (before @ [p]) ps)"

definition params_wf :: "param_def list \<Rightarrow> param_read list \<Rightarrow> bool" where
  "params_wf ps reads =
     (decls_ok [] ps \<and>
      list_all (\<lambda>r. case lookup_param ps (read_key r) of None \<Rightarrow> False | Some p \<Rightarrow> read_matches r p) reads)"

section \<open>Registering declarations\<close>

text \<open>
  \<open>QgsProcessingAlgorithm.addParameter\<close> refuses (returns \<open>False\<close>) a parameter whose
  name is already declared; a destination parameter also creates the output of the
  same name. \<open>addOutput\<close> refuses an output name already declared. An algorithm's
  \<open>initAlgorithm\<close> is the sequence of these calls on its declarations.
\<close>

datatype output_kind =
    OutputFile
  | OutputVectorLayer

record alg_decls =
  decl_params :: "param_def list"
  decl_outputs :: "(string \<times> output_kind) list"

definition empty_decls :: alg_decls where
  "empty_decls = \<lparr>decl_params = [], decl_outputs = []\<rparr>"

fun dest_output :: "param_def \<Rightarrow> (string \<times> output_kind) list" where
  "dest_output (FileDestinationParam n d flt) = [(n, OutputFile)]"
| "dest_output p = []"

definition addParameter :: "param_def \<Rightarrow> alg_decls \<Rightarrow> alg_decls \<times> bool" where
  "addParameter p d =
     (if list_ex (\<lambda>q. param_name q = param_name p) (decl_params d) then (d, False)
      else (d\<lparr>decl_params := decl_params d @ [p], decl_outputs := decl_outputs d @ dest_output p\<rparr>, True))"

definition addOutput :: "string \<Rightarrow> output_kind \<Rightarrow> alg_decls \<Rightarrow> alg_decls \<times> bool" where
  "addOutput n k d =
     (if list_ex (\<lambda>out. fst out = n) (decl_outputs d) then (d, False)
      else (d\<lparr>decl_outputs := decl_outputs d @ [(n, k)]\<rparr>, True))"

text \<open>A sequence of \<open>addParameter\<close> calls, and whether every one was accepted.\<close>

fun addParameters :: "param_def list \<Rightarrow> alg_decls \<Rightarrow> alg_decls \<times> bool" where
  "addParameters [] d = (d, True)"
| "addParameters (p # ps) d =
     (case addParameter p d of (d1, ok1) \<Rightarrow> (case addParameters ps d1 of (d2, ok2) \<Rightarrow> (d2, ok1 \<and> ok2)))"

section \<open>Algorithm metadata\<close>

text \<open>
  \<open>name\<close>, \<open>displayName\<close>, \<open>group\<close> and \<open>groupId\<close> of a \<open>QgsProcessingAlgorithm\<close>.
  \<open>self.tr\<close> is \<open>QCoreApplication.translate\<close>, the identity without an installed
  translator.
\<close>

record algorithm_meta =
  alg_name :: string
  alg_displayName :: string
  alg_group :: string
  alg_groupId :: string

definition tr :: "string \<Rightarrow> string" where
  "tr s = s"

text \<open>The docstrings of \<open>name\<close> and \<open>groupId\<close>: lowercase alphanumeric characters only.\<close>

definition lower_alnum :: "string \<Rightarrow> bool" where
  "lower_alnum s = list_all (\<lambda>c. c \<in> set ''abcdefghijklmnopqrstuvwxyz0123456789'') s"



lemmas params_eval = params_wf_def lookup_param_def

section \<open>Consequences of well-formedness\<close>

lemma decls_ok_distinct: "decls_ok before ps \<Longrightarrow> distinct (map param_name (before @ ps)) \<longleftrightarrow> distinct (map param_name before)"
proof (induction before ps rule: decls_ok.induct)
  case (1 before)
  then show ?case by simp
next
  case (2 before p ps)
  then show ?case by (auto simp: list_all_iff)
qed

lemma params_wf_distinct: "params_wf ps reads \<Longrightarrow> distinct (map param_name ps)"
  using decls_ok_distinct [of "[]" ps] by (simp add: params_wf_def)

lemma params_wf_read:
  assumes "params_wf ps reads" "r \<in> set reads"
  shows "\<exists>p. lookup_param ps (read_key r) = Some p \<and> read_matches r p"
  using assms by (auto simp: params_wf_def list_all_iff split: option.splits)

text \<open>Declarations with distinct names, none already declared, are all accepted, in order.\<close>

lemma addParameters_fresh:
  "distinct (map param_name ps) \<Longrightarrow> set (map param_name ps) \<inter> set (map param_name (decl_params d)) = {} \<Longrightarrow>
   addParameters ps d =
     (d\<lparr>decl_params := decl_params d @ ps, decl_outputs := decl_outputs d @ concat (map dest_output ps)\<rparr>, True)"
proof (induction ps arbitrary: d)
  case Nil
  then show ?case by simp
next
  case (Cons p ps)
  then have "param_name p \<notin> param_name ` set (decl_params d)" by auto
  then have "\<not> list_ex (\<lambda>q. param_name q = param_name p) (decl_params d)"
    by (auto simp: list_ex_iff image_iff)
  moreover have "set (map param_name ps) \<inter> set (map param_name (decl_params d @ [p])) = {}"
    using Cons.prems by auto
  ultimately show ?case
    using Cons.IH [of "d\<lparr>decl_params := decl_params d @ [p], decl_outputs := decl_outputs d @ dest_output p\<rparr>"] Cons.prems
    by (simp add: addParameter_def)
qed

lemma params_wf_register:
  "params_wf ps reads \<Longrightarrow>
   addParameters ps empty_decls = (\<lparr>decl_params = ps, decl_outputs = concat (map dest_output ps)\<rparr>, True)"
  using addParameters_fresh [OF params_wf_distinct, of ps reads empty_decls] by (simp add: empty_decls_def)

lemma lookup_param_in: "lookup_param ps k = Some p \<Longrightarrow> p \<in> set ps \<and> param_name p = k"
  by (auto simp: lookup_param_def find_Some_iff nth_mem)

end
