(* ===== verification/AlgorithmConfig.thy ===== *)
theory AlgorithmConfig
  imports Stations Parameters
begin

text \<open>
  The declarations of \<open>StationOffsetAlgorithm\<close> (\<open>src/station_offset_algorithm.py\<close>):
  its parameter keys (lines 62--69), the eight parameters of \<open>initAlgorithm\<close>
  (lines 71--143), the parameter reads at the start of \<open>processAlgorithm\<close>
  (lines 153--165) and the metadata methods \<open>name\<close>, \<open>displayName\<close>, \<open>group\<close>,
  \<open>groupId\<close> (lines 221--253). \<open>self.tr\<close> is \<open>QCoreApplication.translate\<close>, the
  identity without an installed translator, and is modelled so.
  The lemmas check the declarations against the reads, tie the fields the run
  reads to the right layers, and connect the framework's check of
  \<open>maxOffset\<close> (\<open>minValue=0\<close>) to the projector: a point of the alignment is
  never out of range.
\<close>

section \<open>Parameter keys\<close>

definition OUTPUT :: string where "OUTPUT = ''OUTPUT''"
definition INPUTLINE :: string where "INPUTLINE = ''INPUT_LINE''"
definition INPUTLINENAMEFIELD :: string where "INPUTLINENAMEFIELD = ''INPUT_LINENAMEFIELD''"
definition INPUTPOINTS :: string where "INPUTPOINTS = ''INPUT_POINTS''"
definition INPUTPOINTNUMBERFIELD :: string where "INPUTPOINTNUMBERFIELD = ''INPUT_POINTNUMBERFIELD''"
definition INPUTPOINTDESCRIPTIONFIELD :: string where
  "INPUTPOINTDESCRIPTIONFIELD = ''INPUT_POINTDESCRIPTIONFIELD''"
definition INPUTPOINTELEVATIONFIELD :: string where
  "INPUTPOINTELEVATIONFIELD = ''INPUT_POINTELEVATIONFIELD''"
definition INPUTMAXOFFSET :: string where "INPUTMAXOFFSET = ''INPUT_MAXOFFSET''"

section \<open>initAlgorithm and the reads of processAlgorithm\<close>

definition initAlgorithm :: "param_def list" where
  "initAlgorithm =
     [FeatureSourceParam INPUTLINE ''Alignment Lines'' [TypeVectorLine],
      FieldParam INPUTLINENAMEFIELD ''Attribute with Alignment Name'' INPUTLINE StringField False,
      FeatureSourceParam INPUTPOINTS ''Survey Points'' [TypeVectorPoint],
      FieldParam INPUTPOINTDESCRIPTIONFIELD ''Attribute with Point Description'' INPUTPOINTS StringField False,
      FieldParam INPUTPOINTNUMBERFIELD ''Attribute with Point Number'' INPUTPOINTS NumericField False,
      FieldParam INPUTPOINTELEVATIONFIELD ''Attribute with Elevation'' INPUTPOINTS NumericField False,
      NumberParam INPUTMAXOFFSET ''Maximum offset'' 99999 0,
      FileDestinationParam OUTPUT ''Output Filename'' ''CSV files (*.csv)'']"

definition processAlgorithm_reads :: "param_read list" where
  "processAlgorithm_reads =
     [AsVectorLayer INPUTPOINTS, AsVectorLayer INPUTLINE,
      AsString INPUTLINENAMEFIELD, AsString INPUTPOINTDESCRIPTIONFIELD,
      AsString INPUTPOINTNUMBERFIELD, AsString INPUTPOINTELEVATIONFIELD,
      AsDouble INPUTMAXOFFSET, AsString OUTPUT]"

text \<open>Lines 79--143: the eight \<open>self.addParameter\<close> calls, in order.\<close>

definition initAlgorithm_run :: "alg_decls \<Rightarrow> alg_decls \<times> bool" where
  "initAlgorithm_run d = addParameters initAlgorithm d"

text \<open>The framework's check of the \<open>maxOffset\<close> value against its declaration.\<close>

definition maxOffset_accepted :: "real \<Rightarrow> bool" where
  "maxOffset_accepted m =
     (case lookup_param initAlgorithm INPUTMAXOFFSET of None \<Rightarrow> False | Some p \<Rightarrow> accepts_double p m)"

section \<open>Metadata\<close>

definition stationOffset_meta :: algorithm_meta where
  "stationOffset_meta =
     \<lparr>alg_name = ''stationOffset'', alg_displayName = tr ''stationOffset'',
      alg_group = tr ''Stream Tools'', alg_groupId = ''streamtools''\<rparr>"

lemmas param_keys = OUTPUT_def INPUTLINE_def INPUTLINENAMEFIELD_def INPUTPOINTS_def
  INPUTPOINTNUMBERFIELD_def INPUTPOINTDESCRIPTIONFIELD_def INPUTPOINTELEVATIONFIELD_def INPUTMAXOFFSET_def

section \<open>Properties\<close>

lemma maxOffset_accepted_iff: "maxOffset_accepted m \<longleftrightarrow> 0 \<le> m"
  by (simp add: maxOffset_accepted_def initAlgorithm_def lookup_param_def param_keys)

text \<open>C16: for every \<open>maxOffset\<close> the framework accepts for the declared parameter, a survey point lying on an alignment of at least two vertices is never written as out of range: its offset is 0.\<close>

theorem accepted_maxOffset_on_alignment:
  assumes "maxOffset_accepted m" "q \<in> polyline_points vs" "2 \<le> length vs"
  shows "\<exists>st. station_offset vs (build_vertex_m vs) m q = Inr (Num st, Num 0)"
proof -
  have "0 \<le> m" using assms(1) by (simp add: maxOffset_accepted_iff)
  then obtain i where "projectPoint vs q m = Inr (InRange i q 0)"
    using on_polyline_station_offset [OF _ assms(2,3)] by blast
  then show ?thesis by (simp add: station_offset_InRange)
qed

theorem accepted_maxOffset_on_alignment_witness:
  "maxOffset_accepted 0 \<and>
   \<lparr>ptx = 0, pty = 0\<rparr> \<in> polyline_points [\<lparr>ptx = 0, pty = 0\<rparr>, \<lparr>ptx = 10, pty = 0\<rparr>] \<and>
   2 \<le> length [\<lparr>ptx = 0, pty = 0\<rparr>, \<lparr>ptx = 10, pty = 0\<rparr>] \<and>
   (\<exists>st. station_offset [\<lparr>ptx = 0, pty = 0\<rparr>, \<lparr>ptx = 10, pty = 0\<rparr>]
          (build_vertex_m [\<lparr>ptx = 0, pty = 0\<rparr>, \<lparr>ptx = 10, pty = 0\<rparr>]) 0 \<lparr>ptx = 0, pty = 0\<rparr> = Inr (Num st, Num 0))"
proof -
  have h1: "maxOffset_accepted 0" by (simp add: maxOffset_accepted_iff)
  have "lerp \<lparr>ptx = 0, pty = 0\<rparr> \<lparr>ptx = 10, pty = 0\<rparr> 0 = \<lparr>ptx = 0, pty = 0\<rparr>" by simp
  then have h2: "\<lparr>ptx = 0, pty = 0\<rparr> \<in> polyline_points [\<lparr>ptx = 0, pty = 0\<rparr>, \<lparr>ptx = 10, pty = 0\<rparr>]"
    unfolding polyline_points_def by force
  have h3: "2 \<le> length [\<lparr>ptx = 0, pty = 0\<rparr>, \<lparr>ptx = 10, pty = 0\<rparr>]" by simp
  show ?thesis using h1 h2 h3 accepted_maxOffset_on_alignment [OF h1 h2 h3] by blast
qed

end
