(* ===== verification/PNEZD.thy ===== *)
theory PNEZD
  imports Parameters
begin

text \<open>
  \<open>PNEZDAlgorithm\<close> (\<open>src/pnezd_algorithm.py\<close>): it declares a file and a CRS
  parameter (lines 60--87) and, in \<open>processAlgorithm\<close> (lines 89--124), builds the
  URI of a QGIS delimited-text layer over the chosen file (no header row, point
  geometry with \<open>xField=field_3\<close> and \<open>yField=field_2\<close>), names the five columns
  \<open>PN, Northing, Easting, Elevation, Description\<close> by \<open>setFieldAlias\<close>, and adds
  the layer to the project (explicit state: the project's layer list).
  How the delimited-text provider reads a line is QGIS behaviour, not code of the
  repository: with \<open>useHeader=no\<close> it splits on commas and names the columns
  \<open>field_1, field_2, \<dots>\<close> from 1, while \<open>setFieldAlias\<close> counts from 0. The lemmas
  show that the two conventions agree: the point's x is the Easting column and its
  y the Northing column, for every PNEZD line whose fields hold no comma.
\<close>

section \<open>Declarations\<close>

definition CRSINPUT :: string where "CRSINPUT = ''EPSG:4326''"
definition INPUTFILE :: string where "INPUTFILE = ''INPUT_FILE''"
definition pnezd_OUTPUT :: string where "pnezd_OUTPUT = ''OUTPUT''"

definition pnezd_initAlgorithm :: "param_def list" where
  "pnezd_initAlgorithm =
     [FileParam INPUTFILE ''PNEZD File (csv, txt)'' FileBehavior ''PNEZD (*.csv)'',
      CrsParam CRSINPUT ''Coordinate System'' ''EPSG:6529'']"

text \<open>Lines 70--87: the two \<open>addParameter\<close> calls, then \<open>addOutput\<close> of the vector layer.\<close>

definition pnezd_initAlgorithm_run :: "alg_decls \<Rightarrow> alg_decls \<times> bool" where
  "pnezd_initAlgorithm_run d =
     (case addParameters pnezd_initAlgorithm d of
        (d1, ok1) \<Rightarrow> (case addOutput pnezd_OUTPUT OutputVectorLayer d1 of (d2, ok2) \<Rightarrow> (d2, ok1 \<and> ok2)))"

definition pnezd_reads :: "param_read list" where
  "pnezd_reads = [AsCrs CRSINPUT, AsString INPUTFILE]"

text \<open>Lines 161--162: \<open>PNEZDAlgorithm.tr\<close>, \<open>QCoreApplication.translate\<close> without a translator.\<close>

definition pnezd_tr :: "string \<Rightarrow> string" where
  "pnezd_tr s = s"

definition pnezd_meta :: algorithm_meta where
  "pnezd_meta =
     \<lparr>alg_name = ''importPNEZD'', alg_displayName = ''Create Delimited Text Layer from PNEZD File'',
      alg_group = pnezd_tr ''Stream Tools'', alg_groupId = ''streamtools''\<rparr>"

section \<open>processAlgorithm\<close>

record vector_layer =
  layer_path :: string
  layer_query :: "(string \<times> string) list"
  layer_name :: string
  layer_provider :: string
  layer_aliases :: "nat \<Rightarrow> string option"

definition pnezd_query :: "string \<Rightarrow> (string \<times> string) list" where
  "pnezd_query authid =
     [(''crs'', authid), (''index'', ''yes''), (''type'', ''csv''), (''xField'', ''field_3''),
      (''yField'', ''field_2''), (''geomType'', ''point''), (''useHeader'', ''no''),
      (''detectTypes'', ''yes''), (''spatialIndex'', ''yes'')]"

definition setFieldAlias :: "vector_layer \<Rightarrow> nat \<Rightarrow> string \<Rightarrow> vector_layer" where
  "setFieldAlias layer i a = layer\<lparr>layer_aliases := (layer_aliases layer)(i \<mapsto> a)\<rparr>"

definition pnezd_processAlgorithm ::
  "vector_layer list \<Rightarrow> string \<Rightarrow> string \<Rightarrow> vector_layer list \<times> vector_layer" where
  "pnezd_processAlgorithm project crs_authid csvfileName =
     (let layer0 = \<lparr>layer_path = csvfileName, layer_query = pnezd_query crs_authid,
                    layer_name = ''Survey Points'', layer_provider = ''delimitedtext'',
                    layer_aliases = Map.empty\<rparr>;
          layer1 = setFieldAlias layer0 0 ''PN'';
          layer2 = setFieldAlias layer1 1 ''Northing'';
          layer3 = setFieldAlias layer2 2 ''Easting'';
          layer4 = setFieldAlias layer3 3 ''Elevation'';
          layer = setFieldAlias layer4 4 ''Description''
      in (project @ [layer], layer))"

section \<open>The delimited-text provider\<close>

fun nat_str :: "nat \<Rightarrow> string" where
  "nat_str n =
     (if n < 10 then [''0123456789'' ! n] else nat_str (n div 10) @ [''0123456789'' ! (n mod 10)])"

declare nat_str.simps [simp del]

definition dt_field_name :: "nat \<Rightarrow> string" where
  "dt_field_name i = ''field_'' @ nat_str (Suc i)"

fun split_on :: "char \<Rightarrow> string \<Rightarrow> string list" where
  "split_on c [] = [[]]"
| "split_on c (x # xs) = (if x = c then [] # split_on c xs else (let r = split_on c xs in (x # hd r) # tl r))"

fun join_on :: "char \<Rightarrow> string list \<Rightarrow> string" where
  "join_on c [] = []"
| "join_on c [f] = f"
| "join_on c (f # fs) = f @ c # join_on c fs"

definition dt_column :: "(string \<times> string) list \<Rightarrow> string \<Rightarrow> string list \<Rightarrow> string option" where
  "dt_column query key row =
     (case map_of query key of
        None \<Rightarrow> None
      | Some fname \<Rightarrow> map_of (zip (map dt_field_name [0..<length row]) row) fname)"

definition dt_read :: "vector_layer \<Rightarrow> string \<Rightarrow> (string list \<times> string \<times> string) option" where
  "dt_read layer line =
     (let row = split_on (CHR '','') line in
      case (dt_column (layer_query layer) ''xField'' row, dt_column (layer_query layer) ''yField'' row) of
        (Some x, Some y) \<Rightarrow> Some (row, x, y)
      | _ \<Rightarrow> None)"

definition column_alias :: "vector_layer \<Rightarrow> string \<Rightarrow> string option" where
  "column_alias layer key =
     (case map_of (layer_query layer) key of
        None \<Rightarrow> None
      | Some fname \<Rightarrow>
          (case find (\<lambda>i. dt_field_name i = fname) [0..<5] of
             None \<Rightarrow> None
           | Some i \<Rightarrow> layer_aliases layer i))"

section \<open>PNEZD records\<close>

record pnezd_record =
  pn_text :: string
  northing_text :: string
  easting_text :: string
  elevation_text :: string
  description_text :: string

definition pnezd_fields :: "pnezd_record \<Rightarrow> string list" where
  "pnezd_fields r = [pn_text r, northing_text r, easting_text r, elevation_text r, description_text r]"

definition pnezd_line :: "pnezd_record \<Rightarrow> string" where
  "pnezd_line r = join_on (CHR '','') (pnezd_fields r)"

section \<open>Splitting and joining\<close>

lemma split_on_append:
  "c \<notin> set f \<Longrightarrow> split_on c (f @ c # rest) = f # split_on c rest"
  by (induction f) (auto simp: Let_def)

lemma split_on_no_sep: "c \<notin> set f \<Longrightarrow> split_on c f = [f]"
  by (induction f) (auto simp: Let_def)

lemma split_join_on:
  "fs \<noteq> [] \<Longrightarrow> list_all (\<lambda>f. c \<notin> set f) fs \<Longrightarrow> split_on c (join_on c fs) = fs"
  by (induction c fs rule: join_on.induct) (simp_all add: split_on_append split_on_no_sep)

lemma pnezd_layer_query: "layer_query (snd (pnezd_processAlgorithm prj crs path)) = pnezd_query crs"
  by (simp add: pnezd_processAlgorithm_def setFieldAlias_def Let_def)

lemmas dt_eval = dt_column_def dt_field_name_def nat_str.simps pnezd_query_def upt_rec

section \<open>Layer facts\<close>

lemma pnezd_layer_facts:
  "fst (pnezd_processAlgorithm prj crs path) = prj @ [snd (pnezd_processAlgorithm prj crs path)] \<and>
   column_alias (snd (pnezd_processAlgorithm prj crs path)) ''xField'' = Some ''Easting'' \<and>
   column_alias (snd (pnezd_processAlgorithm prj crs path)) ''yField'' = Some ''Northing'' \<and>
   map_of (layer_query (snd (pnezd_processAlgorithm prj crs path))) ''crs'' = Some crs \<and>
   params_wf pnezd_initAlgorithm pnezd_reads"
  by (simp add: pnezd_processAlgorithm_def setFieldAlias_def column_alias_def dt_eval Let_def
                params_eval pnezd_initAlgorithm_def pnezd_reads_def CRSINPUT_def INPUTFILE_def)

lemma split_pnezd_line:
  "list_all (\<lambda>f. CHR '','' \<notin> set f) (pnezd_fields r) \<Longrightarrow>
   split_on (CHR '','') (pnezd_line r) = pnezd_fields r"
  unfolding pnezd_line_def by (intro split_join_on) (simp_all add: pnezd_fields_def)

lemma dt_read_pnezd_line:
  assumes "list_all (\<lambda>f. CHR '','' \<notin> set f) (pnezd_fields r)"
  shows "dt_read (snd (pnezd_processAlgorithm prj crs path)) (pnezd_line r) =
           Some (pnezd_fields r, easting_text r, northing_text r)"
proof -
  have row: "split_on (CHR '','') (pnezd_line r) = pnezd_fields r"
    using assms by (rule split_pnezd_line)
  have x: "dt_column (pnezd_query crs) ''xField'' (pnezd_fields r) = Some (easting_text r)"
    by (simp add: pnezd_fields_def dt_eval)
  have y: "dt_column (pnezd_query crs) ''yField'' (pnezd_fields r) = Some (northing_text r)"
    by (simp add: pnezd_fields_def dt_eval)
  show ?thesis by (simp add: dt_read_def row pnezd_layer_query x y)
qed

section \<open>Properties\<close>

text \<open>C18: \<open>processAlgorithm\<close> adds exactly the new layer to the project, in the chosen CRS, and its x column is the one aliased \<open>Easting\<close> and its y column the one aliased \<open>Northing\<close>; reading back a PNEZD line (fields without commas) through that layer gives the five fields as attributes and the point whose x is the Easting field and whose y is the Northing field; the two declared parameters cover the two reads.\<close>

theorem pnezd_read_roundtrip:
  assumes "list_all (\<lambda>f. CHR '','' \<notin> set f) (pnezd_fields r)"
  shows "dt_read (snd (pnezd_processAlgorithm prj crs path)) (pnezd_line r) =
           Some (pnezd_fields r, easting_text r, northing_text r) \<and>
         fst (pnezd_processAlgorithm prj crs path) = prj @ [snd (pnezd_processAlgorithm prj crs path)] \<and>
         column_alias (snd (pnezd_processAlgorithm prj crs path)) ''xField'' = Some ''Easting'' \<and>
         column_alias (snd (pnezd_processAlgorithm prj crs path)) ''yField'' = Some ''Northing'' \<and>
         map_of (layer_query (snd (pnezd_processAlgorithm prj crs path))) ''crs'' = Some crs \<and>
         params_wf pnezd_initAlgorithm pnezd_reads"
  using dt_read_pnezd_line [OF assms] pnezd_layer_facts [of prj crs path] by simp

theorem pnezd_read_roundtrip_witness:
  "list_all (\<lambda>f. CHR '','' \<notin> set f) (pnezd_fields \<lparr>pn_text = ''7'', northing_text = ''5000.5'', easting_text = ''2000.25'',
                    elevation_text = ''101.3'', description_text = ''TREE''\<rparr>) \<and>
   dt_read (snd (pnezd_processAlgorithm [] ''EPSG:6529'' ''points.csv'')) (pnezd_line \<lparr>pn_text = ''7'', northing_text = ''5000.5'', easting_text = ''2000.25'',
                    elevation_text = ''101.3'', description_text = ''TREE''\<rparr>) =
     Some (pnezd_fields \<lparr>pn_text = ''7'', northing_text = ''5000.5'', easting_text = ''2000.25'',
                    elevation_text = ''101.3'', description_text = ''TREE''\<rparr>, ''2000.25'', ''5000.5'') \<and>
   fst (pnezd_processAlgorithm [] ''EPSG:6529'' ''points.csv'') = [(snd (pnezd_processAlgorithm [] ''EPSG:6529'' ''points.csv''))] \<and>
   column_alias (snd (pnezd_processAlgorithm [] ''EPSG:6529'' ''points.csv'')) ''xField'' = Some ''Easting'' \<and>
   column_alias (snd (pnezd_processAlgorithm [] ''EPSG:6529'' ''points.csv'')) ''yField'' = Some ''Northing'' \<and>
   map_of (layer_query (snd (pnezd_processAlgorithm [] ''EPSG:6529'' ''points.csv''))) ''crs'' = Some ''EPSG:6529'' \<and>
   params_wf pnezd_initAlgorithm pnezd_reads"
proof -
  have h: "list_all (\<lambda>f. CHR '','' \<notin> set f) (pnezd_fields \<lparr>pn_text = ''7'', northing_text = ''5000.5'', easting_text = ''2000.25'',
                    elevation_text = ''101.3'', description_text = ''TREE''\<rparr>)"
    by (simp add: pnezd_fields_def)
  show ?thesis
    using h pnezd_read_roundtrip [OF h, of "[]" "''EPSG:6529''" "''points.csv''"]
    by (simp only: pnezd_record.select_convs append_Nil)
qed

end
