(* ===== verification/Plugin.thy ===== *)
theory Plugin
  imports Prelude
begin

text \<open>
  The module \<open>src/station_offset.py\<close> first puts its folder on \<open>sys.path\<close> (lines
  40--43). \<open>StationOffsetPlugin\<close> (lines 46--60) registers the plugin's processing
  provider with QGIS: \<open>__init__\<close> sets \<open>self.provider = None\<close>, \<open>initProcessing\<close>
  creates a new \<open>StationOffsetProvider\<close> object and passes it to the processing
  registry, \<open>initGui\<close> calls \<open>initProcessing\<close>, and \<open>unload\<close> passes \<open>self.provider\<close>
  to \<open>removeProvider\<close>. The host calls these in an order it chooses, so the plugin
  is a state machine over the host's calls.
  The registry is QGIS's \<open>QgsProcessingRegistry\<close> (not among the sources, modelled
  from its C++ implementation): it is keyed by provider id and owns the providers it
  is given. \<open>addProvider\<close> refuses a provider whose id is already registered and
  deletes it; \<open>removeProvider\<close> takes the provider registered under the given
  provider's id out of the registry and deletes it (nothing for \<open>None\<close>). A Python
  wrapper whose C++ object was deleted raises \<open>RuntimeError\<close> when it is passed to
  QGIS again. Provider objects are therefore modelled with identity: objects of
  other providers, and \<open>StationOffsetProvider\<close> objects numbered by creation (the
  next fresh number is \<open>created\<close>, as the next free address of a heap), with the
  set of deleted objects. An exception raised by a call reaches the host and leaves
  the plugin's state as it was.
\<close>

text \<open>
  Module initialisation (lines 40--43): the plugin's folder \<open>cmd_folder\<close> is put at the
  front of \<open>sys.path\<close> unless it is already on it.
\<close>

definition module_init_path :: "string \<Rightarrow> string list \<Rightarrow> string list" where
  "module_init_path cmd_folder sys_path =
     (if cmd_folder \<notin> set sys_path then cmd_folder # sys_path else sys_path)"

definition StationOffsetProvider_id :: string where
  "StationOffsetProvider_id = ''stationoffset''"

datatype provider_obj =
    HostProvider string nat
  | StationOffsetProvider nat

primrec provider_id :: "provider_obj \<Rightarrow> string" where
  "provider_id (HostProvider k n) = k"
| "provider_id (StationOffsetProvider n) = StationOffsetProvider_id"

type_synonym registry = "string \<rightharpoonup> provider_obj"

record plugin_state =
  provider :: "provider_obj option"
  processingRegistry :: registry
  deleted :: "provider_obj set"
  created :: nat

text \<open>\<open>QgsProcessingRegistry::addProvider\<close>: a duplicate id is refused and the refused provider deleted.\<close>

definition addProvider :: "provider_obj \<Rightarrow> plugin_state \<Rightarrow> plugin_state \<times> bool" where
  "addProvider p s =
     (if processingRegistry s (provider_id p) \<noteq> None
      then (s\<lparr>deleted := insert p (deleted s)\<rparr>, False)
      else (s\<lparr>processingRegistry := (processingRegistry s)(provider_id p \<mapsto> p)\<rparr>, True))"

text \<open>\<open>QgsProcessingRegistry.removeProvider(provider)\<close> from Python: \<open>RuntimeError\<close> on a deleted
  wrapper, nothing for \<open>None\<close>, otherwise the provider registered under its id is taken
  out and deleted.\<close>

definition removeProvider :: "provider_obj option \<Rightarrow> plugin_state \<Rightarrow> py_error + plugin_state \<times> bool" where
  "removeProvider p s =
     (case p of
        None \<Rightarrow> Inr (s, False)
      | Some obj \<Rightarrow>
          if obj \<in> deleted s then Inl RuntimeError
          else (case processingRegistry s (provider_id obj) of
                  None \<Rightarrow> Inr (s, False)
                | Some q \<Rightarrow> Inr (s\<lparr>processingRegistry := (processingRegistry s)(provider_id obj := None),
                                   deleted := insert q (deleted s)\<rparr>, True)))"

text \<open>The plugin is loaded into a host whose registry holds the providers \<open>reg0\<close> (by id).\<close>

definition plugin_init :: "(string \<rightharpoonup> nat) \<Rightarrow> plugin_state" where
  "plugin_init reg0 =
     \<lparr>provider = None, processingRegistry = (\<lambda>k. map_option (HostProvider k) (reg0 k)),
      deleted = {}, created = 0\<rparr>"

definition initProcessing :: "plugin_state \<Rightarrow> plugin_state" where
  "initProcessing s =
     (let p = StationOffsetProvider (created s)
      in fst (addProvider p (s\<lparr>provider := Some p, created := Suc (created s)\<rparr>)))"

definition initGui :: "plugin_state \<Rightarrow> plugin_state" where
  "initGui s = initProcessing s"

definition unload :: "plugin_state \<Rightarrow> py_error + plugin_state" where
  "unload s = (case removeProvider (provider s) s of Inl e \<Rightarrow> Inl e | Inr (s', ok) \<Rightarrow> Inr s')"

datatype plugin_event =
    InitProcessing
  | InitGui
  | Unload

primrec plugin_step :: "plugin_state \<Rightarrow> plugin_event \<Rightarrow> py_error + plugin_state" where
  "plugin_step s InitProcessing = Inr (initProcessing s)"
| "plugin_step s InitGui = Inr (initGui s)"
| "plugin_step s Unload = unload s"

definition plugin_next :: "plugin_state \<Rightarrow> plugin_event \<Rightarrow> plugin_state" where
  "plugin_next s e = (case plugin_step s e of Inl err \<Rightarrow> s | Inr s' \<Rightarrow> s')"

inductive plugin_steps :: "plugin_state \<Rightarrow> plugin_state \<Rightarrow> bool" where
  refl: "plugin_steps s s"
| step: "plugin_steps s t \<Longrightarrow> plugin_steps s (plugin_next t e)"

definition plugin_reachable :: "(string \<rightharpoonup> nat) \<Rightarrow> plugin_state \<Rightarrow> bool" where
  "plugin_reachable reg0 s = plugin_steps (plugin_init reg0) s"

definition plugin_run :: "plugin_state \<Rightarrow> plugin_event list \<Rightarrow> plugin_state" where
  "plugin_run s es = foldl plugin_next s es"

section \<open>The invariant\<close>

text \<open>
  In a reachable state: a registered provider is alive and registered under its own
  id; every provider object the plugin created has a number below \<open>created\<close>; and
  \<open>self.provider\<close>, once set, is a provider the plugin created that is either deleted
  or the one registered under the plugin's id.
\<close>

definition plugin_inv :: "plugin_state \<Rightarrow> bool" where
  "plugin_inv s =
     ((\<forall>k obj. processingRegistry s k = Some obj \<longrightarrow> obj \<notin> deleted s \<and> provider_id obj = k) \<and>
      (\<forall>n. StationOffsetProvider n \<in> deleted s \<union> ran (processingRegistry s) \<longrightarrow> n < created s) \<and>
      (case provider s of
         None \<Rightarrow> True
       | Some p \<Rightarrow> (\<exists>n. p = StationOffsetProvider n \<and> n < created s) \<and>
                  (p \<in> deleted s \<or> processingRegistry s StationOffsetProvider_id = Some p)))"

lemma plugin_inv_init: "plugin_inv (plugin_init reg0)"
  by (auto simp: plugin_inv_def plugin_init_def ran_def)

lemma plugin_inv_initProcessing: "plugin_inv s \<Longrightarrow> plugin_inv (initProcessing s)"
  by (auto simp: plugin_inv_def initProcessing_def addProvider_def ran_def Let_def
           split: option.splits if_splits)

lemma plugin_inv_unload:
  assumes inv: "plugin_inv s" and u: "unload s = Inr s'"
  shows "plugin_inv s'"
proof (cases "provider s")
  case None
  with inv u show ?thesis by (simp add: unload_def removeProvider_def)
next
  case (Some p)
  from inv have key: "provider_id obj = k" if "processingRegistry s k = Some obj" for k obj
    using that by (simp add: plugin_inv_def)
  have other: "processingRegistry s k \<noteq> Some (StationOffsetProvider n)" if "k \<noteq> StationOffsetProvider_id" for k n
    using key [of k "StationOffsetProvider n"] that by auto
  show ?thesis
    using inv u Some
    by (auto simp: plugin_inv_def unload_def removeProvider_def ran_def other dest: key
             split: option.splits if_splits sum.splits prod.splits)
qed

lemma plugin_inv_next: "plugin_inv s \<Longrightarrow> plugin_inv (plugin_next s e)"
  by (cases e)
     (auto simp: plugin_next_def initGui_def plugin_inv_initProcessing intro: plugin_inv_unload
           split: sum.splits)

lemma plugin_steps_inv: "plugin_steps s t \<Longrightarrow> plugin_inv s \<Longrightarrow> plugin_inv t"
  by (induction rule: plugin_steps.induct) (simp_all add: plugin_inv_next)

lemma plugin_reachable_inv: "plugin_reachable reg0 s \<Longrightarrow> plugin_inv s"
  using plugin_steps_inv plugin_inv_init unfolding plugin_reachable_def by blast

lemma plugin_run_steps: "plugin_steps s (plugin_run s es)"
proof (induction es rule: rev_induct)
  case Nil
  then show ?case by (simp add: plugin_run_def plugin_steps.refl)
next
  case (snoc e es)
  then show ?case by (simp add: plugin_run_def plugin_steps.step)
qed

text \<open>Once the plugin's id is held by a provider \<open>q\<close> and \<open>self.provider\<close> is a deleted object,
  no call changes either: \<open>initProcessing\<close> is refused again, \<open>unload\<close> raises.\<close>

definition plugin_stuck :: "provider_obj \<Rightarrow> plugin_state \<Rightarrow> bool" where
  "plugin_stuck q s =
     (processingRegistry s StationOffsetProvider_id = Some q \<and>
      (case provider s of None \<Rightarrow> False | Some p \<Rightarrow> p \<in> deleted s))"

lemma plugin_stuck_initProcessing: "plugin_stuck q s \<Longrightarrow> plugin_stuck q (initProcessing s)"
  by (auto simp: plugin_stuck_def initProcessing_def addProvider_def Let_def split: option.splits)

lemma plugin_stuck_unload: "plugin_stuck q s \<Longrightarrow> unload s = Inl RuntimeError"
  by (auto simp: plugin_stuck_def unload_def removeProvider_def split: option.splits)

lemma plugin_stuck_steps: "plugin_steps s t \<Longrightarrow> plugin_stuck q s \<Longrightarrow> plugin_stuck q t"
proof (induction rule: plugin_steps.induct)
  case (refl s)
  then show ?case .
next
  case (step s t e)
  then have "plugin_stuck q t" by simp
  then show ?case
    by (cases e) (simp_all add: plugin_next_def initGui_def plugin_stuck_initProcessing plugin_stuck_unload)
qed

text \<open>Importing the module again leaves \<open>sys.path\<close> as the first import left it: the folder is on the path once, and nothing else moves.\<close>

lemma module_init_path_idem:
  "module_init_path d (module_init_path d p) = module_init_path d p \<and>
   set (module_init_path d p) = insert d (set p) \<and>
   (distinct p \<longrightarrow> distinct (module_init_path d p))"
  by (simp add: module_init_path_def insert_absorb)

section \<open>Properties\<close>

text \<open>C20: whatever the host calls, in whatever order, every provider in the registry is alive, and \<open>self.provider\<close>, once set, is either the provider registered under the plugin's id or an object QGIS has already deleted: the plugin never holds a live provider that the registry does not know.\<close>

theorem plugin_provider_registered_or_deleted:
  assumes "plugin_reachable reg0 s"
  shows "ran (processingRegistry s) \<inter> deleted s = {} \<and>
         set_option (provider s) \<subseteq> deleted s \<union> set_option (processingRegistry s StationOffsetProvider_id)"
  using plugin_reachable_inv [OF assms]
  by (auto simp: plugin_inv_def ran_def split: option.splits)

theorem plugin_provider_registered_or_deleted_witness:
  "plugin_reachable Map.empty (plugin_run (plugin_init Map.empty) [InitProcessing, InitGui]) \<and>
   ran (processingRegistry (plugin_run (plugin_init Map.empty) [InitProcessing, InitGui])) \<inter>
     deleted (plugin_run (plugin_init Map.empty) [InitProcessing, InitGui]) = {} \<and>
   set_option (provider (plugin_run (plugin_init Map.empty) [InitProcessing, InitGui])) \<subseteq>
     deleted (plugin_run (plugin_init Map.empty) [InitProcessing, InitGui]) \<union>
     set_option (processingRegistry (plugin_run (plugin_init Map.empty) [InitProcessing, InitGui])
                   StationOffsetProvider_id)"
proof -
  have h: "plugin_reachable Map.empty (plugin_run (plugin_init Map.empty) [InitProcessing, InitGui])"
    unfolding plugin_reachable_def by (rule plugin_run_steps)
  show ?thesis using h plugin_provider_registered_or_deleted [OF h] by blast
qed

text \<open>C21: \<open>unload\<close> in any reachable state where \<open>self.provider\<close> is set: when that provider is alive it is the registered one, and \<open>unload\<close> takes the plugin's id out of the registry, deletes the provider and leaves every other registry entry as it was; when QGIS has already deleted it (a refused duplicate, or an earlier \<open>unload\<close>), \<open>unload\<close> raises \<open>RuntimeError\<close> and changes nothing.\<close>

theorem plugin_unload:
  assumes "plugin_reachable reg0 s" "provider s = Some p"
  shows "unload s =
           (if p \<in> deleted s then Inl RuntimeError
            else Inr (s\<lparr>processingRegistry := (processingRegistry s)(StationOffsetProvider_id := None),
                        deleted := insert p (deleted s)\<rparr>))"
proof -
  from plugin_reachable_inv [OF assms(1)] assms(2) obtain n where
    p: "p = StationOffsetProvider n" and reg: "p \<in> deleted s \<or> processingRegistry s StationOffsetProvider_id = Some p"
    by (auto simp: plugin_inv_def)
  show ?thesis
    using assms(2) p reg by (auto simp: unload_def removeProvider_def)
qed

theorem plugin_unload_witness:
  "plugin_reachable Map.empty (plugin_run (plugin_init Map.empty) [InitGui]) \<and>
   provider (plugin_run (plugin_init Map.empty) [InitGui]) = Some (StationOffsetProvider 0) \<and>
   unload (plugin_run (plugin_init Map.empty) [InitGui]) =
     (if StationOffsetProvider 0 \<in> deleted (plugin_run (plugin_init Map.empty) [InitGui]) then Inl RuntimeError
      else Inr ((plugin_run (plugin_init Map.empty) [InitGui])
                 \<lparr>processingRegistry :=
                    (processingRegistry (plugin_run (plugin_init Map.empty) [InitGui]))(StationOffsetProvider_id := None),
                  deleted := insert (StationOffsetProvider 0) (deleted (plugin_run (plugin_init Map.empty) [InitGui]))\<rparr>))"
proof -
  have h1: "plugin_reachable Map.empty (plugin_run (plugin_init Map.empty) [InitGui])"
    unfolding plugin_reachable_def by (rule plugin_run_steps)
  have h2: "provider (plugin_run (plugin_init Map.empty) [InitGui]) = Some (StationOffsetProvider 0)"
    by (simp add: plugin_run_def plugin_next_def initGui_def initProcessing_def addProvider_def plugin_init_def Let_def)
  show ?thesis using h1 h2 plugin_unload [OF h1 h2] by blast
qed

text \<open>C22: when the plugin's id is already registered (the host called \<open>initProcessing\<close> and then \<open>initGui\<close>, or a provider with the same id is loaded), \<open>initGui\<close> creates a provider that the registry refuses and deletes: \<open>self.provider\<close> is left pointing at a deleted object, \<open>unload\<close> raises \<open>RuntimeError\<close>, and in every state reachable from there the id stays held by the same provider, so the plugin can never remove it.\<close>

theorem plugin_double_init:
  assumes "processingRegistry s StationOffsetProvider_id = Some q"
  shows "provider (initGui s) \<in> Some ` deleted (initGui s) \<and>
         processingRegistry (initGui s) = processingRegistry s \<and>
         unload (initGui s) = Inl RuntimeError \<and>
         (\<lambda>t. processingRegistry t StationOffsetProvider_id) ` Collect (plugin_steps (initGui s)) = {Some q}"
proof -
  have stuck: "plugin_stuck q (initGui s)"
    using assms by (simp add: plugin_stuck_def initGui_def initProcessing_def addProvider_def Let_def)
  have reg: "processingRegistry (initGui s) = processingRegistry s"
    using assms by (simp add: initGui_def initProcessing_def addProvider_def Let_def)
  have "(\<lambda>t. processingRegistry t StationOffsetProvider_id) ` Collect (plugin_steps (initGui s)) = {Some q}"
  proof
    show "(\<lambda>t. processingRegistry t StationOffsetProvider_id) ` Collect (plugin_steps (initGui s)) \<subseteq> {Some q}"
      using plugin_stuck_steps [OF _ stuck] by (auto simp: plugin_stuck_def)
    show "{Some q} \<subseteq> (\<lambda>t. processingRegistry t StationOffsetProvider_id) ` Collect (plugin_steps (initGui s))"
      using stuck plugin_steps.refl [of "initGui s"]
      by (auto simp: plugin_stuck_def intro!: image_eqI [where x = "initGui s"])
  qed
  with stuck reg plugin_stuck_unload [OF stuck] show ?thesis
    by (auto simp: plugin_stuck_def split: option.splits)
qed

theorem plugin_double_init_witness:
  "processingRegistry (plugin_run (plugin_init Map.empty) [InitProcessing]) StationOffsetProvider_id =
     Some (StationOffsetProvider 0) \<and>
   provider (initGui (plugin_run (plugin_init Map.empty) [InitProcessing])) \<in>
     Some ` deleted (initGui (plugin_run (plugin_init Map.empty) [InitProcessing])) \<and>
   processingRegistry (initGui (plugin_run (plugin_init Map.empty) [InitProcessing])) =
     processingRegistry (plugin_run (plugin_init Map.empty) [InitProcessing]) \<and>
   unload (initGui (plugin_run (plugin_init Map.empty) [InitProcessing])) = Inl RuntimeError \<and>
   (\<lambda>t. processingRegistry t StationOffsetProvider_id) `
     Collect (plugin_steps (initGui (plugin_run (plugin_init Map.empty) [InitProcessing]))) =
     {Some (StationOffsetProvider 0)}"
proof -
  have h: "processingRegistry (plugin_run (plugin_init Map.empty) [InitProcessing]) StationOffsetProvider_id =
     Some (StationOffsetProvider 0)"
    by (simp add: plugin_run_def plugin_next_def initProcessing_def addProvider_def plugin_init_def Let_def)
  show ?thesis using h plugin_double_init [OF h] by blast
qed

end
