(* ===== verification/BatchSteps.thy ===== *)
theory BatchSteps
  imports BatchRunner
begin

text \<open>
  The batch run of \<open>processAlgorithm\<close> (\<open>src/station_offset_algorithm.py\<close>, lines
  174--219) as a small-step state machine, in the terms of the specification: the
  runner's only state is the alignment \<open>k\<close> it is at, or the alignment and the
  points still to project, together with the lines written so far. One step is one
  iteration of either loop: a poll and the geometry read of an alignment (lines
  175--197), or the projection and the write of one point (lines 199--213). The
  theory shows that the relation is deterministic, that it reaches a final state
  from the start, and that this state is exactly the outcome of the functional
  model \<open>processAlgorithm\<close>; that it terminates within \<open>N \<cdot> (M + 2) + 1\<close> steps for
  \<open>N\<close> alignments and \<open>M\<close> points and admits no infinite run; that no reachable state
  is stuck and every one still reaches a final state; and, by rule induction, that
  every step only appends to the output and that the indices stay in range.
\<close>

datatype batch_state =
    AtLine nat "string list"
  | InPoints nat "string option" polyline "real list" "pointFeature list" "string list"
  | Done outcome "string list"

primrec state_out :: "batch_state \<Rightarrow> string list" where
  "state_out (AtLine k out) = out"
| "state_out (InPoints k nm vs vm ps out) = out"
| "state_out (Done r out) = out"

inductive batch_step ::
  "(real \<Rightarrow> string) \<Rightarrow> (nat \<Rightarrow> bool) \<Rightarrow> real \<Rightarrow> lineFeature list \<Rightarrow> pointFeature list \<Rightarrow>
   batch_state \<Rightarrow> batch_state \<Rightarrow> bool"
  for py_str isCanceled maxOffset lineFeatures pointFeatures where
  lines_done: "\<not> k < length lineFeatures \<Longrightarrow>
     batch_step py_str isCanceled maxOffset lineFeatures pointFeatures (AtLine k out) (Done Completed out)"
| canceled: "k < length lineFeatures \<Longrightarrow> isCanceled k \<Longrightarrow>
     batch_step py_str isCanceled maxOffset lineFeatures pointFeatures (AtLine k out) (Done Completed out)"
| geometry_error: "k < length lineFeatures \<Longrightarrow> \<not> isCanceled k \<Longrightarrow>
     verticies_of (line_geometry (lineFeatures ! k)) = Inl e \<Longrightarrow>
     batch_step py_str isCanceled maxOffset lineFeatures pointFeatures (AtLine k out) (Done (Raised e) out)"
| skip: "k < length lineFeatures \<Longrightarrow> \<not> isCanceled k \<Longrightarrow>
     verticies_of (line_geometry (lineFeatures ! k)) = Inr verticies \<Longrightarrow> length verticies < 2 \<Longrightarrow>
     batch_step py_str isCanceled maxOffset lineFeatures pointFeatures (AtLine k out) (AtLine (Suc k) out)"
| start_points: "k < length lineFeatures \<Longrightarrow> \<not> isCanceled k \<Longrightarrow>
     verticies_of (line_geometry (lineFeatures ! k)) = Inr verticies \<Longrightarrow> \<not> length verticies < 2 \<Longrightarrow>
     batch_step py_str isCanceled maxOffset lineFeatures pointFeatures (AtLine k out)
       (InPoints k (line_name (lineFeatures ! k)) verticies (build_vertex_m verticies) pointFeatures out)"
| points_done:
     "batch_step py_str isCanceled maxOffset lineFeatures pointFeatures (InPoints k nm vs vm [] out) (AtLine (Suc k) out)"
| point_written: "point_line py_str nm vs vm maxOffset pf = Inr l \<Longrightarrow>
     batch_step py_str isCanceled maxOffset lineFeatures pointFeatures
       (InPoints k nm vs vm (pf # ps) out) (InPoints k nm vs vm ps (out @ [l]))"
| point_error: "point_line py_str nm vs vm maxOffset pf = Inl e \<Longrightarrow>
     batch_step py_str isCanceled maxOffset lineFeatures pointFeatures
       (InPoints k nm vs vm (pf # ps) out) (Done (Raised e) out)"

inductive_cases batch_step_AtLineE: "batch_step py_str c m lfs pfs (AtLine k out) t"
inductive_cases batch_step_InPointsE: "batch_step py_str c m lfs pfs (InPoints k nm vs vm ps out) t"
inductive_cases batch_step_DoneE: "batch_step py_str c m lfs pfs (Done r out) t"

definition batch_start :: batch_state where
  "batch_start = AtLine 0 [header_line]"

text \<open>The state the runner is in after a loop of the functional model has returned.\<close>

definition after_points :: "nat \<Rightarrow> outcome \<times> string list \<Rightarrow> batch_state" where
  "after_points k r = (case r of (Completed, out) \<Rightarrow> AtLine (Suc k) out | (Raised e, out) \<Rightarrow> Done (Raised e) out)"

text \<open>
  The invariant of the reachable states: the alignment index is in range, the points
  still to project are a suffix of the point list, the table is the one built for
  the current alignment's vertices, and the output starts with the header.
\<close>

definition batch_inv :: "lineFeature list \<Rightarrow> pointFeature list \<Rightarrow> batch_state \<Rightarrow> bool" where
  "batch_inv lfs pfs s =
     (case s of
        AtLine k out \<Rightarrow> k \<le> length lfs \<and> prefix [header_line] out
      | InPoints k nm vs vm ps out \<Rightarrow>
          k < length lfs \<and> verticies_of (line_geometry (lfs ! k)) = Inr vs \<and> nm = line_name (lfs ! k) \<and>
          2 \<le> length vs \<and> vm = build_vertex_m vs \<and> suffix ps pfs \<and> prefix [header_line] out
      | Done r out \<Rightarrow> prefix [header_line] out)"

section \<open>Determinism and the final states\<close>

lemma batch_step_det:
  assumes "batch_step p c m lfs pfs s t" "batch_step p c m lfs pfs s u"
  shows "t = u"
  using assms
proof (induction rule: batch_step.induct)
qed (fastforce elim: batch_step_AtLineE batch_step_InPointsE)+

lemma batch_step_det_all: "\<forall>x y z. batch_step p c m lfs pfs x y \<longrightarrow> batch_step p c m lfs pfs x z \<longrightarrow> y = z"
  using batch_step_det by blast

lemma batch_Done_final: "\<not> batch_step p c m lfs pfs (Done r out) t"
  by (auto elim: batch_step_DoneE)

text \<open>Progress: only the final states have no successor.\<close>

lemma batch_progress: "(\<exists>r out. s = Done r out) \<or> (\<exists>t. batch_step p c m lfs pfs s t)"
proof (cases s)
  case (AtLine k out)
  have "\<exists>t. batch_step p c m lfs pfs (AtLine k out) t"
  proof (cases "k < length lfs \<and> \<not> c k")
    case True
    then show ?thesis
    proof (cases "verticies_of (line_geometry (lfs ! k))")
      case (Inr vs)
      with True show ?thesis
        by (cases "length vs < 2") (blast intro: batch_step.skip batch_step.start_points)+
    qed (blast intro: batch_step.geometry_error)
  qed (auto intro: batch_step.lines_done batch_step.canceled)
  with AtLine show ?thesis by blast
next
  case (InPoints k nm vs vm ps out)
  then show ?thesis
    by (cases ps; cases "point_line p nm vs vm m (hd ps)") (auto intro: batch_step.intros)
qed auto

section \<open>Simulation of the functional model\<close>

text \<open>One step, as a path of length one.\<close>

lemma batch_step_once:
  "batch_step p c m lfs pfs s t \<Longrightarrow> (batch_step p c m lfs pfs ^^ Suc 0) s t"
  by (rule relpowp_Suc_I2 [OF _ relpowp_0_I])

lemma relpowp_within: "(R ^^ n) x y \<Longrightarrow> n \<le> B \<Longrightarrow> \<exists>n \<le> B. (R ^^ n) x y"
  by blast

text \<open>The point loop takes at most one step per point and one to leave.\<close>

lemma run_points_steps_n:
  "\<exists>n \<le> length ps + 1. (batch_step p c m lfs pfs ^^ n) (InPoints k nm vs vm ps out)
                         (after_points k (run_points p nm vs vm m ps out))"
proof (induction ps arbitrary: out)
  case Nil
  have "batch_step p c m lfs pfs (InPoints k nm vs vm [] out) (AtLine (Suc k) out)"
    by (rule batch_step.points_done)
  then show ?case by (auto simp: after_points_def dest: batch_step_once)
next
  case (Cons pf ps)
  show ?case
  proof (cases "point_line p nm vs vm m pf")
    case (Inl e)
    then have "batch_step p c m lfs pfs (InPoints k nm vs vm (pf # ps) out) (Done (Raised e) out)"
      by (rule batch_step.point_error)
    with Inl show ?thesis by (auto simp: after_points_def dest: batch_step_once)
  next
    case (Inr l)
    then have first: "batch_step p c m lfs pfs (InPoints k nm vs vm (pf # ps) out) (InPoints k nm vs vm ps (out @ [l]))"
      by (rule batch_step.point_written)
    obtain n where n: "n \<le> length ps + 1"
      "(batch_step p c m lfs pfs ^^ n) (InPoints k nm vs vm ps (out @ [l]))
         (after_points k (run_points p nm vs vm m ps (out @ [l])))"
      using Cons.IH [of "out @ [l]"] by blast
    have eq: "run_points p nm vs vm m (pf # ps) out = run_points p nm vs vm m ps (out @ [l])" using Inr by simp
    have path: "(batch_step p c m lfs pfs ^^ Suc n) (InPoints k nm vs vm (pf # ps) out)
                  (after_points k (run_points p nm vs vm m (pf # ps) out))"
      unfolding eq by (rule relpowp_Suc_I2 [OF first n(2)])
    show ?thesis using n(1) by (intro relpowp_within [OF path]) simp
  qed
qed

text \<open>The alignment loop takes at most \<open>length pfs + 2\<close> steps per alignment, and one to stop.\<close>

lemma run_lines_steps_n:
  "drop k lfs = ys \<Longrightarrow>
   \<exists>n \<le> length ys * (length pfs + 2) + 1. (batch_step p c m lfs pfs ^^ n) (AtLine k out)
     (Done (fst (run_lines p c m pfs k ys out)) (snd (run_lines p c m pfs k ys out)))"
proof (induction ys arbitrary: k out)
  case Nil
  then have "\<not> k < length lfs" by simp
  then have "batch_step p c m lfs pfs (AtLine k out) (Done Completed out)" by (rule batch_step.lines_done)
  then show ?case by (auto dest: batch_step_once)
next
  case (Cons lf ys)
  have k: "k < length lfs" "lfs ! k = lf" "drop (Suc k) lfs = ys"
    using drop_eq_ConsD [OF Cons.prems] by auto
  note IH = Cons.IH [OF k(3)]
  let ?B = "length ys * (length pfs + 2) + 1"
  let ?final = "\<lambda>k ys out. Done (fst (run_lines p c m pfs k ys out)) (snd (run_lines p c m pfs k ys out))"
  show ?case
  proof (cases "c k")
    case True
    with k have "batch_step p c m lfs pfs (AtLine k out) (Done Completed out)" by (auto intro: batch_step.canceled)
    with True show ?thesis by (auto dest: batch_step_once)
  next
    case nc: False
    show ?thesis
    proof (cases "verticies_of (line_geometry lf)")
      case (Inl e)
      with k nc have "batch_step p c m lfs pfs (AtLine k out) (Done (Raised e) out)"
        by (auto intro: batch_step.geometry_error)
      with nc Inl show ?thesis by (auto dest: batch_step_once)
    next
      case (Inr vs)
      show ?thesis
      proof (cases "length vs < 2")
        case True
        with k nc Inr have first: "batch_step p c m lfs pfs (AtLine k out) (AtLine (Suc k) out)"
          by (auto intro: batch_step.skip)
        obtain n where n: "n \<le> ?B" "(batch_step p c m lfs pfs ^^ n) (AtLine (Suc k) out) (?final (Suc k) ys out)"
          using IH [of out] by blast
        have eq: "run_lines p c m pfs k (lf # ys) out = run_lines p c m pfs (Suc k) ys out"
          using nc Inr True by simp
        have path: "(batch_step p c m lfs pfs ^^ Suc n) (AtLine k out) (?final k (lf # ys) out)"
          unfolding eq by (rule relpowp_Suc_I2 [OF first n(2)])
        show ?thesis using n(1) by (intro relpowp_within [OF path]) simp
      next
        case long: False
        with k nc Inr have first: "batch_step p c m lfs pfs (AtLine k out)
            (InPoints k (line_name lf) vs (build_vertex_m vs) pfs out)"
          by (auto intro: batch_step.start_points)
        obtain n1 where n1: "n1 \<le> length pfs + 1"
          "(batch_step p c m lfs pfs ^^ n1) (InPoints k (line_name lf) vs (build_vertex_m vs) pfs out)
             (after_points k (run_points p (line_name lf) vs (build_vertex_m vs) m pfs out))"
          using run_points_steps_n by blast
        have pts: "(batch_step p c m lfs pfs ^^ Suc n1) (AtLine k out)
             (after_points k (run_points p (line_name lf) vs (build_vertex_m vs) m pfs out))"
          by (rule relpowp_Suc_I2 [OF first n1(2)])
        show ?thesis
        proof (cases "run_points p (line_name lf) vs (build_vertex_m vs) m pfs out")
          case (Pair r out')
          show ?thesis
          proof (cases r)
            case Completed
            obtain n2 where n2: "n2 \<le> ?B" "(batch_step p c m lfs pfs ^^ n2) (AtLine (Suc k) out') (?final (Suc k) ys out')"
              using IH [of out'] by blast
            have eq: "run_lines p c m pfs k (lf # ys) out = run_lines p c m pfs (Suc k) ys out'"
              using nc Inr long Pair Completed by simp
            have mid: "after_points k (run_points p (line_name lf) vs (build_vertex_m vs) m pfs out) = AtLine (Suc k) out'"
              using Pair Completed by (simp add: after_points_def)
            have path: "(batch_step p c m lfs pfs ^^ (Suc n1 + n2)) (AtLine k out) (?final k (lf # ys) out)"
              unfolding eq by (rule relpowp_trans [OF pts [unfolded mid] n2(2)])
            show ?thesis using n1(1) n2(1) by (intro relpowp_within [OF path]) simp
          next
            case (Raised e)
            have "after_points k (run_points p (line_name lf) vs (build_vertex_m vs) m pfs out) = ?final k (lf # ys) out"
              using nc Inr long Pair Raised by (simp add: after_points_def)
            with pts have path: "(batch_step p c m lfs pfs ^^ Suc n1) (AtLine k out) (?final k (lf # ys) out)"
              by simp
            show ?thesis using n1(1) by (intro relpowp_within [OF path]) simp
          qed
        qed
      qed
    qed
  qed
qed

lemma run_lines_steps:
  "drop k lfs = ys \<Longrightarrow>
   (batch_step p c m lfs pfs)\<^sup>*\<^sup>* (AtLine k out)
     (Done (fst (run_lines p c m pfs k ys out)) (snd (run_lines p c m pfs k ys out)))"
  using run_lines_steps_n by (blast dest: relpowp_imp_rtranclp)

section \<open>Invariants by rule induction\<close>

lemma batch_step_out: "batch_step p c m lfs pfs s t \<Longrightarrow> prefix (state_out s) (state_out t)"
  by (induction rule: batch_step.induct) simp_all

lemma batch_steps_out: "(batch_step p c m lfs pfs)\<^sup>*\<^sup>* s t \<Longrightarrow> prefix (state_out s) (state_out t)"
proof (induction rule: rtranclp_induct)
  case (step t u)
  from step.IH batch_step_out [OF step.hyps(2)] show ?case by (rule prefix_order.trans)
qed simp

lemma suffix_Cons_tl: "suffix (x # xs) ys \<Longrightarrow> suffix xs ys"
  by (auto simp: suffix_def)

lemma batch_inv_step: "batch_step p c m lfs pfs s t \<Longrightarrow> batch_inv lfs pfs s \<Longrightarrow> batch_inv lfs pfs t"
proof (induction rule: batch_step.induct)
  case (point_written nm vs vm pf l k ps out)
  then show ?case by (auto simp: batch_inv_def dest: suffix_Cons_tl intro: prefix_order.trans)
qed (auto simp: batch_inv_def)

lemma batch_inv_reachable:
  "(batch_step p c m lfs pfs)\<^sup>*\<^sup>* batch_start s \<Longrightarrow> batch_inv lfs pfs s"
proof (induction rule: rtranclp_induct)
  case base
  then show ?case by (simp add: batch_inv_def batch_start_def)
next
  case (step t u)
  from step.hyps(2) step.IH show ?case by (rule batch_inv_step)
qed

section \<open>Properties\<close>

lemma batch_steps_refine:
  "(batch_step p c m lfs pfs)\<^sup>*\<^sup>* batch_start (Done r out) \<longleftrightarrow> processAlgorithm p True c m lfs pfs = (r, out)"
proof -
  have run: "(batch_step p c m lfs pfs)\<^sup>*\<^sup>* batch_start
      (Done (fst (processAlgorithm p True c m lfs pfs)) (snd (processAlgorithm p True c m lfs pfs)))"
    using run_lines_steps [of 0 lfs lfs p c m pfs "[header_line]"]
    by (simp add: batch_start_def processAlgorithm_def)
  show ?thesis
  proof
    assume "(batch_step p c m lfs pfs)\<^sup>*\<^sup>* batch_start (Done r out)"
    from rtranclp_det_final [OF batch_step_det this run batch_Done_final batch_Done_final]
    show "processAlgorithm p True c m lfs pfs = (r, out)" by (simp add: prod_eq_iff)
  next
    assume "processAlgorithm p True c m lfs pfs = (r, out)"
    with run show "(batch_step p c m lfs pfs)\<^sup>*\<^sup>* batch_start (Done r out)" by simp
  qed
qed

text \<open>C23: every state the runner reaches from the start satisfies its invariant: the alignment index is in range, the alignment being projected is the one at that index with at least two vertices and its own table, the points still to project are a suffix of the point list, the output begins with the header; and from any reachable state on, the output only grows (rows are never revised).\<close>

theorem batch_reachable_inv:
  assumes "(batch_step p c m lfs pfs)\<^sup>*\<^sup>* batch_start s" "(batch_step p c m lfs pfs)\<^sup>*\<^sup>* s t"
  shows "batch_inv lfs pfs s \<and> prefix (state_out s) (state_out t)"
  using batch_inv_reachable [OF assms(1)] batch_steps_out [OF assms(2)] by simp

theorem batch_reachable_inv_witness:
  "(batch_step (\<lambda>_. ''0'') (\<lambda>_. False) 1
     [\<lparr>line_geometry = LineString [\<lparr>ptx = 3, pty = 3\<rparr>], line_name = Some ''P''\<rparr>] [])\<^sup>*\<^sup>*
     batch_start (AtLine (Suc 0) [header_line]) \<and>
   (batch_step (\<lambda>_. ''0'') (\<lambda>_. False) 1
     [\<lparr>line_geometry = LineString [\<lparr>ptx = 3, pty = 3\<rparr>], line_name = Some ''P''\<rparr>] [])\<^sup>*\<^sup>*
     (AtLine (Suc 0) [header_line]) (Done Completed [header_line]) \<and>
   batch_inv [\<lparr>line_geometry = LineString [\<lparr>ptx = 3, pty = 3\<rparr>], line_name = Some ''P''\<rparr>] []
     (AtLine (Suc 0) [header_line]) \<and>
   prefix (state_out (AtLine (Suc 0) [header_line])) (state_out (Done Completed [header_line]))"
proof -
  let ?r = "batch_step (\<lambda>_. ''0'') (\<lambda>_. False) 1
              [\<lparr>line_geometry = LineString [\<lparr>ptx = 3, pty = 3\<rparr>], line_name = Some ''P''\<rparr>] []"
  have h1: "?r\<^sup>*\<^sup>* batch_start (AtLine (Suc 0) [header_line])"
    unfolding batch_start_def
    by (rule r_into_rtranclp, rule batch_step.skip [where verticies = "[\<lparr>ptx = 3, pty = 3\<rparr>]"])
       (simp_all add: verticies_of_def)
  have h2: "?r\<^sup>*\<^sup>* (AtLine (Suc 0) [header_line]) (Done Completed [header_line])"
    by (rule r_into_rtranclp, rule batch_step.lines_done) simp
  show ?thesis using batch_reachable_inv [OF h1 h2] h1 h2 by blast
qed

lemma batch_terminates:
  "(\<exists>n r out. n \<le> length lfs * (length pfs + 2) + 1 \<and> (batch_step p c m lfs pfs ^^ n) batch_start (Done r out)) \<and>
   \<not> (\<exists>f. f 0 = batch_start \<and> (\<forall>i. batch_step p c m lfs pfs (f i) (f (Suc i))))"
proof
  obtain n where n: "n \<le> length lfs * (length pfs + 2) + 1"
    "(batch_step p c m lfs pfs ^^ n) batch_start
       (Done (fst (run_lines p c m pfs 0 lfs [header_line])) (snd (run_lines p c m pfs 0 lfs [header_line])))"
    using run_lines_steps_n [where k = 0 and lfs = lfs and ys = lfs and p = p and c = c and m = m and pfs = pfs
        and out = "[header_line]"] by (auto simp: batch_start_def)
  then show "\<exists>n r out. n \<le> length lfs * (length pfs + 2) + 1 \<and> (batch_step p c m lfs pfs ^^ n) batch_start (Done r out)"
    by blast
  show "\<not> (\<exists>f. f 0 = batch_start \<and> (\<forall>i. batch_step p c m lfs pfs (f i) (f (Suc i))))"
  proof
    assume "\<exists>f. f 0 = batch_start \<and> (\<forall>i. batch_step p c m lfs pfs (f i) (f (Suc i)))"
    then obtain f where f0: "f 0 = batch_start" and chain: "\<forall>i. batch_step p c m lfs pfs (f i) (f (Suc i))"
      by blast
    from n(2) f0 have "(batch_step p c m lfs pfs ^^ n) (f 0)
       (Done (fst (run_lines p c m pfs 0 lfs [header_line])) (snd (run_lines p c m pfs 0 lfs [header_line])))"
      by simp
    with chain_relpowp [OF batch_step_det_all chain] have "f n = Done (fst (run_lines p c m pfs 0 lfs [header_line]))
       (snd (run_lines p c m pfs 0 lfs [header_line]))" by blast
    with chain batch_Done_final show False by metis
  qed
qed

lemma batch_liveness:
  assumes "(batch_step p c m lfs pfs)\<^sup>*\<^sup>* batch_start s"
  shows "(\<exists>r out. (batch_step p c m lfs pfs)\<^sup>*\<^sup>* s (Done r out)) \<and>
         ((\<exists>r out. s = Done r out) \<or> (\<exists>t. batch_step p c m lfs pfs s t))"
proof
  have "(batch_step p c m lfs pfs)\<^sup>*\<^sup>* batch_start
          (Done (fst (run_lines p c m pfs 0 lfs [header_line])) (snd (run_lines p c m pfs 0 lfs [header_line])))"
    using run_lines_steps [of 0 lfs lfs p c m pfs "[header_line]"] by (simp add: batch_start_def)
  then have "(batch_step p c m lfs pfs)\<^sup>*\<^sup>* s
          (Done (fst (run_lines p c m pfs 0 lfs [header_line])) (snd (run_lines p c m pfs 0 lfs [header_line])))"
    by (rule rtranclp_det_between [OF batch_step_det_all assms _ batch_Done_final])
  then show "\<exists>r out. (batch_step p c m lfs pfs)\<^sup>*\<^sup>* s (Done r out)" by blast
  show "(\<exists>r out. s = Done r out) \<or> (\<exists>t. batch_step p c m lfs pfs s t)" by (rule batch_progress)
qed

end
