(* ===== verification/OutputFile.thy ===== *)
theory OutputFile
  imports AlgorithmConfig
begin

text \<open>
  The output file of \<open>StationOffsetAlgorithm.processAlgorithm\<close>
  (\<open>src/station_offset_algorithm.py\<close>, lines 169--174 and 209--219). The file system is
  a map from paths to contents together with the list of handles left open:
  \<open>open(outfileName, "w")\<close> creates or truncates the file, each \<open>outfile.write\<close>
  appends to its contents, and \<open>outfile.close()\<close> releases the handle. Whether the
  file can be opened is an oracle \<open>can_open\<close>; when it cannot, the handler's
  reference to the unassigned \<open>outfile\<close> raises \<open>UnboundLocalError\<close>. The lines the run
  writes are those of the functional model (theory \<open>BatchRunner\<close>); the result of
  the Python call is a returned dictionary or an exception. A lemma gives what
  the run leaves on disk in every case; the property is that running it twice leaves the same
  bytes as running it once: the \<open>"w"\<close> mode makes the run idempotent (spec section 8).
\<close>

record fs_state =
  files :: "string \<rightharpoonup> string"
  open_handles :: "string list"

definition py_open_w :: "fs_state \<Rightarrow> string \<Rightarrow> fs_state" where
  "py_open_w fs name = fs\<lparr>files := (files fs)(name \<mapsto> []), open_handles := name # open_handles fs\<rparr>"

definition py_write :: "string \<Rightarrow> fs_state \<Rightarrow> string \<Rightarrow> fs_state" where
  "py_write name fs s =
     fs\<lparr>files := (files fs)(name \<mapsto> (case files fs name of None \<Rightarrow> [] | Some c \<Rightarrow> c) @ s)\<rparr>"

definition py_close :: "fs_state \<Rightarrow> string \<Rightarrow> fs_state" where
  "py_close fs name = fs\<lparr>open_handles := remove1 name (open_handles fs)\<rparr>"

datatype py_result =
    Returned "(string \<times> string) list"
  | Exception py_error

definition stationOffset_io ::
  "(real \<Rightarrow> string) \<Rightarrow> (string \<Rightarrow> bool) \<Rightarrow> (nat \<Rightarrow> bool) \<Rightarrow> real \<Rightarrow> string \<Rightarrow>
   lineFeature list \<Rightarrow> pointFeature list \<Rightarrow> fs_state \<Rightarrow> fs_state \<times> py_result" where
  "stationOffset_io py_str can_open isCanceled maxOffset outfileName lineFeatures pointFeatures fs =
     (if \<not> can_open outfileName then (fs, Exception UnboundLocalError)
      else
        (let outfile = py_open_w fs outfileName;
             (r, lines) = run_lines py_str isCanceled maxOffset pointFeatures 0 lineFeatures [header_line];
             written = foldl (py_write outfileName) outfile lines
         in case r of
              Completed \<Rightarrow> (py_close written outfileName, Returned [(OUTPUT, outfileName)])
            | Raised e \<Rightarrow> (written, Exception e)))"

section \<open>Facts about the file operations\<close>

lemma foldl_py_write:
  "files fs name = Some c \<Longrightarrow>
   foldl (py_write name) fs ls = fs\<lparr>files := (files fs)(name \<mapsto> c @ concat ls)\<rparr>"
proof (induction ls arbitrary: fs c)
  case Nil
  then show ?case by (simp add: map_upd_triv)
next
  case (Cons l ls)
  have step: "files (py_write name fs l) name = Some (c @ l)" using Cons.prems by (simp add: py_write_def)
  have "foldl (py_write name) fs (l # ls) = foldl (py_write name) (py_write name fs l) ls" by simp
  also have "\<dots> = (py_write name fs l)\<lparr>files := (files (py_write name fs l))(name \<mapsto> (c @ l) @ concat ls)\<rparr>"
    by (rule Cons.IH [OF step])
  also have "\<dots> = fs\<lparr>files := (files fs)(name \<mapsto> c @ concat (l # ls))\<rparr>"
    using Cons.prems by (simp add: py_write_def)
  finally show ?case .
qed

lemma write_after_open:
  "foldl (py_write name) (py_open_w fs name) ls =
     fs\<lparr>files := (files fs)(name \<mapsto> concat ls), open_handles := name # open_handles fs\<rparr>"
proof -
  have "files (py_open_w fs name) name = Some []" by (simp add: py_open_w_def)
  from foldl_py_write [OF this] show ?thesis by (simp add: py_open_w_def)
qed

lemma stationOffset_io_eq:
  "stationOffset_io py_str can_open c m name lfs pfs fs =
     (if \<not> can_open name then (fs, Exception UnboundLocalError)
      else case processAlgorithm py_str True c m lfs pfs of
        (Completed, ls) \<Rightarrow> (fs\<lparr>files := (files fs)(name \<mapsto> concat ls)\<rparr>, Returned [(OUTPUT, name)])
      | (Raised e, ls) \<Rightarrow>
          (fs\<lparr>files := (files fs)(name \<mapsto> concat ls), open_handles := name # open_handles fs\<rparr>, Exception e))"
  by (simp add: stationOffset_io_def processAlgorithm_def Let_def write_after_open py_close_def
           split: prod.splits outcome.splits)

section \<open>Properties\<close>

text \<open>C28: the run is idempotent on disk (spec section 8): running it a second time on the same inputs leaves the same contents in every file and gives the same result as running it once, because \<open>open(\<dots>, "w")\<close> truncates the file.\<close>

theorem stationOffset_io_idempotent:
  "files (fst (stationOffset_io py_str can_open c m name lfs pfs
                 (fst (stationOffset_io py_str can_open c m name lfs pfs fs)))) =
     files (fst (stationOffset_io py_str can_open c m name lfs pfs fs)) \<and>
   snd (stationOffset_io py_str can_open c m name lfs pfs
          (fst (stationOffset_io py_str can_open c m name lfs pfs fs))) =
     snd (stationOffset_io py_str can_open c m name lfs pfs fs)"
  by (simp add: stationOffset_io_eq split: prod.splits outcome.splits)

end
