(* ===== verification/Degenerate.thy ===== *)
theory Degenerate
  imports Stations
begin

text \<open>
  Degenerate segments (spec section 4.2): a polyline may repeat a vertex, giving a
  segment of length zero, whose foot is the vertex itself (\<open>closestPoint v v p = v\<close>,
  no division). The theory shows that repeating a vertex never changes what the
  per-point step (\<open>src/station_offset_algorithm.py\<close>, lines 204--213) writes: the
  nearest distance is the same, the zero-length segment adds nothing to
  \<open>vertex_m\<close>, and when it wins a tie its station is that of the vertex, which the
  original polyline also reports. The proof rests on the uniqueness of the closest
  point of a segment (theory \<open>Geometry\<close>) and on the first-minimum characterisation of
  the projector's scan.
\<close>

definition dup_vertex :: "polyline \<Rightarrow> nat \<Rightarrow> polyline" where
  "dup_vertex vs k = take (Suc k) vs @ drop k vs"

text \<open>Index \<open>i\<close> is the first minimum of \<open>f\<close> over \<open>{..<n}\<close>: what the projector's strict running minimum selects.\<close>

definition first_min :: "(nat \<Rightarrow> real) \<Rightarrow> nat \<Rightarrow> nat \<Rightarrow> bool" where
  "first_min f n i = (i < n \<and> (\<forall>j<n. f i \<le> f j) \<and> (\<forall>j<i. f i < f j))"

section \<open>The duplicated polyline, index by index\<close>

lemma length_dup_vertex: "k < length vs \<Longrightarrow> length (dup_vertex vs k) = Suc (length vs)"
  by (simp add: dup_vertex_def)

lemma nth_dup_vertex:
  assumes "k < length vs" "j \<le> length vs"
  shows "dup_vertex vs k ! j = (if j \<le> k then vs ! j else vs ! (j - 1))"
proof -
  have len: "length (take (Suc k) vs) = Suc k" using assms(1) by simp
  show ?thesis
  proof (cases "j \<le> k")
    case True
    then show ?thesis using assms(1) by (simp add: dup_vertex_def nth_append len)
  next
    case False
    then have "j - Suc k + k = j - 1" by simp
    with False assms show ?thesis by (simp add: dup_vertex_def nth_append len)
  qed
qed

lemma segment_candidate_dup:
  assumes k: "k < length vs" and j: "j < length vs"
  shows "segment_candidate (dup_vertex vs k) q j =
           (if j < k then segment_candidate vs q j
            else if j = k then (calcDistance q (vs ! k), vs ! k)
            else segment_candidate vs q (j - 1))"
  using k j
  by (auto simp: segment_candidate_def nth_dup_vertex closestPoint_def Let_def calcDistance_commute)

lemma seg_dist_dup:
  "k < length vs \<Longrightarrow> j < length vs \<Longrightarrow>
   seg_dist (dup_vertex vs k) q j =
     (if j < k then seg_dist vs q j else if j = k then calcDistance q (vs ! k) else seg_dist vs q (j - 1))"
  by (simp add: seg_dist_def segment_candidate_dup)

lemma seg_foot_dup:
  "k < length vs \<Longrightarrow> j < length vs \<Longrightarrow>
   seg_foot (dup_vertex vs k) q j =
     (if j < k then seg_foot vs q j else if j = k then vs ! k else seg_foot vs q (j - 1))"
  by (simp add: seg_foot_def segment_candidate_dup)

lemma seg_len_dup:
  assumes "k < length vs" "j < length vs"
  shows "seg_len (dup_vertex vs k) j = (if j < k then seg_len vs j else if j = k then 0 else seg_len vs (j - 1))"
  using assms by (auto simp: seg_len_def nth_dup_vertex)

lemma path_len_dup_le: "k < length vs \<Longrightarrow> j \<le> k \<Longrightarrow> path_len (dup_vertex vs k) j = path_len vs j"
  by (induction j) (simp_all add: seg_len_dup)

lemma path_len_dup_gt:
  "k < length vs \<Longrightarrow> k \<le> j \<Longrightarrow> j < length vs \<Longrightarrow> path_len (dup_vertex vs k) (Suc j) = path_len vs j"
proof (induction j)
  case 0
  then show ?case by (simp add: seg_len_dup)
next
  case (Suc j)
  show ?case
  proof (cases "k = Suc j")
    case True
    with Suc.prems show ?thesis by (simp add: seg_len_dup path_len_dup_le)
  next
    case False
    with Suc.prems have "path_len (dup_vertex vs k) (Suc j) = path_len vs j" by (intro Suc.IH) simp_all
    with Suc.prems False show ?thesis by (simp add: seg_len_dup)
  qed
qed

text \<open>The first minimum of a finite sequence is unique.\<close>

lemma first_min_unique:
  fixes f :: "nat \<Rightarrow> real"
  assumes "i < n" "i' < n" "\<forall>j<n. f i \<le> f j" "\<forall>j<i. f i < f j" "\<forall>j<n. f i' \<le> f j" "\<forall>j<i'. f i' < f j"
  shows "i = i'"
proof (rule ccontr)
  assume "i \<noteq> i'"
  then consider "i < i'" | "i' < i" by linarith
  then show False
  proof cases
    case 1
    with assms show False by (meson not_less)
  next
    case 2
    with assms show False by (meson not_less)
  qed
qed

lemma projectPoint_first_min':
  assumes "2 \<le> length vs"
  obtains i where "first_min (seg_dist vs q) (length vs - 1) i"
    "projectPoint vs q m =
       (if m < seg_dist vs q i then Inr OutOfRange else Inr (InRange i (seg_foot vs q i) (seg_dist vs q i)))"
  using projectPoint_first_min [OF assms, of q m] by (auto simp: first_min_def)

lemma vertex_dist_ge_min:
  assumes "first_min (seg_dist vs q) (length vs - 1) i" "k < length vs"
  shows "seg_dist vs q i \<le> calcDistance q (vs ! k)"
proof (cases "k < length vs - 1")
  case True
  with projectPoint_minimal_point [OF True, of 0 q] assms(1) show ?thesis
    by (force simp: first_min_def)
next
  case False
  with assms have k: "k = Suc (k - 1)" "k - 1 < length vs - 1" by (auto simp: first_min_def)
  with projectPoint_minimal_point [OF k(2), of 1 q] assms(1) show ?thesis
    by (force simp: first_min_def)
qed

text \<open>The index of the original polyline whose segment reappears at index \<open>j\<close> of the duplicated one.\<close>

lemma dup_min_value:
  assumes k: "k < length vs"
    and fm: "first_min (seg_dist vs q) (length vs - 1) i"
    and fm': "first_min (seg_dist (dup_vertex vs k) q) (length vs) i'"
  shows "seg_dist (dup_vertex vs k) q i' = seg_dist vs q i"
proof (rule antisym)
  let ?j = "if i < k then i else Suc i"
  have "?j < length vs" using fm by (auto simp: first_min_def)
  moreover have "seg_dist (dup_vertex vs k) q ?j = seg_dist vs q i"
    using fm k by (auto simp: seg_dist_dup first_min_def)
  ultimately show "seg_dist (dup_vertex vs k) q i' \<le> seg_dist vs q i"
    using fm' by (force simp: first_min_def)
  have i': "i' < length vs" using fm' by (simp add: first_min_def)
  show "seg_dist vs q i \<le> seg_dist (dup_vertex vs k) q i'"
  proof (cases "i' = k")
    case True
    with vertex_dist_ge_min [OF fm k] k show ?thesis by (simp add: seg_dist_dup)
  next
    case False
    then have "(if i' < k then i' else i' - 1) < length vs - 1" using i' k by auto
    with fm k i' False show ?thesis by (auto simp: seg_dist_dup first_min_def)
  qed
qed

lemma dup_station:
  assumes k: "k < length vs"
    and fm: "first_min (seg_dist vs q) (length vs - 1) i"
    and fm': "first_min (seg_dist (dup_vertex vs k) q) (length vs) i'"
  shows "path_len (dup_vertex vs k) i' + calcDistance (dup_vertex vs k ! i') (seg_foot (dup_vertex vs k) q i') =
         path_len vs i + calcDistance (vs ! i) (seg_foot vs q i)"
proof -
  let ?ws = "dup_vertex vs k" and ?j = "if i < k then i else Suc i"
  have val: "seg_dist ?ws q i' = seg_dist vs q i" by (rule dup_min_value [OF k fm fm'])
  have i: "i < length vs - 1" and le: "\<forall>j<length vs - 1. seg_dist vs q i \<le> seg_dist vs q j"
    and lt: "\<forall>j<i. seg_dist vs q i < seg_dist vs q j" using fm by (auto simp: first_min_def)
  have i': "i' < length vs" and lt': "\<forall>j<i'. seg_dist ?ws q i' < seg_dist ?ws q j"
    using fm' by (auto simp: first_min_def)
  have j: "?j < length vs" "seg_dist ?ws q ?j = seg_dist vs q i" using i k by (auto simp: seg_dist_dup)
  have not_before: "\<not> ?j < i'" using lt' j val by force
  consider "i' < k" | "i' = k" | "k < i'" by linarith
  then show ?thesis
  proof cases
    case 1
    then have "seg_dist vs q i' = seg_dist vs q i" using val k i' by (simp add: seg_dist_dup)
    moreover have "i' < length vs - 1" using 1 k by simp
    ultimately have "\<not> i' < i" using lt by force
    with not_before 1 have "i' = i" by (auto split: if_splits)
    with 1 k show ?thesis by (simp add: path_len_dup_le nth_dup_vertex seg_foot_dup)
  next
    case 2
    with not_before have ik: "k \<le> i" by (auto split: if_splits)
    have d0: "calcDistance q (vs ! k) = seg_dist vs q i" using val 2 k by (simp add: seg_dist_dup)
    have "i = k"
    proof (rule ccontr)
      assume "i \<noteq> k"
      with ik have "k < i" by simp
      with i have "k < length vs - 1" by simp
      from projectPoint_minimal_point [OF this, of 0 q] d0 have "seg_dist vs q k \<le> seg_dist vs q i" by simp
      with lt \<open>k < i\<close> show False by force
    qed
    have kseg: "k < length vs - 1" using i \<open>i = k\<close> by simp
    have foot: "seg_foot vs q k = closestPoint (vs ! k) (vs ! Suc k) q" by (rule seg_foot_closestPoint)
    have "calcDistance q (lerp (vs ! k) (vs ! Suc k) 0) \<le> calcDistance q (seg_foot vs q k)"
      using d0 \<open>i = k\<close> by (simp add: seg_foot_dist)
    then have "sqdist q (lerp (vs ! k) (vs ! Suc k) 0) \<le> sqdist q (closestPoint (vs ! k) (vs ! Suc k) q)"
      by (simp add: calcDistance_sqdist foot)
    from closestPoint_unique [OF _ _ this] foot have "seg_foot vs q k = vs ! k" by simp
    with 2 \<open>i = k\<close> k show ?thesis by (simp add: path_len_dup_le nth_dup_vertex seg_foot_dup)
  next
    case 3
    then have i0: "i' - 1 < length vs - 1" "Suc (i' - 1) = i'" using i' by auto
    have "seg_dist vs q (i' - 1) = seg_dist vs q i" using val 3 k i' by (simp add: seg_dist_dup)
    with i0 have "\<not> i' - 1 < i" using lt by force
    with not_before 3 have "i = i' - 1" by (auto split: if_splits)
    have "path_len ?ws i' = path_len vs (i' - 1)"
      using path_len_dup_gt [OF k, of "i' - 1"] 3 i0 by simp
    moreover have "?ws ! i' = vs ! (i' - 1)" using nth_dup_vertex [OF k, of i'] 3 i' by simp
    moreover have "seg_foot ?ws q i' = seg_foot vs q (i' - 1)" using seg_foot_dup [OF k i', of q] 3 by simp
    ultimately show ?thesis using \<open>i = i' - 1\<close> by simp
  qed
qed

section \<open>Properties\<close>



text \<open>C13: repeating a vertex of an alignment (of at least two vertices) changes nothing the per-point step writes: for every point and every \<open>maxOffset\<close> the station and offset columns, or the two markers, are those of the original alignment. The zero-length segment never divides by zero, its foot is the vertex, and when it wins a tie it reports the vertex's own station.\<close>

theorem duplicate_vertex_station_offset:
  assumes "2 \<le> length vs" "k < length vs"
  shows "station_offset (dup_vertex vs k) (build_vertex_m (dup_vertex vs k)) m q =
         station_offset vs (build_vertex_m vs) m q"
proof -
  let ?ws = "dup_vertex vs k"
  have lw: "length ?ws = Suc (length vs)" by (rule length_dup_vertex [OF assms(2)])
  then have lw2: "2 \<le> length ?ws" using assms(1) by simp
  obtain i where fm: "first_min (seg_dist vs q) (length vs - 1) i"
    and pp: "projectPoint vs q m =
       (if m < seg_dist vs q i then Inr OutOfRange else Inr (InRange i (seg_foot vs q i) (seg_dist vs q i)))"
    using projectPoint_first_min' [OF assms(1)] by blast
  obtain i' where fm': "first_min (seg_dist ?ws q) (length vs) i'"
    and pp': "projectPoint ?ws q m =
       (if m < seg_dist ?ws q i' then Inr OutOfRange else Inr (InRange i' (seg_foot ?ws q i') (seg_dist ?ws q i')))"
    using projectPoint_first_min' [OF lw2, of q m] lw by auto
  have val: "seg_dist ?ws q i' = seg_dist vs q i" by (rule dup_min_value [OF assms(2) fm fm'])
  show ?thesis
  proof (cases "m < seg_dist vs q i")
    case True
    with pp pp' val show ?thesis by (simp add: station_offset_def)
  next
    case False
    with pp have in_vs: "projectPoint vs q m = Inr (InRange i (seg_foot vs q i) (seg_dist vs q i))" by simp
    from False pp' val have in_ws: "projectPoint ?ws q m = Inr (InRange i' (seg_foot ?ws q i') (seg_dist vs q i))"
      by simp
    show ?thesis
      using station_offset_InRange [OF in_vs] station_offset_InRange [OF in_ws] dup_station [OF assms(2) fm fm']
      by simp
  qed
qed

theorem duplicate_vertex_station_offset_witness:
  "2 \<le> length [\<lparr>ptx = 0, pty = 0\<rparr>, \<lparr>ptx = 10, pty = 0\<rparr>, \<lparr>ptx = 10, pty = 10\<rparr>] \<and>
   Suc 0 < length [\<lparr>ptx = 0, pty = 0\<rparr>, \<lparr>ptx = 10, pty = 0\<rparr>, \<lparr>ptx = 10, pty = 10\<rparr>] \<and>
   station_offset (dup_vertex [\<lparr>ptx = 0, pty = 0\<rparr>, \<lparr>ptx = 10, pty = 0\<rparr>, \<lparr>ptx = 10, pty = 10\<rparr>] (Suc 0))
     (build_vertex_m (dup_vertex [\<lparr>ptx = 0, pty = 0\<rparr>, \<lparr>ptx = 10, pty = 0\<rparr>, \<lparr>ptx = 10, pty = 10\<rparr>] (Suc 0)))
     99999 \<lparr>ptx = 20, pty = 5\<rparr> =
   station_offset [\<lparr>ptx = 0, pty = 0\<rparr>, \<lparr>ptx = 10, pty = 0\<rparr>, \<lparr>ptx = 10, pty = 10\<rparr>]
     (build_vertex_m [\<lparr>ptx = 0, pty = 0\<rparr>, \<lparr>ptx = 10, pty = 0\<rparr>, \<lparr>ptx = 10, pty = 10\<rparr>]) 99999 \<lparr>ptx = 20, pty = 5\<rparr>"
proof -
  have h1: "2 \<le> length [\<lparr>ptx = 0, pty = 0\<rparr>, \<lparr>ptx = 10, pty = 0\<rparr>, \<lparr>ptx = 10, pty = 10\<rparr>]"
    and h2: "Suc 0 < length [\<lparr>ptx = 0, pty = 0\<rparr>, \<lparr>ptx = 10, pty = 0\<rparr>, \<lparr>ptx = 10, pty = 10\<rparr>]" by simp_all
  show ?thesis using h1 h2 duplicate_vertex_station_offset [OF h1 h2] by blast
qed



end
