(* ===== verification/Layers.thy ===== *)
theory Layers
  imports BatchRunner
begin

text \<open>
  The features as QGIS hands them to \<open>processAlgorithm\<close>
  (\<open>src/station_offset_algorithm.py\<close>, lines 175--216): a feature carries a table of
  attributes by field name and a geometry; \<open>feature.attribute(name)\<close> returns the
  value (a string, a number, or NULL) or raises \<open>KeyError\<close> when the layer has no
  such field. The run reads the alignment name right after the cancellation poll
  (line 180, before the vertices and before the skip of short polylines), and the
  description, point number and elevation at the start of each point (lines
  200--202). A row concatenates the name and the description with \<open>+\<close> (a
  \<open>TypeError\<close> unless both are strings) and renders the numbers with \<open>str\<close>.
  The theory models this loop over raw features and shows that it refines the loop
  of theory \<open>BatchRunner\<close> over the extracted records, whenever the fields exist and
  the numeric fields hold numbers or NULL, as the field parameters' types ask.
  A layer parameter QGIS cannot resolve gives \<open>None\<close> (\<open>parameterAsVectorLayer\<close>,
  lines 153--155), and \<open>getFeatures()\<close> on it raises \<open>AttributeError\<close>: for the
  line layer at line 156, before the output file is opened; for the point layer only
  at line 198, when the first alignment is projected.
\<close>

datatype attr =
    AttrStr string
  | AttrNum real
  | AttrNull

record qgs_line =
  ql_attrs :: "(string \<times> attr) list"
  ql_geometry :: geometry

record qgs_point =
  qp_attrs :: "(string \<times> attr) list"
  qp_geometry :: pointXY

definition attribute :: "(string \<times> attr) list \<Rightarrow> string \<Rightarrow> py_error + attr" where
  "attribute attrs name = (case map_of attrs name of None \<Rightarrow> Inl KeyError | Some v \<Rightarrow> Inr v)"

text \<open>Python's \<open>str\<close> of an attribute value; NULL prints as \<open>NULL\<close>.\<close>

primrec py_str_attr :: "(real \<Rightarrow> string) \<Rightarrow> attr \<Rightarrow> string" where
  "py_str_attr py_str (AttrStr s) = s"
| "py_str_attr py_str (AttrNum x) = py_str x"
| "py_str_attr py_str AttrNull = ''NULL''"

text \<open>Lines 209 and 213 on raw attribute values.\<close>

definition qgs_row ::
  "(real \<Rightarrow> string) \<Rightarrow> attr \<Rightarrow> attr \<Rightarrow> cell \<times> cell \<Rightarrow> attr \<Rightarrow> attr \<Rightarrow> py_error + string" where
  "qgs_row py_str lineName pn sto elevation pointDescription =
     (case (lineName, pointDescription) of
        (AttrStr nm, AttrStr ds) \<Rightarrow>
          Inr (nm @ '', '' @ py_str_attr py_str pn @ '', '' @ render_cell py_str (fst sto) @ '', '' @
               render_cell py_str (snd sto) @ '', '' @ py_str_attr py_str elevation @ '', '' @ ds @ newline)
      | _ \<Rightarrow> Inl TypeError)"

fun run_points_qgs ::
  "(real \<Rightarrow> string) \<Rightarrow> string \<Rightarrow> string \<Rightarrow> string \<Rightarrow> attr \<Rightarrow> polyline \<Rightarrow> real list \<Rightarrow> real \<Rightarrow>
   qgs_point list \<Rightarrow> string list \<Rightarrow> outcome \<times> string list" where
  "run_points_qgs py_str descF pnF eleF lineName verticies vertex_m maxOffset [] outfile = (Completed, outfile)"
| "run_points_qgs py_str descF pnF eleF lineName verticies vertex_m maxOffset (pf # pfs) outfile =
     (case attribute (qp_attrs pf) descF of
        Inl e \<Rightarrow> (Raised e, outfile)
      | Inr pointDescription \<Rightarrow>
     (case attribute (qp_attrs pf) pnF of
        Inl e \<Rightarrow> (Raised e, outfile)
      | Inr pn \<Rightarrow>
     (case attribute (qp_attrs pf) eleF of
        Inl e \<Rightarrow> (Raised e, outfile)
      | Inr elevation \<Rightarrow>
     (case station_offset verticies vertex_m maxOffset (qp_geometry pf) of
        Inl e \<Rightarrow> (Raised e, outfile)
      | Inr sto \<Rightarrow>
     (case qgs_row py_str lineName pn sto elevation pointDescription of
        Inl e \<Rightarrow> (Raised e, outfile)
      | Inr l \<Rightarrow> run_points_qgs py_str descF pnF eleF lineName verticies vertex_m maxOffset pfs (outfile @ [l]))))))"

text \<open>Lines 175--216. The point layer is \<open>None\<close> when \<open>parameterAsVectorLayer\<close> found no layer;
  \<open>pointLayer.getFeatures()\<close> (line 198) then raises \<open>AttributeError\<close>.\<close>

fun run_lines_qgs ::
  "(real \<Rightarrow> string) \<Rightarrow> (nat \<Rightarrow> bool) \<Rightarrow> string \<Rightarrow> string \<Rightarrow> string \<Rightarrow> string \<Rightarrow> real \<Rightarrow> qgs_point list option \<Rightarrow>
   nat \<Rightarrow> qgs_line list \<Rightarrow> string list \<Rightarrow> outcome \<times> string list" where
  "run_lines_qgs py_str isCanceled nameF descF pnF eleF maxOffset pointLayer k [] outfile = (Completed, outfile)"
| "run_lines_qgs py_str isCanceled nameF descF pnF eleF maxOffset pointLayer k (lf # lfs) outfile =
     (if isCanceled k then (Completed, outfile)
      else
        (case attribute (ql_attrs lf) nameF of
           Inl e \<Rightarrow> (Raised e, outfile)
         | Inr lineName \<Rightarrow>
        (case verticies_of (ql_geometry lf) of
           Inl e \<Rightarrow> (Raised e, outfile)
         | Inr verticies \<Rightarrow>
             if length verticies < 2
             then run_lines_qgs py_str isCanceled nameF descF pnF eleF maxOffset pointLayer (Suc k) lfs outfile
             else
               (case pointLayer of
                  None \<Rightarrow> (Raised AttributeError, outfile)
                | Some pointFeatures \<Rightarrow>
               (case run_points_qgs py_str descF pnF eleF lineName verticies (build_vertex_m verticies)
                       maxOffset pointFeatures outfile of
                  (Completed, outfile') \<Rightarrow>
                    run_lines_qgs py_str isCanceled nameF descF pnF eleF maxOffset pointLayer (Suc k) lfs outfile'
                | (Raised e, outfile') \<Rightarrow> (Raised e, outfile'))))))"

text \<open>Lines 153--219. A layer is \<open>None\<close> when \<open>parameterAsVectorLayer\<close> found none: the line
  layer's \<open>getFeatures()\<close> (line 156) raises before the output file is opened.\<close>

definition processAlgorithm_qgs ::
  "(real \<Rightarrow> string) \<Rightarrow> bool \<Rightarrow> (nat \<Rightarrow> bool) \<Rightarrow> string \<Rightarrow> string \<Rightarrow> string \<Rightarrow> string \<Rightarrow> real \<Rightarrow>
   qgs_line list option \<Rightarrow> qgs_point list option \<Rightarrow> outcome \<times> string list" where
  "processAlgorithm_qgs py_str outfile_opens isCanceled nameAttributeField descriptionAttributeField
     pnAttributeField eleAttributeField maxOffset lineLayer pointLayer =
     (case lineLayer of
        None \<Rightarrow> (Raised AttributeError, [])
      | Some lineFeatures \<Rightarrow>
          (if \<not> outfile_opens then (Raised UnboundLocalError, [])
           else run_lines_qgs py_str isCanceled nameAttributeField descriptionAttributeField pnAttributeField
                  eleAttributeField maxOffset pointLayer 0 lineFeatures [header_line]))"

section \<open>Extracting the records of theory BatchRunner\<close>

primrec as_str :: "attr \<Rightarrow> string option" where
  "as_str (AttrStr s) = Some s"
| "as_str (AttrNum x) = None"
| "as_str AttrNull = None"

primrec as_num :: "attr \<Rightarrow> real option" where
  "as_num (AttrStr s) = None"
| "as_num (AttrNum x) = Some x"
| "as_num AttrNull = None"

definition to_line :: "string \<Rightarrow> qgs_line \<Rightarrow> lineFeature" where
  "to_line nameF lf =
     \<lparr>line_geometry = ql_geometry lf, line_name = (case map_of (ql_attrs lf) nameF of Some a \<Rightarrow> as_str a | None \<Rightarrow> None)\<rparr>"

definition to_point :: "string \<Rightarrow> string \<Rightarrow> string \<Rightarrow> qgs_point \<Rightarrow> pointFeature" where
  "to_point descF pnF eleF pf =
     \<lparr>point_description = (case map_of (qp_attrs pf) descF of Some a \<Rightarrow> as_str a | None \<Rightarrow> None),
      point_pn = (case map_of (qp_attrs pf) pnF of Some a \<Rightarrow> as_num a | None \<Rightarrow> None),
      point_elevation = (case map_of (qp_attrs pf) eleF of Some a \<Rightarrow> as_num a | None \<Rightarrow> None),
      point_geometry = qp_geometry pf\<rparr>"

text \<open>The layers the field parameters promise: the fields exist, and a numeric field holds a number or NULL.\<close>

primrec numeric_attr :: "attr \<Rightarrow> bool" where
  "numeric_attr (AttrStr s) = False"
| "numeric_attr (AttrNum x) = True"
| "numeric_attr AttrNull = True"

definition line_has_field :: "string \<Rightarrow> qgs_line \<Rightarrow> bool" where
  "line_has_field nameF lf = (map_of (ql_attrs lf) nameF \<noteq> None)"

definition point_typed :: "string \<Rightarrow> string \<Rightarrow> string \<Rightarrow> qgs_point \<Rightarrow> bool" where
  "point_typed descF pnF eleF pf =
     (map_of (qp_attrs pf) descF \<noteq> None \<and>
      (case map_of (qp_attrs pf) pnF of None \<Rightarrow> False | Some a \<Rightarrow> numeric_attr a) \<and>
      (case map_of (qp_attrs pf) eleF of None \<Rightarrow> False | Some a \<Rightarrow> numeric_attr a))"

section \<open>Refinement\<close>

lemma py_str_attr_numeric: "numeric_attr a \<Longrightarrow> py_str_attr py_str a = render_attr py_str (as_num a)"
  by (cases a) (simp_all add: render_attr_def)

lemma qgs_row_refines:
  "numeric_attr pn \<Longrightarrow> numeric_attr ele \<Longrightarrow>
   qgs_row py_str nm pn sto ele ds =
     row_line py_str (as_str nm)
       \<lparr>point_description = as_str ds, point_pn = as_num pn, point_elevation = as_num ele, point_geometry = g\<rparr> sto"
  by (cases nm; cases ds) (simp_all add: qgs_row_def row_line_def py_str_attr_numeric)

lemma attribute_Some: "map_of attrs name = Some a \<Longrightarrow> attribute attrs name = Inr a"
  by (simp add: attribute_def)

lemma run_points_qgs_refines:
  "list_all (point_typed descF pnF eleF) pfs \<Longrightarrow>
   run_points_qgs py_str descF pnF eleF nm vs vm m pfs out =
     run_points py_str (as_str nm) vs vm m (map (to_point descF pnF eleF) pfs) out"
proof (induction pfs arbitrary: out)
  case Nil
  then show ?case by simp
next
  case (Cons pf pfs)
  from Cons.prems obtain ds pn ele where
    a: "map_of (qp_attrs pf) descF = Some ds" "map_of (qp_attrs pf) pnF = Some pn" "map_of (qp_attrs pf) eleF = Some ele"
    and t: "numeric_attr pn" "numeric_attr ele"
    by (auto simp: point_typed_def split: option.splits)
  have row: "\<And>sto. qgs_row py_str nm pn sto ele ds = row_line py_str (as_str nm) (to_point descF pnF eleF pf) sto"
    using qgs_row_refines [OF t] a by (simp add: to_point_def)
  show ?case
    using Cons.IH Cons.prems a row
    by (simp add: attribute_Some point_line_def to_point_def split: sum.splits)
qed

lemma run_lines_qgs_refines:
  "list_all (line_has_field nameF) lfs \<Longrightarrow> list_all (point_typed descF pnF eleF) pfs \<Longrightarrow>
   run_lines_qgs py_str c nameF descF pnF eleF m (Some pfs) k lfs out =
     run_lines py_str c m (map (to_point descF pnF eleF) pfs) k (map (to_line nameF) lfs) out"
proof (induction lfs arbitrary: k out)
  case Nil
  then show ?case by simp
next
  case (Cons lf lfs)
  from Cons.prems(1) obtain nm where nm: "map_of (ql_attrs lf) nameF = Some nm"
    by (auto simp: line_has_field_def)
  have "line_name (to_line nameF lf) = as_str nm" "line_geometry (to_line nameF lf) = ql_geometry lf"
    using nm by (simp_all add: to_line_def)
  then show ?case
    using Cons.IH Cons.prems nm run_points_qgs_refines [OF Cons.prems(2)]
    by (simp add: attribute_Some split: sum.splits prod.splits outcome.splits)
qed

text \<open>A field the layer lacks: the name is read before the vertices, so even an alignment that would be skipped raises \<open>KeyError\<close>, right after the header.\<close>

lemma processAlgorithm_qgs_missing_name:
  "\<not> c 0 \<Longrightarrow> map_of (ql_attrs lf) nameF = None \<Longrightarrow>
   processAlgorithm_qgs py_str True c nameF descF pnF eleF m (Some (lf # lfs)) pl = (Raised KeyError, [header_line])"
  by (simp add: processAlgorithm_qgs_def attribute_def)

text \<open>Without a point layer no row is ever written: the loop either stops at the first alignment it projects, with \<open>AttributeError\<close>, or completes with the output it started from.\<close>

lemma run_lines_qgs_no_points:
  "snd (run_lines_qgs py_str c nameF descF pnF eleF m None k lfs out) = out"
  by (induction lfs arbitrary: k) (simp_all split: sum.split)

section \<open>Properties\<close>

text \<open>C15: the run over QGIS features refines the run over records: when every alignment has the name field and every survey point has the description field and numeric (or NULL) point-number and elevation fields, as the field parameters' declared layers and types promise, reading the attributes by field name inside the loops gives exactly the outcome and output of \<open>processAlgorithm\<close> on the extracted records (name and description as strings or NULL, numbers or NULL).\<close>

theorem processAlgorithm_qgs_refines:
  assumes "list_all (line_has_field nameF) lfs" "list_all (point_typed descF pnF eleF) pfs"
  shows "processAlgorithm_qgs py_str ok c nameF descF pnF eleF m (Some lfs) (Some pfs) =
           processAlgorithm py_str ok c m (map (to_line nameF) lfs) (map (to_point descF pnF eleF) pfs)"
  using run_lines_qgs_refines [OF assms] by (simp add: processAlgorithm_qgs_def processAlgorithm_def)

theorem processAlgorithm_qgs_refines_witness:
  "list_all (line_has_field ''name'')
     [\<lparr>ql_attrs = [(''name'', AttrStr ''A'')],
       ql_geometry = LineString [\<lparr>ptx = 0, pty = 0\<rparr>, \<lparr>ptx = 10, pty = 0\<rparr>]\<rparr>] \<and>
   list_all (point_typed ''desc'' ''pn'' ''ele'')
     [\<lparr>qp_attrs = [(''desc'', AttrStr ''X''), (''pn'', AttrNum 1), (''ele'', AttrNull)],
       qp_geometry = \<lparr>ptx = 5, pty = 3\<rparr>\<rparr>] \<and>
   processAlgorithm_qgs (\<lambda>_. ''0'') True (\<lambda>_. False) ''name'' ''desc'' ''pn'' ''ele'' 99999
     (Some [\<lparr>ql_attrs = [(''name'', AttrStr ''A'')],
       ql_geometry = LineString [\<lparr>ptx = 0, pty = 0\<rparr>, \<lparr>ptx = 10, pty = 0\<rparr>]\<rparr>])
     (Some [\<lparr>qp_attrs = [(''desc'', AttrStr ''X''), (''pn'', AttrNum 1), (''ele'', AttrNull)],
       qp_geometry = \<lparr>ptx = 5, pty = 3\<rparr>\<rparr>]) =
   processAlgorithm (\<lambda>_. ''0'') True (\<lambda>_. False) 99999
     (map (to_line ''name'')
        [\<lparr>ql_attrs = [(''name'', AttrStr ''A'')],
          ql_geometry = LineString [\<lparr>ptx = 0, pty = 0\<rparr>, \<lparr>ptx = 10, pty = 0\<rparr>]\<rparr>])
     (map (to_point ''desc'' ''pn'' ''ele'')
        [\<lparr>qp_attrs = [(''desc'', AttrStr ''X''), (''pn'', AttrNum 1), (''ele'', AttrNull)],
          qp_geometry = \<lparr>ptx = 5, pty = 3\<rparr>\<rparr>])"
proof -
  have h1: "list_all (line_has_field ''name'')
     [\<lparr>ql_attrs = [(''name'', AttrStr ''A'')],
       ql_geometry = LineString [\<lparr>ptx = 0, pty = 0\<rparr>, \<lparr>ptx = 10, pty = 0\<rparr>]\<rparr>]"
    by (simp add: line_has_field_def)
  have h2: "list_all (point_typed ''desc'' ''pn'' ''ele'')
     [\<lparr>qp_attrs = [(''desc'', AttrStr ''X''), (''pn'', AttrNum 1), (''ele'', AttrNull)],
       qp_geometry = \<lparr>ptx = 5, pty = 3\<rparr>\<rparr>]"
    by (simp add: point_typed_def)
  show ?thesis using h1 h2 processAlgorithm_qgs_refines [OF h1 h2] by blast
qed

text \<open>C19: missing layers (\<open>parameterAsVectorLayer\<close> returned \<open>None\<close>). Without a line layer, \<open>lineLayer.getFeatures()\<close> raises \<open>AttributeError\<close> at line 156, before the output file is opened, so nothing is written. Without a point layer the run still opens the file and writes the header, and never writes a row; \<open>pointLayer.getFeatures()\<close> raises \<open>AttributeError\<close> only at line 198, when the first uncancelled alignment of two or more vertices is reached.\<close>

theorem processAlgorithm_qgs_missing_layer:
  assumes "\<not> c 0" "map_of (ql_attrs lf) nameF = Some nm"
    and "verticies_of (ql_geometry lf) = Inr vs" "2 \<le> length vs"
  shows "processAlgorithm_qgs py_str ok c nameF descF pnF eleF m None pl = (Raised AttributeError, []) \<and>
         snd (processAlgorithm_qgs py_str True c nameF descF pnF eleF m (Some lfs') None) = [header_line] \<and>
         processAlgorithm_qgs py_str True c nameF descF pnF eleF m (Some (lf # lfs)) None =
           (Raised AttributeError, [header_line])"
  using assms run_lines_qgs_no_points
  by (simp add: processAlgorithm_qgs_def attribute_def)

theorem processAlgorithm_qgs_missing_layer_witness:
  "\<not> (\<lambda>_. False) (0::nat) \<and>
   map_of (ql_attrs \<lparr>ql_attrs = [(''name'', AttrStr ''A'')],
                     ql_geometry = LineString [\<lparr>ptx = 0, pty = 0\<rparr>, \<lparr>ptx = 10, pty = 0\<rparr>]\<rparr>) ''name'' =
     Some (AttrStr ''A'') \<and>
   verticies_of (ql_geometry \<lparr>ql_attrs = [(''name'', AttrStr ''A'')],
                     ql_geometry = LineString [\<lparr>ptx = 0, pty = 0\<rparr>, \<lparr>ptx = 10, pty = 0\<rparr>]\<rparr>) =
     Inr [\<lparr>ptx = 0, pty = 0\<rparr>, \<lparr>ptx = 10, pty = 0\<rparr>] \<and>
   2 \<le> length [\<lparr>ptx = 0, pty = 0\<rparr>, \<lparr>ptx = 10, pty = 0::real\<rparr>] \<and>
   processAlgorithm_qgs (\<lambda>_. ''0'') True (\<lambda>_. False) ''name'' ''desc'' ''pn'' ''ele'' 99999 None (Some []) =
     (Raised AttributeError, []) \<and>
   snd (processAlgorithm_qgs (\<lambda>_. ''0'') True (\<lambda>_. False) ''name'' ''desc'' ''pn'' ''ele'' 99999 (Some []) None) =
     [header_line] \<and>
   processAlgorithm_qgs (\<lambda>_. ''0'') True (\<lambda>_. False) ''name'' ''desc'' ''pn'' ''ele'' 99999
     (Some [\<lparr>ql_attrs = [(''name'', AttrStr ''A'')],
             ql_geometry = LineString [\<lparr>ptx = 0, pty = 0\<rparr>, \<lparr>ptx = 10, pty = 0\<rparr>]\<rparr>]) None =
     (Raised AttributeError, [header_line])"
proof -
  have h1: "\<not> (\<lambda>_. False) (0::nat)" by simp
  have h2: "map_of (ql_attrs \<lparr>ql_attrs = [(''name'', AttrStr ''A'')],
                     ql_geometry = LineString [\<lparr>ptx = 0, pty = 0\<rparr>, \<lparr>ptx = 10, pty = 0\<rparr>]\<rparr>) ''name'' =
     Some (AttrStr ''A'')" by simp
  have h3: "verticies_of (ql_geometry \<lparr>ql_attrs = [(''name'', AttrStr ''A'')],
                     ql_geometry = LineString [\<lparr>ptx = 0, pty = 0\<rparr>, \<lparr>ptx = 10, pty = 0\<rparr>]\<rparr>) =
     Inr [\<lparr>ptx = 0, pty = 0\<rparr>, \<lparr>ptx = 10, pty = 0\<rparr>]" by (simp add: verticies_of_def)
  have h4: "2 \<le> length [\<lparr>ptx = 0, pty = 0\<rparr>, \<lparr>ptx = 10, pty = 0::real\<rparr>]" by simp
  show ?thesis
    using h1 h2 h3 h4
      processAlgorithm_qgs_missing_layer [OF h1 h2 h3 h4, of "\<lambda>_. ''0''" True "''desc''" "''pn''" "''ele''" 99999 "Some []" "[]" "[]"]
    by blast
qed

end
