(* ===== verification/SurveyLayer.thy ===== *)
theory SurveyLayer
  imports Layers PNEZD
begin

text \<open>
  The two algorithms of the provider meet in the survey-point layer: \<open>PNEZDAlgorithm\<close>
  (\<open>src/pnezd_algorithm.py\<close>, lines 97--124) creates a QGIS delimited-text layer over
  a PNEZD file, and \<open>StationOffsetAlgorithm.processAlgorithm\<close>
  (\<open>src/station_offset_algorithm.py\<close>, lines 198--213) iterates over its features and
  reads the point number, elevation and description by field name. The features the
  layer yields are QGIS behaviour (the \<open>delimitedtext\<close> provider), modelled here from
  its documentation for the options the URI sets: no header row, so the columns are
  \<open>field_1 \<dots> field_n\<close>; \<open>detectTypes=yes\<close>, so a column whose non-empty values all
  read as numbers holds numbers, every other column holds strings, and an empty value
  is NULL; a record whose x or y field does not read as a number has no point and is
  not loaded. The conversion of a text to a number (\<open>to_num\<close>) is QGIS's and is a
  parameter of every lemma.
  The theory proves the composition: with the fields aliased PN, Elevation and
  Description chosen for the three field parameters, the run over the imported layer
  is the run over the survey points the PNEZD file describes, provided the
  description column is not all numeric; when it is, the type detection turns the
  descriptions into numbers and the run aborts with \<open>TypeError\<close> at the first point.
\<close>

section \<open>The delimited-text provider with type detection\<close>

definition numeric_text :: "(string \<Rightarrow> real option) \<Rightarrow> string \<Rightarrow> bool" where
  "numeric_text to_num v = (case to_num v of Some x \<Rightarrow> True | None \<Rightarrow> v = [])"

definition column_numeric :: "(string \<Rightarrow> real option) \<Rightarrow> string list list \<Rightarrow> nat \<Rightarrow> bool" where
  "column_numeric to_num rows i =
     list_all (\<lambda>row. case drop i row of [] \<Rightarrow> True | v # _ \<Rightarrow> numeric_text to_num v) rows"

definition dt_value :: "(string \<Rightarrow> real option) \<Rightarrow> bool \<Rightarrow> string \<Rightarrow> attr" where
  "dt_value to_num numeric v =
     (if v = [] then AttrNull
      else if numeric then (case to_num v of Some x \<Rightarrow> AttrNum x | None \<Rightarrow> AttrStr v)
      else AttrStr v)"

definition dt_feature ::
  "(string \<Rightarrow> real option) \<Rightarrow> (nat \<Rightarrow> bool) \<Rightarrow> nat \<Rightarrow> vector_layer \<Rightarrow> string \<Rightarrow> qgs_point list" where
  "dt_feature to_num numeric ncols layer line =
     (case dt_read layer line of
        None \<Rightarrow> []
      | Some (row, xs, ys) \<Rightarrow>
          (case (to_num xs, to_num ys) of
             (Some x, Some y) \<Rightarrow>
               [\<lparr>qp_attrs = map (\<lambda>i. (dt_field_name i,
                                      case drop i row of
                                        [] \<Rightarrow> AttrNull
                                      | v # _ \<Rightarrow> dt_value to_num (numeric i) v)) [0..<ncols],
                 qp_geometry = \<lparr>ptx = x, pty = y\<rparr>\<rparr>]
           | _ \<Rightarrow> []))"

text \<open>\<open>layer.getFeatures()\<close> on the layer over a file of the given lines.\<close>

definition dt_getFeatures :: "(string \<Rightarrow> real option) \<Rightarrow> vector_layer \<Rightarrow> string list \<Rightarrow> qgs_point list" where
  "dt_getFeatures to_num layer lines =
     (let rows = map (split_on (CHR '','')) lines;
          detect = (map_of (layer_query layer) ''detectTypes'' = Some ''yes'');
          ncols = fold max (map length rows) 0
      in concat (map (dt_feature to_num (\<lambda>i. detect \<and> column_numeric to_num rows i) ncols layer) lines))"

section \<open>The survey points a PNEZD file describes\<close>



section \<open>Reading plain decimal numbers\<close>

text \<open>The number reading the witnesses use: \<open>QString::toDouble\<close> on the plain decimal
  notation \<open>[-]digits[.digits]\<close> of survey files (exponents, a leading \<open>+\<close> or \<open>.\<close> and
  surrounding blanks, which QGIS also accepts, are not covered).\<close>

definition digit_value :: "char \<Rightarrow> nat option" where
  "digit_value c = find (\<lambda>d. ''0123456789'' ! d = c) [0..<10]"

fun digits_value :: "nat \<Rightarrow> string \<Rightarrow> nat option" where
  "digits_value acc [] = Some acc"
| "digits_value acc (c # cs) = (case digit_value c of None \<Rightarrow> None | Some d \<Rightarrow> digits_value (10 * acc + d) cs)"

definition parse_unsigned :: "string \<Rightarrow> real option" where
  "parse_unsigned s =
     (case (takeWhile (\<lambda>c. c \<noteq> CHR ''.'') s, dropWhile (\<lambda>c. c \<noteq> CHR ''.'') s) of
        ([], _) \<Rightarrow> None
      | (ip, []) \<Rightarrow> map_option real (digits_value 0 ip)
      | (ip, _ # fp) \<Rightarrow>
          (case (digits_value 0 ip, digits_value 0 fp) of
             (Some a, Some b) \<Rightarrow> if fp = [] then None else Some (real a + real b / 10 ^ length fp)
           | _ \<Rightarrow> None))"

definition parse_decimal :: "string \<Rightarrow> real option" where
  "parse_decimal s = (case s of CHR ''-'' # t \<Rightarrow> map_option uminus (parse_unsigned t) | _ \<Rightarrow> parse_unsigned s)"

section \<open>The layer of a PNEZD file\<close>

lemma split_pnezd_lines:
  "list_all (\<lambda>r. list_all (\<lambda>f. CHR '','' \<notin> set f) (pnezd_fields r)) rs \<Longrightarrow>
   map (split_on (CHR '','')) (map pnezd_line rs) = map pnezd_fields rs"
  by (induction rs) (simp_all add: split_pnezd_line)

lemma fold_max_const: "fold max (map (\<lambda>_. n) xs) b = (if xs = [] then b else max n (b::nat))"
  by (induction xs arbitrary: b) (auto simp: max.left_commute max.commute)

lemma pnezd_ncols: "rs \<noteq> [] \<Longrightarrow> fold max (map length (map pnezd_fields rs)) 0 = 5"
proof -
  assume "rs \<noteq> []"
  have m: "map length (map pnezd_fields rs) = map (\<lambda>_. 5) rs"
    by (simp add: pnezd_fields_def)
  show ?thesis using \<open>rs \<noteq> []\<close> unfolding m fold_max_const by simp
qed

lemma drop_pnezd_fields:
  "i < 5 \<Longrightarrow> drop i (pnezd_fields r) = pnezd_fields r ! i # drop (Suc i) (pnezd_fields r)"
  by (rule Cons_nth_drop_Suc [symmetric]) (simp add: pnezd_fields_def)

lemma column_numeric_pnezd:
  "i < 5 \<Longrightarrow> column_numeric to_num (map pnezd_fields rs) i =
     list_all (\<lambda>r. numeric_text to_num (pnezd_fields r ! i)) rs"
  unfolding column_numeric_def list.pred_map by (simp add: drop_pnezd_fields comp_def)

lemma dt_feature_pnezd:
  assumes "list_all (\<lambda>f. CHR '','' \<notin> set f) (pnezd_fields r)"
  shows "dt_feature to_num numeric 5 (snd (pnezd_processAlgorithm prj crs path)) (pnezd_line r) =
     (case (to_num (easting_text r), to_num (northing_text r)) of
        (Some x, Some y) \<Rightarrow>
          [\<lparr>qp_attrs = map (\<lambda>i. (dt_field_name i, dt_value to_num (numeric i) (pnezd_fields r ! i))) [0..<5],
            qp_geometry = \<lparr>ptx = x, pty = y\<rparr>\<rparr>]
      | _ \<Rightarrow> [])"
proof -
  have "map (\<lambda>i. (dt_field_name i, case drop i (pnezd_fields r) of [] \<Rightarrow> AttrNull
                                    | v # _ \<Rightarrow> dt_value to_num (numeric i) v)) [0..<5] =
        map (\<lambda>i. (dt_field_name i, dt_value to_num (numeric i) (pnezd_fields r ! i))) [0..<5]"
    by (rule map_cong) (simp_all add: drop_pnezd_fields)
  then show ?thesis
    using dt_read_pnezd_line [OF assms, of prj crs path]
    by (simp add: dt_feature_def split: option.splits)
qed




lemma numeric_attr_dt_value: "numeric_text to_num v \<Longrightarrow> numeric_attr (dt_value to_num True v)"
  by (simp add: dt_value_def numeric_text_def split: option.splits)

lemma map_of_field_names:
  assumes "j < 5"
  shows "map_of (map (\<lambda>i. (dt_field_name i, f i)) [0..<5]) (dt_field_name j) = Some (f j)"
proof -
  have u: "[0..<5] = [0, 1, 2, 3, 4::nat]" by (simp add: upt_rec)
  have "j = 0 \<or> j = 1 \<or> j = 2 \<or> j = 3 \<or> j = 4" using assms by auto
  then show ?thesis unfolding u by (elim disjE) (simp_all add: dt_field_name_def nat_str.simps)
qed

lemma detect_pnezd_layer:
  "map_of (layer_query (snd (pnezd_processAlgorithm prj crs path))) ''detectTypes'' = Some ''yes''"
  by (simp add: pnezd_layer_query pnezd_query_def)

lemma dt_getFeatures_pnezd:
  assumes "list_all (\<lambda>r. list_all (\<lambda>f. CHR '','' \<notin> set f) (pnezd_fields r)) rs" "rs \<noteq> []"
  shows "dt_getFeatures to_num (snd (pnezd_processAlgorithm prj crs path)) (map pnezd_line rs) =
           concat (map (\<lambda>r. dt_feature to_num (column_numeric to_num (map pnezd_fields rs)) 5
                                (snd (pnezd_processAlgorithm prj crs path)) (pnezd_line r)) rs)"
proof -
  have r: "map (split_on (CHR '','')) (map pnezd_line rs) = map pnezd_fields rs"
    using assms(1) by (rule split_pnezd_lines)
  show ?thesis
    unfolding dt_getFeatures_def Let_def r pnezd_ncols [OF assms(2)] detect_pnezd_layer by (simp add: comp_def)
qed







lemma column_numeric_pnezd_fields:
  "column_numeric to_num (map pnezd_fields rs) 0 = list_all (\<lambda>r. numeric_text to_num (pn_text r)) rs"
  "column_numeric to_num (map pnezd_fields rs) 3 = list_all (\<lambda>r. numeric_text to_num (elevation_text r)) rs"
  "column_numeric to_num (map pnezd_fields rs) 4 = list_all (\<lambda>r. numeric_text to_num (description_text r)) rs"
  by (simp_all add: column_numeric_pnezd pnezd_fields_def)

lemma qgs_row_numeric_description: "numeric_attr ds \<Longrightarrow> qgs_row py_str nm pn sto ele ds = Inl TypeError"
  by (cases ds; cases nm) (simp_all add: qgs_row_def)

section \<open>Properties\<close>



text \<open>C17: when every description of the PNEZD file reads as a number (point codes such as 1, 2, 3), type detection makes the Description column numeric, and the station-offset run over the imported layer aborts with \<open>TypeError\<close> at the first survey point of the first alignment it processes (line 209 or 213 concatenates the alignment name with a number), leaving only the header in the output.\<close>

theorem pnezd_numeric_descriptions:
  assumes "\<not> c 0" and name: "map_of (ql_attrs lf) nameF = Some (AttrStr nm)"
    and vs: "verticies_of (ql_geometry lf) = Inr vs" "2 \<le> length vs"
    and commas: "list_all (\<lambda>r. list_all (\<lambda>f. CHR '','' \<notin> set f) (pnezd_fields r)) (r0 # rs)"
    and descs: "list_all (\<lambda>r. numeric_text to_num (description_text r)) (r0 # rs)"
    and xy: "to_num (easting_text r0) = Some x" "to_num (northing_text r0) = Some y"
  shows "processAlgorithm_qgs py_str True c nameF (dt_field_name 4) (dt_field_name 0) (dt_field_name 3) m
           (Some (lf # lfs))
           (Some (dt_getFeatures to_num (snd (pnezd_processAlgorithm prj crs path)) (map pnezd_line (r0 # rs)))) =
         (Raised TypeError, [header_line])"
proof -
  let ?N = "column_numeric to_num (map pnezd_fields (r0 # rs))"
  let ?attrs = "map (\<lambda>i. (dt_field_name i, dt_value to_num (?N i) (pnezd_fields r0 ! i))) [0..<5]"
  have n4: "?N 4" unfolding column_numeric_pnezd_fields by (rule descs)
  have feats: "dt_getFeatures to_num (snd (pnezd_processAlgorithm prj crs path)) (map pnezd_line (r0 # rs)) =
      \<lparr>qp_attrs = ?attrs, qp_geometry = \<lparr>ptx = x, pty = y\<rparr>\<rparr> #
      concat (map (\<lambda>r. dt_feature to_num ?N 5 (snd (pnezd_processAlgorithm prj crs path)) (pnezd_line r)) rs)"
    using dt_getFeatures_pnezd [OF commas, of to_num prj crs path] dt_feature_pnezd commas xy by simp
  have ds: "numeric_attr (dt_value to_num (?N 4) (description_text r0))"
    using n4 descs by (simp add: numeric_attr_dt_value)
  have sto: "station_offset vs (build_vertex_m vs) m \<lparr>ptx = x, pty = y\<rparr> = Inr (spec_fields vs m \<lparr>ptx = x, pty = y\<rparr>)"
    using vs(2) by (rule station_offset_spec_fields)
  show ?thesis
    using assms(1) name vs feats ds sto
    by (simp add: processAlgorithm_qgs_def attribute_def map_of_field_names qgs_row_numeric_description
                  pnezd_fields_def)
qed

theorem pnezd_numeric_descriptions_witness:
  "\<not> (\<lambda>_. False) (0::nat) \<and>
   map_of (ql_attrs \<lparr>ql_attrs = [(''name'', AttrStr ''A'')], ql_geometry = LineString [\<lparr>ptx = 0, pty = 0\<rparr>, \<lparr>ptx = 10, pty = 0\<rparr>]\<rparr>) ''name'' = Some (AttrStr ''A'') \<and>
   verticies_of (ql_geometry \<lparr>ql_attrs = [(''name'', AttrStr ''A'')], ql_geometry = LineString [\<lparr>ptx = 0, pty = 0\<rparr>, \<lparr>ptx = 10, pty = 0\<rparr>]\<rparr>) = Inr [\<lparr>ptx = 0, pty = 0\<rparr>, \<lparr>ptx = 10, pty = 0\<rparr>] \<and>
   2 \<le> length [\<lparr>ptx = 0, pty = 0\<rparr>, \<lparr>ptx = 10, pty = 0::real\<rparr>] \<and>
   list_all (\<lambda>r. list_all (\<lambda>f. CHR '','' \<notin> set f) (pnezd_fields r)) [\<lparr>pn_text = ''8'', northing_text = ''3'', easting_text = ''5'', elevation_text = ''101.5'', description_text = ''12''\<rparr>] \<and>
   list_all (\<lambda>r. numeric_text parse_decimal (description_text r)) [\<lparr>pn_text = ''8'', northing_text = ''3'', easting_text = ''5'', elevation_text = ''101.5'', description_text = ''12''\<rparr>] \<and>
   parse_decimal (easting_text \<lparr>pn_text = ''8'', northing_text = ''3'', easting_text = ''5'', elevation_text = ''101.5'', description_text = ''12''\<rparr>) = Some 5 \<and> parse_decimal (northing_text \<lparr>pn_text = ''8'', northing_text = ''3'', easting_text = ''5'', elevation_text = ''101.5'', description_text = ''12''\<rparr>) = Some 3 \<and>
   processAlgorithm_qgs (\<lambda>_. ''0'') True (\<lambda>_. False) ''name'' (dt_field_name 4) (dt_field_name 0) (dt_field_name 3) 99999
     (Some [\<lparr>ql_attrs = [(''name'', AttrStr ''A'')], ql_geometry = LineString [\<lparr>ptx = 0, pty = 0\<rparr>, \<lparr>ptx = 10, pty = 0\<rparr>]\<rparr>])
     (Some (dt_getFeatures parse_decimal (snd (pnezd_processAlgorithm [] ''EPSG:6529'' ''points.csv'')) (map pnezd_line [\<lparr>pn_text = ''8'', northing_text = ''3'', easting_text = ''5'', elevation_text = ''101.5'', description_text = ''12''\<rparr>]))) =
   (Raised TypeError, [header_line])"
proof -
  have h1: "\<not> (\<lambda>_. False) (0::nat)" by simp
  have h2: "map_of (ql_attrs \<lparr>ql_attrs = [(''name'', AttrStr ''A'')], ql_geometry = LineString [\<lparr>ptx = 0, pty = 0\<rparr>, \<lparr>ptx = 10, pty = 0\<rparr>]\<rparr>) ''name'' = Some (AttrStr ''A'')" by simp
  have h3: "verticies_of (ql_geometry \<lparr>ql_attrs = [(''name'', AttrStr ''A'')], ql_geometry = LineString [\<lparr>ptx = 0, pty = 0\<rparr>, \<lparr>ptx = 10, pty = 0\<rparr>]\<rparr>) = Inr [\<lparr>ptx = 0, pty = 0\<rparr>, \<lparr>ptx = 10, pty = 0\<rparr>]"
    by (simp add: verticies_of_def)
  have h4: "2 \<le> length [\<lparr>ptx = 0, pty = 0\<rparr>, \<lparr>ptx = 10, pty = 0::real\<rparr>]" by simp
  have h5: "list_all (\<lambda>r. list_all (\<lambda>f. CHR '','' \<notin> set f) (pnezd_fields r)) [\<lparr>pn_text = ''8'', northing_text = ''3'', easting_text = ''5'', elevation_text = ''101.5'', description_text = ''12''\<rparr>]"
    by (simp add: pnezd_fields_def)
  have h6: "list_all (\<lambda>r. numeric_text parse_decimal (description_text r)) [\<lparr>pn_text = ''8'', northing_text = ''3'', easting_text = ''5'', elevation_text = ''101.5'', description_text = ''12''\<rparr>]"
    by (simp add: numeric_text_def parse_decimal_def parse_unsigned_def digit_value_def upt_rec)
  have h7: "parse_decimal (easting_text \<lparr>pn_text = ''8'', northing_text = ''3'', easting_text = ''5'', elevation_text = ''101.5'', description_text = ''12''\<rparr>) = Some 5" "parse_decimal (northing_text \<lparr>pn_text = ''8'', northing_text = ''3'', easting_text = ''5'', elevation_text = ''101.5'', description_text = ''12''\<rparr>) = Some 3"
    by (simp_all add: parse_decimal_def parse_unsigned_def digit_value_def upt_rec)
  show ?thesis
    using h1 h2 h3 h4 h5 h6 h7
      pnezd_numeric_descriptions [OF h1 h2 h3 h4 h5 h6 h7, of "\<lambda>_. ''0''" 99999 "[]" "[]" "''EPSG:6529''" "''points.csv''"]
    by blast
qed

end
