(* ===== verification/Instances.thy ===== *)
theory Instances
  imports AlgorithmConfig PNEZD
begin

text \<open>
  Algorithm objects. QGIS never runs the algorithm object the provider registered: it
  calls \<open>createInstance()\<close> (\<open>src/station_offset_algorithm.py\<close> lines 258--259,
  \<open>src/pnezd_algorithm.py\<close> lines 164--165), which constructs a fresh object of the
  class, and then \<open>initAlgorithm\<close> on that object, whose \<open>addParameter\<close> calls
  register the declarations in the object's own state. An object is modelled as its
  class and the declarations registered in it; method calls dispatch on the class.
  The lemmas show that the fresh object always accepts its declarations, whereas a
  second \<open>initAlgorithm\<close> on the same object is refused by the duplicate-name check.
\<close>

datatype algorithm_class = StationOffsetAlgorithm | PNEZDAlgorithm

record algorithm_obj =
  alg_class :: algorithm_class
  alg_declared :: alg_decls

text \<open>The constructor \<open>StationOffsetAlgorithm()\<close> / \<open>PNEZDAlgorithm()\<close>: nothing declared yet.\<close>

definition new_algorithm :: "algorithm_class \<Rightarrow> algorithm_obj" where
  "new_algorithm k = \<lparr>alg_class = k, alg_declared = empty_decls\<rparr>"

definition createInstance :: "algorithm_obj \<Rightarrow> algorithm_obj" where
  "createInstance self = new_algorithm StationOffsetAlgorithm"

definition pnezd_createInstance :: "algorithm_obj \<Rightarrow> algorithm_obj" where
  "pnezd_createInstance self = new_algorithm PNEZDAlgorithm"

text \<open>\<open>alg.createInstance()\<close> and \<open>alg.initAlgorithm(config)\<close> dispatched on the object's class.\<close>

definition alg_createInstance :: "algorithm_obj \<Rightarrow> algorithm_obj" where
  "alg_createInstance self =
     (case alg_class self of
        StationOffsetAlgorithm \<Rightarrow> createInstance self
      | PNEZDAlgorithm \<Rightarrow> pnezd_createInstance self)"

definition alg_initAlgorithm :: "algorithm_obj \<Rightarrow> algorithm_obj \<times> bool" where
  "alg_initAlgorithm self =
     (case (case alg_class self of
              StationOffsetAlgorithm \<Rightarrow> initAlgorithm_run (alg_declared self)
            | PNEZDAlgorithm \<Rightarrow> pnezd_initAlgorithm_run (alg_declared self)) of
        (d, ok) \<Rightarrow> (self\<lparr>alg_declared := d\<rparr>, ok))"

text \<open>The declarations each class registers on a fresh object.\<close>

primrec class_decls :: "algorithm_class \<Rightarrow> alg_decls" where
  "class_decls StationOffsetAlgorithm = \<lparr>decl_params = initAlgorithm, decl_outputs = [(OUTPUT, OutputFile)]\<rparr>"
| "class_decls PNEZDAlgorithm =
     \<lparr>decl_params = pnezd_initAlgorithm, decl_outputs = [(pnezd_OUTPUT, OutputVectorLayer)]\<rparr>"

section \<open>Registration on a fresh object\<close>

lemma initAlgorithm_run_fresh: "initAlgorithm_run empty_decls = (class_decls StationOffsetAlgorithm, True)"
proof -
  have "params_wf initAlgorithm processAlgorithm_reads"
    by (simp add: params_eval initAlgorithm_def processAlgorithm_reads_def param_keys)
  from params_wf_register [OF this] show ?thesis
    by (simp add: initAlgorithm_run_def initAlgorithm_def OUTPUT_def)
qed

lemma pnezd_initAlgorithm_run_fresh: "pnezd_initAlgorithm_run empty_decls = (class_decls PNEZDAlgorithm, True)"
proof -
  have "params_wf pnezd_initAlgorithm pnezd_reads"
    by (simp add: params_eval pnezd_initAlgorithm_def pnezd_reads_def CRSINPUT_def INPUTFILE_def)
  from params_wf_register [OF this] show ?thesis
    by (simp add: pnezd_initAlgorithm_run_def addOutput_def pnezd_initAlgorithm_def pnezd_OUTPUT_def)
qed

lemma addParameters_refused:
  "list_ex (\<lambda>q. param_name q = param_name p) (decl_params d) \<Longrightarrow> snd (addParameters (p # ps) d) = False"
  by (simp add: addParameter_def split: prod.split)

lemma alg_initAlgorithm_fresh:
  "alg_initAlgorithm (alg_createInstance a) =
     ((new_algorithm (alg_class a))\<lparr>alg_declared := class_decls (alg_class a)\<rparr>, True)"
  by (cases "alg_class a")
     (simp_all add: alg_initAlgorithm_def alg_createInstance_def createInstance_def pnezd_createInstance_def
                    new_algorithm_def initAlgorithm_run_fresh pnezd_initAlgorithm_run_fresh)

lemma alg_initAlgorithm_again:
  "snd (alg_initAlgorithm ((new_algorithm k)\<lparr>alg_declared := class_decls k\<rparr>)) = False"
proof (cases k)
  case StationOffsetAlgorithm
  have "snd (addParameters initAlgorithm (class_decls StationOffsetAlgorithm)) = False"
    unfolding initAlgorithm_def by (rule addParameters_refused) (simp add: initAlgorithm_def)
  with StationOffsetAlgorithm show ?thesis
    by (simp add: alg_initAlgorithm_def new_algorithm_def initAlgorithm_run_def prod.case_eq_if)
next
  case PNEZDAlgorithm
  have "snd (addParameters pnezd_initAlgorithm (class_decls PNEZDAlgorithm)) = False"
    unfolding pnezd_initAlgorithm_def by (rule addParameters_refused) (simp add: pnezd_initAlgorithm_def)
  with PNEZDAlgorithm show ?thesis
    by (simp add: alg_initAlgorithm_def new_algorithm_def pnezd_initAlgorithm_run_def prod.case_eq_if)
qed

end
