(* ===== verification/Spec2Isabelle.thy ===== *)
theory Spec2Isabelle
  imports AlgorithmConfig PNEZD Plugin BatchSteps OutputFile Degenerate SurveyLayer Instances
begin

text \<open>
  \<^bold>\<open>GISPointTools: a verification development.\<close>
  The repository is a QGIS plugin ("Stream Tools") of three Python files. The plugin
  class \<open>StationOffsetPlugin\<close> (\<open>src/station_offset.py\<close>) registers a processing
  provider with QGIS; the provider offers two algorithms. \<open>StationOffsetAlgorithm\<close>
  (\<open>src/station_offset_algorithm.py\<close>) reads alignment polylines and survey points
  and writes, for every (alignment, point) pair, a CSV line with the point's station
  (distance along the alignment to the foot of the perpendicular on the nearest
  segment) and offset (distance to that foot). \<open>PNEZDAlgorithm\<close>
  (\<open>src/pnezd_algorithm.py\<close>) turns a PNEZD text file (point number, northing,
  easting, elevation, description) into a delimited-text point layer. The
  projection routine \<open>station_offset_calc\<close> is imported by the algorithm but is not
  among the sources; it is modelled from its specification.

  \<^bold>\<open>Theories and what they model.\<close>
  \<^item> \<open>Prelude\<close>: points (\<open>record pointXY\<close>; Python floats as \<open>real\<close>), polylines,
    the Python exceptions the code raises (\<open>py_error\<close>, errors are \<open>Inl\<close> of a sum),
    the running-minimum step \<open>scan_step\<close> shared by every closest-so-far loop, and
    square-root lemmas used for concrete evaluation.
  \<^item> \<open>Geometry\<close>: \<open>calcDistance\<close> and the clamped foot \<open>closestPoint\<close> of
    \<open>station_offset_calc\<close> (spec-modelled); the foot is proved optimal on its segment.
  \<^item> \<open>Alignment\<close>: the index loop of \<open>processAlgorithm\<close> (lines 186--197) that builds
    \<open>vertex_m\<close>, as a \<open>function\<close> with a measure; it equals the table of path lengths.
  \<^item> \<open>Projector\<close>: \<open>projectPoint\<close> as a fold of \<open>scan_step\<close> over the segments with the
    \<open>maxOffset\<close> test and \<open>InvalidAlignment\<close> below two vertices (spec-modelled); it
    refines a specification written with \<open>Min\<close> and \<open>LEAST\<close>.
  \<^item> \<open>BatchRunner\<close>: \<open>processAlgorithm\<close> (lines 145--219): \<open>station_offset\<close> (lines
    204--213), the CSV line \<open>row_line\<close>, the point loop \<open>run_points\<close>, the alignment loop
    \<open>run_lines\<close> with a cancellation oracle \<open>isCanceled k\<close> answering the poll before
    feature \<open>k\<close>, and the opening of the output file. The file is the list of lines
    written; Python's \<open>str\<close> of a float is the parameter \<open>py_str\<close>, so the theorems hold
    for any rendering.
  \<^item> \<open>Layers\<close>: the same loops over QGIS features: attribute tables read by
    field name (\<open>feature.attribute\<close>, \<open>KeyError\<close> for a missing field) at lines
    180 and 200--202, rows built from raw values with \<open>+\<close> and \<open>str\<close>; proved to
    refine the record-level run when the fields exist and are typed as declared.
    A layer is \<open>None\<close> when \<open>parameterAsVectorLayer\<close> finds none (lines 153--155);
    \<open>getFeatures()\<close> on it raises \<open>AttributeError\<close> (lines 156 and 198).
  \<^item> \<open>SurveyLayer\<close>: the composition of the two algorithms. The layer PNEZD import
    creates is read as QGIS's delimited-text provider reads it with the URI's
    options (columns \<open>field_1 \<dots> field_5\<close>, \<open>detectTypes\<close>: a column whose non-empty
    values all read as numbers holds numbers, an empty value is NULL, a record
    with unreadable coordinates is not loaded), and its features feed the
    station-offset run. QGIS's reading of a number is a parameter \<open>to_num\<close> of
    the lemmas; \<open>parse_decimal\<close> (plain decimal notation) instantiates it in the
    witnesses.
  \<^item> \<open>Instances\<close>: algorithm objects (class and registered declarations),
    \<open>createInstance\<close> of both algorithms, and \<open>initAlgorithm\<close> dispatched on the
    class.
  \<^item> \<open>Stations\<close>: what the written numbers mean along the alignment:
    stations grow with the feet's positions, a point on the alignment gets offset 0
    and its arc-length station, and \<open>maxOffset\<close> only filters rows.
  \<^item> \<open>Degenerate\<close>: zero-length segments (spec section 4.2): repeating a vertex
    never changes a written row; rests on the uniqueness of the closest point of a
    segment (\<open>Geometry\<close>) and on the first-minimum characterisation of the scan.
  \<^item> \<open>BatchSteps\<close>: the same run as the specification describes it, a state
    machine whose state is the alignment \<open>k\<close> it is at, or the alignment and the
    points still to project, with the lines written so far: an \<open>inductive\<close> step
    relation, one step per loop iteration, with its invariant by rule induction
    (only alignments of two or more vertices are projected, each with its own
    table, and the output only grows). Lemmas show it deterministic, equivalent to
    the functional model and terminating within \<open>N \<cdot> (M + 2) + 1\<close> steps.
  \<^item> \<open>OutputFile\<close>: the output file (lines 169--174, 209--219): a file system of
    paths and contents with the handles left open; \<open>open(\<dots>, "w")\<close> truncates,
    \<open>write\<close> appends, \<open>close\<close> releases; the call returns \<open>{OUTPUT: outfileName}\<close>
    or raises. Composes with \<open>BatchRunner\<close>: the file holds the run's lines.
  \<^item> \<open>Parameters\<close>: the interface between algorithms and the QGIS framework: a
    \<open>datatype\<close> of parameter declarations, the reads, the well-formedness predicate
    \<open>params_wf\<close> both algorithms are checked against, the registration calls
    \<open>addParameter\<close>/\<open>addOutput\<close> as state changes, and the metadata record.
  \<^item> \<open>AlgorithmConfig\<close>: the keys, \<open>initAlgorithm\<close>, the reads and the metadata of
    \<open>StationOffsetAlgorithm\<close>.
  \<^item> \<open>PNEZD\<close>: \<open>PNEZDAlgorithm\<close>: declarations, the layer URI query, field aliases and
    the project's layer list as explicit state; the delimited-text provider's row
    reading (\<open>dt_read\<close>) is modelled from QGIS's documented behaviour.
  \<^item> \<open>Plugin\<close>: the module's \<open>sys.path\<close> set-up, and \<open>StationOffsetPlugin\<close> as a
    state machine over the host's calls (\<open>inductive plugin_steps\<close>; a call that
    raises leaves the state unchanged). Provider objects have identity, as in
    QGIS's C++ registry: the registry is keyed by provider id and owns its
    providers, \<open>addProvider\<close> deletes a provider it refuses as a duplicate,
    \<open>removeProvider\<close> deletes the provider it removes, and a deleted object passed
    again from Python raises \<open>RuntimeError\<close>.
  \<^item> \<open>Instances\<close>: algorithm objects and \<open>createInstance\<close> (no property of the
    manifest; the lemmas record that a fresh object accepts its declarations once).
  \<^item> this theory: the multi-part policy, which spans the geometry access and the
    run.

  \<^bold>\<open>What is proved.\<close>
  The per-point columns refine the specification (least-index nearest segment,
  clamped foot, station as path length plus distance along the segment, marker
  exactly when every point of the polyline is farther than \<open>maxOffset\<close>). Stations
  are bounded by the ends of their segment, grow along the alignment, and equal the
  arc length for points on it; a larger \<open>maxOffset\<close> never changes a written number;
  repeating a vertex never changes a written row, and an alignment whose vertices
  all coincide is processed (station 0, offset the distance to the vertex), not
  skipped. \<open>vertex_m\<close> is the cumulative
  length table: non-decreasing, starting at 0, ending at the polyline's length.

  The whole run refines the specification's Cartesian product of rows, and every
  state of the step semantics satisfies the runner's invariant. Cancellation yields the run over the first \<open>k\<close> alignments;
  output is append-only; short alignments are skipped; only the first part of a
  multi-part alignment counts. Reading attributes from QGIS features by field name
  gives the same run when the layers have the declared fields; a missing line
  layer raises before the file is opened, a missing point layer only at the first
  alignment that is projected (until then the file holds the header alone). Run on
  the layer PNEZD import creates, with the fields aliased PN, Elevation and
  Description, the station-offset algorithm processes exactly the survey points the
  file describes, at (Easting, Northing), unless every description reads as a
  number: type detection then makes the descriptions numbers and the run aborts with
  \<open>TypeError\<close> at the first point. On disk, the file
  holds the lines of the run and running twice is the same as running once. Every
  error path is a value: \<open>UnboundLocalError\<close> on an unopenable file (where
  \<open>{}\<close> was meant), and otherwise only \<open>IndexError\<close> on an empty multi-part geometry
  or \<open>TypeError\<close> on NULL (or, through type detection, numeric) descriptions;
  \<open>KeyError\<close> on a missing field and \<open>AttributeError\<close> on a missing layer.

  Every \<open>maxOffset\<close> the declared parameter accepts keeps points on the alignment
  in range. The PNEZD layer reads x from the Easting and y from the Northing
  column. The plugin's \<open>self.provider\<close> is always the registered provider or a
  deleted object; \<open>unload\<close> removes a live one and raises \<open>RuntimeError\<close> on a
  deleted one; and when \<open>initGui\<close> runs after \<open>initProcessing\<close> (or the id is taken
  otherwise) the new provider is deleted on refusal, \<open>unload\<close> raises, and the
  id stays registered in every later state.

  \<^bold>\<open>Bounds and termination.\<close>
  No fuel is used: every loop runs over a finite list or, for \<open>vertex_m\<close>, an index
  bounded by the list's length, and is total by its \<open>fun\<close>/\<open>function\<close> definition.

  \<^bold>\<open>Not modelled.\<close>
  Layers of providers other than the PNEZD delimited-text layer (their features
  are given as lists, in the iteration order of \<open>getFeatures()\<close>); the delimited-text
  provider's options that the code does not set (a header row, trimming, quoting);
  number notations beyond plain decimals in \<open>parse_decimal\<close> (exponents, a leading
  \<open>+\<close> or \<open>.\<close>), which the lemmas do not depend on since \<open>to_num\<close> is a
  parameter; integer versus real columns (both are numbers, printed by
  \<open>py_str\<close>); Python's write
  buffering (a write is modelled as reaching the file at once, so what an unclosed
  handle has flushed is not modelled); the text encoding of the file;
  \<open>print\<close> (console output only); \<open>QCoreApplication.translate\<close> (the identity);
  the fixed scenarios of the spec are not stated as properties (their general forms
  are: C1, C7, C8, C10, C14);
  QUrl encoding (the URI is kept as its list of query items); the license headers and imports of the three files; and the provider class (not
  among the sources) beyond its id.
  The projector's optional cancellation polls are not modelled, since the code of
  the projector is not in the repository. Float rounding is not modelled:
  arithmetic is exact.

  \<^bold>\<open>Next steps.\<close>
  A floating-point error bound for the projector; a model of Python's \<open>str\<close> of
  floats and of integer columns, to state the CSV numbers as text.
\<close>

section \<open>Multi-part alignments\<close>

text \<open>The policy for multi-part alignments (spec sections 6 and 9): a feature reduced to its first part.\<close>

definition first_part :: "lineFeature \<Rightarrow> lineFeature" where
  "first_part lf =
     (case line_geometry lf of
        MultiLineString (p # ps) \<Rightarrow> lf\<lparr>line_geometry := LineString p\<rparr>
      | _ \<Rightarrow> lf)"

lemma run_lines_cong:
  "list_all2 (\<lambda>a b. verticies_of (line_geometry a) = verticies_of (line_geometry b) \<and> line_name a = line_name b) lfs lfs' \<Longrightarrow>
   run_lines py_str c m pfs k lfs out = run_lines py_str c m pfs k lfs' out"
proof (induction lfs lfs' arbitrary: k out rule: list_all2_induct)
  case (Cons a as b bs)
  then show ?case by (simp split: sum.splits prod.splits outcome.splits)
qed simp

lemma first_part_same:
  "verticies_of (line_geometry (first_part lf)) = verticies_of (line_geometry lf) \<and> line_name (first_part lf) = line_name lf"
  by (simp add: first_part_def verticies_of_def split: geometry.splits list.splits)

text \<open>C27: only the first part of a multi-part alignment is used: replacing every multi-part alignment by its first part leaves the outcome and the whole output of the run unchanged, whatever the other parts are (an empty multi-part geometry still raises, as C11 shows).\<close>

theorem multipart_first_part:
  "processAlgorithm py_str ok c m (map first_part lfs) pfs = processAlgorithm py_str ok c m lfs pfs"
proof -
  have "list_all2 (\<lambda>a b. verticies_of (line_geometry a) = verticies_of (line_geometry b) \<and> line_name a = line_name b)
          (map first_part lfs) lfs"
    by (simp add: list_all2_map1 list_all2_refl first_part_same)
  then show ?thesis by (simp add: processAlgorithm_def run_lines_cong)
qed

end
